theory Spec2Isabelle
  imports Complex_Main "HOL-Library.Word" "HOL-Library.AList" "HOL-Library.Multiset"
begin

unbundle bit_operations_syntax

section \<open>The alphaTex importer (src/importer/AlphaTexImporter.ts)\<close>

text \<open>
  A shallow embedding of the recursive-descent parser of \<^verbatim>\<open>AlphaTexImporter\<close>. The importer's
  private fields become one record that every production takes and returns; a thrown error is
  the left injection of the result. The character-level lexer is not part of the model: the
  input is the sequence of terminals that \<^verbatim>\<open>newSy\<close> delivers, each with the payload the lexer
  attaches to it, so the three lexer mode flags (negative numbers, floats, tuning names) do not
  appear: the terminals are the ones the lexer delivers in the mode the parser is in when it
  asks for them.
\<close>

subsection \<open>Strings\<close>

text \<open>\<^verbatim>\<open>String.prototype.toLowerCase\<close> on the ASCII range.\<close>

definition lowerChar :: "char \<Rightarrow> char" where
  "lowerChar c =
     (case map_of (zip ''ABCDEFGHIJKLMNOPQRSTUVWXYZ'' ''abcdefghijklmnopqrstuvwxyz'') c of
        Some d \<Rightarrow> d
      | None \<Rightarrow> c)"

definition toLowerCase :: "string \<Rightarrow> string" where
  "toLowerCase s = map lowerChar s"

subsection \<open>Enumerations of the model\<close>

datatype AlphaTexSymbols =
    No | Eof | Number | DoubleDot | Dot | String | Tuning | LParensis | RParensis
  | LBrace | RBrace | Pipe | MetaCommand | Multiply | LowerThan

datatype Clef = Neutral | C3 | C4 | F4 | G2

datatype TripletFeel =
    NoTripletFeel | Triplet16th | Triplet8th | Dotted16th | Dotted8th | Scottish16th | Scottish8th

datatype KeySignature =
    KeySignature_Cb | KeySignature_Gb | KeySignature_Db | KeySignature_Ab | KeySignature_Eb
  | KeySignature_Bb | KeySignature_F | KeySignature_C | KeySignature_G | KeySignature_D
  | KeySignature_A | KeySignature_E | KeySignature_B | KeySignature_FSharp | KeySignature_CSharp

datatype KeySignatureType = Major | Minor

datatype Duration =
    QuadrupleWhole | DoubleWhole | Whole | Half | Quarter | Eighth | Sixteenth | ThirtySecond
  | SixtyFourth | OneHundredTwentyEighth | TwoHundredFiftySixth

datatype DynamicValue =
    DynamicValue_PPP | DynamicValue_PP | DynamicValue_P | DynamicValue_MP | DynamicValue_MF
  | DynamicValue_F | DynamicValue_FF | DynamicValue_FFF

datatype Fingers =
    Fingers_Unknown | Thumb | IndexFinger | MiddleFinger | AnnularFinger | LittleFinger

datatype GraceType = GraceType_None | OnBeat | BeforeBeat | BendGrace

datatype HarmonicType = HarmonicType_None | Natural | Artificial | Pinch | Tap | Semi

datatype PickStroke = PickStroke_None | PickStroke_Up | PickStroke_Down

datatype SlideInType = SlideInType_None | IntoFromBelow | IntoFromAbove

datatype SlideOutType =
    SlideOutType_None | Shift | Legato | OutUp | OutDown | PickSlideDown | PickSlideUp

datatype VibratoType = VibratoType_None | Slight

datatype AccentuationType = AccentuationType_None | Normal | Heavy

datatype BrushType = BrushType_None | BrushUp | BrushDown | ArpeggioUp | ArpeggioDown

datatype CrescendoType = CrescendoType_None | Crescendo | Decrescendo

datatype AutomationType = Tempo | Volume | Instrument | Balance

subsection \<open>Enum-like values read from strings and numbers\<close>

definition parseClefFromString :: "string \<Rightarrow> Clef" where
  "parseClefFromString str =
     (let s = toLowerCase str in
      if s = ''g2'' \<or> s = ''treble'' then G2
      else if s = ''f4'' \<or> s = ''bass'' then F4
      else if s = ''c3'' \<or> s = ''tenor'' then C3
      else if s = ''c4'' \<or> s = ''alto'' then C4
      else if s = ''n'' \<or> s = ''neutral'' then Neutral
      else G2)"

definition parseClefFromInt :: "int \<Rightarrow> Clef" where
  "parseClefFromInt i =
     (if i = 43 then G2
      else if i = 65 then F4
      else if i = 48 then C3
      else if i = 60 then C4
      else G2)"

definition parseTripletFeelFromString :: "string \<Rightarrow> TripletFeel" where
  "parseTripletFeelFromString str =
     (let s = toLowerCase str in
      if s = ''no'' \<or> s = ''none'' then NoTripletFeel
      else if s = ''t16'' \<or> s = ''triplet-16th'' then Triplet16th
      else if s = ''t8'' \<or> s = ''triplet-8th'' then Triplet8th
      else if s = ''d16'' \<or> s = ''dotted-16th'' then Dotted16th
      else if s = ''d8'' \<or> s = ''dotted-8th'' then Dotted8th
      else if s = ''s16'' \<or> s = ''scottish-16th'' then Scottish16th
      else if s = ''s8'' \<or> s = ''scottish-8th'' then Scottish8th
      else NoTripletFeel)"

definition parseTripletFeelFromInt :: "int \<Rightarrow> TripletFeel" where
  "parseTripletFeelFromInt i =
     (if i = 0 then NoTripletFeel
      else if i = 1 then Triplet16th
      else if i = 2 then Triplet8th
      else if i = 3 then Dotted16th
      else if i = 4 then Dotted8th
      else if i = 5 then Scottish16th
      else if i = 6 then Scottish8th
      else NoTripletFeel)"

definition parseKeySignature :: "string \<Rightarrow> KeySignature" where
  "parseKeySignature str =
     (let s = toLowerCase str in
      if s = ''cb'' \<or> s = ''cbmajor'' then KeySignature_Cb
      else if s = ''gb'' \<or> s = ''gbmajor'' \<or> s = ''d#minor'' then KeySignature_Gb
      else if s = ''db'' \<or> s = ''dbmajor'' \<or> s = ''bbminor'' then KeySignature_Db
      else if s = ''ab'' \<or> s = ''abmajor'' \<or> s = ''fminor'' then KeySignature_Ab
      else if s = ''eb'' \<or> s = ''ebmajor'' \<or> s = ''cminor'' then KeySignature_Eb
      else if s = ''bb'' \<or> s = ''bbmajor'' \<or> s = ''gminor'' then KeySignature_Bb
      else if s = ''f'' \<or> s = ''fmajor'' \<or> s = ''dminor'' then KeySignature_F
      else if s = ''c'' \<or> s = ''cmajor'' \<or> s = ''aminor'' then KeySignature_C
      else if s = ''g'' \<or> s = ''gmajor'' \<or> s = ''eminor'' then KeySignature_G
      else if s = ''d'' \<or> s = ''dmajor'' \<or> s = ''bminor'' then KeySignature_D
      else if s = ''a'' \<or> s = ''amajor'' \<or> s = ''f#minor'' then KeySignature_A
      else if s = ''e'' \<or> s = ''emajor'' \<or> s = ''c#minor'' then KeySignature_E
      else if s = ''b'' \<or> s = ''bmajor'' \<or> s = ''g#minor'' then KeySignature_B
      else if s = ''f#'' \<or> s = ''f#major'' \<or> s = ''ebminor'' then KeySignature_FSharp
      else if s = ''c#'' \<or> s = ''c#major'' then KeySignature_CSharp
      else KeySignature_C)"

definition toFinger :: "int \<Rightarrow> Fingers" where
  "toFinger num =
     (if num = 1 then Thumb
      else if num = 2 then IndexFinger
      else if num = 3 then MiddleFinger
      else if num = 4 then AnnularFinger
      else if num = 5 then LittleFinger
      else Thumb)"

definition parseDuration :: "int \<Rightarrow> Duration" where
  "parseDuration duration =
     (if duration = - 4 then QuadrupleWhole
      else if duration = - 2 then DoubleWhole
      else if duration = 1 then Whole
      else if duration = 2 then Half
      else if duration = 4 then Quarter
      else if duration = 8 then Eighth
      else if duration = 16 then Sixteenth
      else if duration = 32 then ThirtySecond
      else if duration = 64 then SixtyFourth
      else if duration = 128 then OneHundredTwentyEighth
      else if duration = 256 then TwoHundredFiftySixth
      else Quarter)"

definition isNoteText :: "string \<Rightarrow> bool" where
  "isNoteText txt \<longleftrightarrow> txt = ''x'' \<or> txt = ''-'' \<or> txt = ''r''"

text \<open>The spellings the three string switches recognise, as their \<^verbatim>\<open>case\<close> labels list them.\<close>

definition clefSpellings :: "(string \<times> Clef) list" where
  "clefSpellings =
     [(''g2'', G2), (''treble'', G2), (''f4'', F4), (''bass'', F4), (''c3'', C3), (''tenor'', C3),
      (''c4'', C4), (''alto'', C4), (''n'', Neutral), (''neutral'', Neutral)]"

definition tripletFeelSpellings :: "(string \<times> TripletFeel) list" where
  "tripletFeelSpellings =
     [(''no'', NoTripletFeel), (''none'', NoTripletFeel),
      (''t16'', Triplet16th), (''triplet-16th'', Triplet16th),
      (''t8'', Triplet8th), (''triplet-8th'', Triplet8th),
      (''d16'', Dotted16th), (''dotted-16th'', Dotted16th),
      (''d8'', Dotted8th), (''dotted-8th'', Dotted8th),
      (''s16'', Scottish16th), (''scottish-16th'', Scottish16th),
      (''s8'', Scottish8th), (''scottish-8th'', Scottish8th)]"

definition keySignatureSpellings :: "(string \<times> KeySignature) list" where
  "keySignatureSpellings =
     [(''cb'', KeySignature_Cb), (''cbmajor'', KeySignature_Cb),
      (''gb'', KeySignature_Gb), (''gbmajor'', KeySignature_Gb), (''d#minor'', KeySignature_Gb),
      (''db'', KeySignature_Db), (''dbmajor'', KeySignature_Db), (''bbminor'', KeySignature_Db),
      (''ab'', KeySignature_Ab), (''abmajor'', KeySignature_Ab), (''fminor'', KeySignature_Ab),
      (''eb'', KeySignature_Eb), (''ebmajor'', KeySignature_Eb), (''cminor'', KeySignature_Eb),
      (''bb'', KeySignature_Bb), (''bbmajor'', KeySignature_Bb), (''gminor'', KeySignature_Bb),
      (''f'', KeySignature_F), (''fmajor'', KeySignature_F), (''dminor'', KeySignature_F),
      (''c'', KeySignature_C), (''cmajor'', KeySignature_C), (''aminor'', KeySignature_C),
      (''g'', KeySignature_G), (''gmajor'', KeySignature_G), (''eminor'', KeySignature_G),
      (''d'', KeySignature_D), (''dmajor'', KeySignature_D), (''bminor'', KeySignature_D),
      (''a'', KeySignature_A), (''amajor'', KeySignature_A), (''f#minor'', KeySignature_A),
      (''e'', KeySignature_E), (''emajor'', KeySignature_E), (''c#minor'', KeySignature_E),
      (''b'', KeySignature_B), (''bmajor'', KeySignature_B), (''g#minor'', KeySignature_B),
      (''f#'', KeySignature_FSharp), (''f#major'', KeySignature_FSharp),
      (''ebminor'', KeySignature_FSharp),
      (''c#'', KeySignature_CSharp), (''c#major'', KeySignature_CSharp)]"

subsection \<open>Terminals with their payload\<close>

record TuningParseResult =
  tuning_octave :: int
  tuning_noteValue :: int
  tuning_realValue :: int

text \<open>
  \<^verbatim>\<open>readNumber\<close> returns \<^verbatim>\<open>parseInt\<close> of the characters it has collected, and \<^verbatim>\<open>parseFloat\<close> of
  them while floats are allowed (the value of \<^verbatim>\<open>\tempo\<close>). A number payload is therefore an
  integer, a decimal fraction where floats are allowed, or \<^verbatim>\<open>NaN\<close>: while negative numbers are
  allowed a run of characters that starts with a minus sign is a number, and \<^verbatim>\<open>parseInt\<close> has
  no value for a lone minus sign.

  The numbers of the source are doubles. \<^verbatim>\<open>roundDouble\<close> is the rounding of an integer to the
  nearest double, ties to the even significand of 53 bits; every integer of magnitude
  \<open>2 ^ 1024\<close> or more stands for the infinite value of its sign. An integer below \<open>2 ^ 53\<close> is
  its own double.
\<close>

fun bitLength :: "nat \<Rightarrow> nat" where
  "bitLength n = (if n = 0 then 0 else Suc (bitLength (n div 2)))"

declare bitLength.simps [simp del]

definition roundDouble :: "int \<Rightarrow> int" where
  "roundDouble x =
     (let a = \<bar>x\<bar> in
      if a < 2 ^ 53 then x
      else
        (let e = bitLength (nat a) - 53;
             q = a div 2 ^ e;
             r = a mod 2 ^ e;
             half = 2 ^ (e - 1);
             q = (if r > half \<or> (r = half \<and> odd q) then q + 1 else q);
             y = q * 2 ^ e
         in sgn x * (if y \<ge> 2 ^ 1024 then 2 ^ 1024 else y)))"

text \<open>\<^verbatim>\<open>a - b\<close> on two integer payloads.\<close>

definition jsMinus :: "int \<Rightarrow> int \<Rightarrow> int" where
  "jsMinus a b = roundDouble (roundDouble a - roundDouble b)"

datatype JsNumber = IntNumber int | NaN

text \<open>
  \<^verbatim>\<open>_syData\<close> holds a number, a string or a tuning. A terminal without payload leaves the
  previous payload in place. \<^verbatim>\<open>TokNumber n\<close> is a number terminal that \<^verbatim>\<open>parseInt\<close> reads as \<open>n\<close>,
  \<^verbatim>\<open>TokDecimal r\<close> one that \<^verbatim>\<open>parseFloat\<close> reads as \<open>r\<close>, and \<^verbatim>\<open>TokNaN\<close> one that has no value.
\<close>

datatype SyData =
    NumData int | DecimalData rat | NaNData | StrData string | TuningData TuningParseResult

datatype Token =
    TokNumber int | TokDecimal rat | TokNaN | TokString string | TokTuning TuningParseResult
  | TokMetaCommand string
  | TokDoubleDot | TokDot | TokLParensis | TokRParensis | TokLBrace | TokRBrace | TokPipe
  | TokMultiply | TokLowerThan

datatype error =
    AlphaTexSymbolError string AlphaTexSymbols AlphaTexSymbols
  | AlphaTexMessage string
  | TypeError
  | NonTermination
  | UnsupportedFormatError string
  | UnsupportedFormatCause error

subsection \<open>The score model, as far as the importer writes it\<close>

text \<open>
  The classes of \<^verbatim>\<open>@src/model\<close> are not among the sources. Each is a record of the fields the
  importer reads or writes; a freshly constructed object carries the neutral value of every
  field (no notes, flags unset, the \<^verbatim>\<open>None\<close> member of an enumeration).
\<close>

record BendPoint =
  bp_offset :: JsNumber
  bp_value :: JsNumber

record Automation =
  automation_isLinear :: bool
  automation_type :: AutomationType
  automation_value :: rat

record Note =
  note_string :: int
  note_fret :: int
  note_octave :: int
  note_tone :: int
  note_percussionArticulation :: int
  note_isDead :: bool
  note_isTieDestination :: bool
  note_bendPoints :: "BendPoint list option"
  note_harmonicType :: HarmonicType
  note_trillValue :: int
  note_trillSpeed :: Duration
  note_vibrato :: VibratoType
  note_slideInType :: SlideInType
  note_slideOutType :: SlideOutType
  note_isHammerPullOrigin :: bool
  note_isLeftHandTapped :: bool
  note_isGhost :: bool
  note_accentuated :: AccentuationType
  note_isPalmMute :: bool
  note_isStaccato :: bool
  note_isLetRing :: bool
  note_leftHandFinger :: Fingers
  note_rightHandFinger :: Fingers

text \<open>
  The brush duration is either given in the input or computed by \<^verbatim>\<open>Beat.updateDurations\<close>
  (not among the sources) from the playback duration; the computed number is not modelled.
\<close>

datatype BrushDuration = BrushDuration_Default | BrushDuration_Explicit int | BrushDuration_Calculated

record Beat =
  beat_notes :: "Note list"
  beat_isEmpty :: bool
  beat_duration :: Duration
  beat_dynamics :: DynamicValue
  beat_tupletNumerator :: int
  beat_tupletDenominator :: int
  beat_dots :: int
  beat_fadeIn :: bool
  beat_vibrato :: VibratoType
  beat_slap :: bool
  beat_pop :: bool
  beat_tap :: bool
  beat_pickStroke :: PickStroke
  beat_whammyBarPoints :: "BendPoint list option"
  beat_brushType :: BrushType
  beat_brushDuration :: BrushDuration
  beat_chordId :: "string option"
  beat_graceType :: GraceType
  beat_crescendo :: CrescendoType
  beat_automations :: "Automation list"
  beat_tremoloSpeed :: "Duration option"

record Voice =
  voice_beats :: "Beat list"

record Bar =
  bar_clef :: Clef
  bar_voices :: "Voice list"

record Chord =
  chord_name :: string
  chord_firstFret :: int
  chord_showDiagram :: bool
  chord_showFingering :: bool
  chord_showName :: bool
  chord_barreFrets :: "int list"
  chord_strings :: "int list"

record Staff =
  staff_bars :: "Bar list"
  staff_tunings :: "int list"
  staff_capo :: int
  staff_displayTranspositionPitch :: int
  staff_isPercussion :: bool
  staff_showStandardNotation :: bool
  staff_showTablature :: bool
  staff_showSlash :: bool
  staff_chords :: "(string \<times> Chord) list"

record Track =
  track_name :: string
  track_shortName :: string
  track_program :: int
  track_primaryChannel :: int
  track_secondaryChannel :: int
  track_staves :: "Staff list"

record Section =
  section_marker :: string
  section_text :: string

record MasterBar =
  master_keySignature :: KeySignature
  master_keySignatureType :: KeySignatureType
  master_timeSignatureNumerator :: int
  master_timeSignatureDenominator :: int
  master_tripletFeel :: TripletFeel
  master_isRepeatStart :: bool
  master_repeatCount :: int
  master_alternateEndings :: int
  master_isAnacrusis :: bool
  master_section :: "Section option"
  master_tempoAutomations :: "Automation list"

record Lyrics =
  lyrics_startBar :: int
  lyrics_text :: string

record Score =
  score_title :: string
  score_subTitle :: string
  score_artist :: string
  score_album :: string
  score_words :: string
  score_music :: string
  score_copyright :: string
  score_tempo :: rat
  score_tempoLabel :: string
  score_tracks :: "Track list"
  score_masterBars :: "MasterBar list"

text \<open>
  Tables and methods of classes outside the sources that the importer consults: the default
  six-string tuning, the General MIDI program of an instrument name, the known percussion
  articulation ids and their default names, and the tuning of the string a note sits on.
  \<^verbatim>\<open>Array.prototype.sort\<close> is a stable sort when the comparison function is consistent; an
  offset that is \<^verbatim>\<open>NaN\<close> makes the comparison of the offsets inconsistent, and the order the
  points are left in is then the implementation's: \<^verbatim>\<open>env_sortInconsistent\<close>.
\<close>

record Env =
  env_defaultTuning6 :: "int list"
  env_gmValue :: "string \<Rightarrow> int"
  env_articulationKnown :: "int \<Rightarrow> bool"
  env_articulationNames :: "(string \<times> int) list"
  env_stringTuning :: "Staff \<Rightarrow> Note \<Rightarrow> int"
  env_sortInconsistent :: "BendPoint list \<Rightarrow> BendPoint list"

text \<open>
  Modelled from the spec: the classes of the score model are outside the sources. A new object
  carries the initial values of its fields. In a new beat the empty flag is unset and there
  are no notes: the importer sets the flag itself on the beats it creates as placeholders.
\<close>

definition new_Note :: Note where
  "new_Note =
     \<lparr>note_string = - 1, note_fret = - 1, note_octave = - 1, note_tone = - 1,
      note_percussionArticulation = - 1, note_isDead = False, note_isTieDestination = False,
      note_bendPoints = None, note_harmonicType = HarmonicType_None, note_trillValue = - 1,
      note_trillSpeed = ThirtySecond, note_vibrato = VibratoType_None,
      note_slideInType = SlideInType_None, note_slideOutType = SlideOutType_None,
      note_isHammerPullOrigin = False, note_isLeftHandTapped = False, note_isGhost = False,
      note_accentuated = AccentuationType_None, note_isPalmMute = False, note_isStaccato = False,
      note_isLetRing = False, note_leftHandFinger = Fingers_Unknown,
      note_rightHandFinger = Fingers_Unknown\<rparr>"

definition new_Beat :: Beat where
  "new_Beat =
     \<lparr>beat_notes = [], beat_isEmpty = False, beat_duration = Quarter,
      beat_dynamics = DynamicValue_F, beat_tupletNumerator = - 1, beat_tupletDenominator = - 1,
      beat_dots = 0, beat_fadeIn = False, beat_vibrato = VibratoType_None, beat_slap = False,
      beat_pop = False, beat_tap = False, beat_pickStroke = PickStroke_None,
      beat_whammyBarPoints = None, beat_brushType = BrushType_None,
      beat_brushDuration = BrushDuration_Default, beat_chordId = None,
      beat_graceType = GraceType_None, beat_crescendo = CrescendoType_None,
      beat_automations = [], beat_tremoloSpeed = None\<rparr>"

definition new_Voice :: Voice where
  "new_Voice = \<lparr>voice_beats = []\<rparr>"

definition new_Bar :: Bar where
  "new_Bar = \<lparr>bar_clef = G2, bar_voices = []\<rparr>"

definition new_Chord :: Chord where
  "new_Chord =
     \<lparr>chord_name = [], chord_firstFret = 1, chord_showDiagram = True,
      chord_showFingering = True, chord_showName = True, chord_barreFrets = [],
      chord_strings = []\<rparr>"

definition new_Staff :: Staff where
  "new_Staff =
     \<lparr>staff_bars = [], staff_tunings = [], staff_capo = 0, staff_displayTranspositionPitch = 0,
      staff_isPercussion = False, staff_showStandardNotation = True, staff_showTablature = True,
      staff_showSlash = False, staff_chords = []\<rparr>"

definition new_Track :: Track where
  "new_Track =
     \<lparr>track_name = [], track_shortName = [], track_program = 0, track_primaryChannel = 0,
      track_secondaryChannel = 0, track_staves = []\<rparr>"

definition new_MasterBar :: MasterBar where
  "new_MasterBar =
     \<lparr>master_keySignature = KeySignature_C, master_keySignatureType = Major,
      master_timeSignatureNumerator = 4, master_timeSignatureDenominator = 4,
      master_tripletFeel = NoTripletFeel, master_isRepeatStart = False, master_repeatCount = 0,
      master_alternateEndings = 0, master_isAnacrusis = False, master_section = None,
      master_tempoAutomations = []\<rparr>"

definition new_Score :: Score where
  "new_Score =
     \<lparr>score_title = [], score_subTitle = [], score_artist = [], score_album = [],
      score_words = [], score_music = [], score_copyright = [], score_tempo = 120,
      score_tempoLabel = [], score_tracks = [], score_masterBars = []\<rparr>"

text \<open>\<^verbatim>\<open>Beat.hasTuplet\<close>: a tuplet other than the unset (-1/-1) and the trivial (1/1) one.\<close>

definition hasTuplet :: "Beat \<Rightarrow> bool" where
  "hasTuplet b \<longleftrightarrow>
     \<not> (beat_tupletDenominator b = - 1 \<and> beat_tupletNumerator b = - 1) \<and>
     \<not> (beat_tupletDenominator b = 1 \<and> beat_tupletNumerator b = 1)"

text \<open>\<^verbatim>\<open>Track.ensureStaveCount\<close>: staves are appended until the track has the given number.\<close>

definition ensureStaveCount :: "nat \<Rightarrow> Track \<Rightarrow> Track" where
  "ensureStaveCount n t =
     t\<lparr>track_staves := track_staves t @ replicate (n - length (track_staves t)) new_Staff\<rparr>"

subsection \<open>The importer's fields\<close>

record Importer =
  score :: Score
  trackChannel :: int
  currentTrack :: nat
  currentStaff :: nat
  sy :: AlphaTexSymbols
  syData :: SyData
  input :: "Token list"
  currentDuration :: Duration
  currentDynamics :: DynamicValue
  currentTuplet :: int
  lyrics :: "(nat \<times> Lyrics list) list"
  staffHasExplicitTuning :: bool
  staffTuningApplied :: bool
  percussionArticulationNames :: "(string \<times> int) list"

text \<open>
  Objects are addressed by position: the current track is an index into the score's tracks,
  the current staff an index into that track's staves; the bar, voice, beat and note a
  production works on are the last ones added below the current staff.
\<close>

fun map_nth :: "nat \<Rightarrow> ('a \<Rightarrow> 'a) \<Rightarrow> 'a list \<Rightarrow> 'a list" where
  "map_nth i f [] = []"
| "map_nth 0 f (x # xs) = f x # xs"
| "map_nth (Suc i) f (x # xs) = x # map_nth i f xs"

definition map_last :: "('a \<Rightarrow> 'a) \<Rightarrow> 'a list \<Rightarrow> 'a list" where
  "map_last f xs = map_nth (length xs - 1) f xs"

lemma length_map_nth [simp]: "length (map_nth i f xs) = length xs"
  by (induction i f xs rule: map_nth.induct) auto

lemma length_map_last [simp]: "length (map_last f xs) = length xs"
  by (simp add: map_last_def)

definition curTrack :: "Importer \<Rightarrow> Track" where
  "curTrack st = score_tracks (score st) ! currentTrack st"

definition curStaff :: "Importer \<Rightarrow> Staff" where
  "curStaff st = track_staves (curTrack st) ! currentStaff st"

definition curBar :: "Importer \<Rightarrow> Bar" where
  "curBar st = last (staff_bars (curStaff st))"

definition curVoice :: "Importer \<Rightarrow> Voice" where
  "curVoice st = bar_voices (curBar st) ! 0"

definition curBeat :: "Importer \<Rightarrow> Beat" where
  "curBeat st = last (voice_beats (curVoice st))"

definition curNote :: "Importer \<Rightarrow> Note" where
  "curNote st = last (beat_notes (curBeat st))"

definition upd_curTrack :: "(Track \<Rightarrow> Track) \<Rightarrow> Importer \<Rightarrow> Importer" where
  "upd_curTrack f st = st\<lparr>score := score_tracks_update (map_nth (currentTrack st) f) (score st)\<rparr>"

definition upd_curStaff :: "(Staff \<Rightarrow> Staff) \<Rightarrow> Importer \<Rightarrow> Importer" where
  "upd_curStaff f st = upd_curTrack (track_staves_update (map_nth (currentStaff st) f)) st"

definition upd_curBar :: "(Bar \<Rightarrow> Bar) \<Rightarrow> Importer \<Rightarrow> Importer" where
  "upd_curBar f st = upd_curStaff (staff_bars_update (map_last f)) st"

definition upd_curVoice :: "(Voice \<Rightarrow> Voice) \<Rightarrow> Importer \<Rightarrow> Importer" where
  "upd_curVoice f st = upd_curBar (bar_voices_update (map_nth 0 f)) st"

definition upd_curBeat :: "(Beat \<Rightarrow> Beat) \<Rightarrow> Importer \<Rightarrow> Importer" where
  "upd_curBeat f st = upd_curVoice (voice_beats_update (map_last f)) st"

definition upd_curNote :: "(Note \<Rightarrow> Note) \<Rightarrow> Importer \<Rightarrow> Importer" where
  "upd_curNote f st = upd_curBeat (beat_notes_update (map_last f)) st"

text \<open>\<^verbatim>\<open>bar.masterBar\<close>: the master bar at the index of the current staff's last bar.\<close>

definition curMasterIndex :: "Importer \<Rightarrow> nat" where
  "curMasterIndex st = length (staff_bars (curStaff st)) - 1"

definition curMaster :: "Importer \<Rightarrow> MasterBar" where
  "curMaster st = score_masterBars (score st) ! curMasterIndex st"

definition upd_curMaster :: "(MasterBar \<Rightarrow> MasterBar) \<Rightarrow> Importer \<Rightarrow> Importer" where
  "upd_curMaster f st =
     st\<lparr>score := score_masterBars_update (map_nth (curMasterIndex st) f) (score st)\<rparr>"

subsection \<open>Reading terminals\<close>

fun tokenSymbol :: "Token \<Rightarrow> AlphaTexSymbols" where
  "tokenSymbol (TokNumber n) = Number"
| "tokenSymbol (TokDecimal r) = Number"
| "tokenSymbol TokNaN = Number"
| "tokenSymbol (TokString s) = String"
| "tokenSymbol (TokTuning t) = Tuning"
| "tokenSymbol (TokMetaCommand s) = MetaCommand"
| "tokenSymbol TokDoubleDot = DoubleDot"
| "tokenSymbol TokDot = Dot"
| "tokenSymbol TokLParensis = LParensis"
| "tokenSymbol TokRParensis = RParensis"
| "tokenSymbol TokLBrace = LBrace"
| "tokenSymbol TokRBrace = RBrace"
| "tokenSymbol TokPipe = Pipe"
| "tokenSymbol TokMultiply = Multiply"
| "tokenSymbol TokLowerThan = LowerThan"

fun tokenData :: "Token \<Rightarrow> SyData \<Rightarrow> SyData" where
  "tokenData (TokNumber n) d = NumData n"
| "tokenData (TokDecimal r) d = DecimalData r"
| "tokenData TokNaN d = NaNData"
| "tokenData (TokString s) d = StrData s"
| "tokenData (TokTuning t) d = TuningData t"
| "tokenData (TokMetaCommand s) d = StrData s"
| "tokenData t d = d"

text \<open>\<^verbatim>\<open>newSy\<close>: the next terminal becomes the current one; past the last one it is \<^verbatim>\<open>Eof\<close>.\<close>

definition newSy :: "Importer \<Rightarrow> Importer" where
  "newSy st =
     (case input st of
        [] \<Rightarrow> st\<lparr>sy := Eof\<rparr>
      | t # ts \<Rightarrow> st\<lparr>sy := tokenSymbol t, syData := tokenData t (syData st), input := ts\<rparr>)"

text \<open>
  The casts \<^verbatim>\<open>_syData as number\<close>, \<^verbatim>\<open>as string\<close> and \<^verbatim>\<open>as TuningParseResult\<close> where the source
  has checked the terminal kind before; the fallback value is never read there.
\<close>

definition asNumber :: "SyData \<Rightarrow> int" where
  "asNumber d = (case d of NumData n \<Rightarrow> n | _ \<Rightarrow> 0)"

text \<open>
  The cast \<^verbatim>\<open>_syData as number\<close> of a number terminal that was read while negative numbers
  were allowed, and of one that was read while floats were allowed.
\<close>

definition asJsNumber :: "SyData \<Rightarrow> JsNumber" where
  "asJsNumber d = (case d of NumData n \<Rightarrow> IntNumber n | NaNData \<Rightarrow> NaN | _ \<Rightarrow> IntNumber 0)"

definition asFloat :: "SyData \<Rightarrow> rat" where
  "asFloat d = (case d of NumData n \<Rightarrow> of_int n | DecimalData r \<Rightarrow> r | _ \<Rightarrow> 0)"

text \<open>\<^verbatim>\<open>parseDuration\<close> of a number that may be \<^verbatim>\<open>NaN\<close>, which is no case label.\<close>

definition parseDurationNumber :: "JsNumber \<Rightarrow> Duration" where
  "parseDurationNumber duration =
     (case duration of IntNumber n \<Rightarrow> parseDuration n | NaN \<Rightarrow> Quarter)"

definition asString :: "SyData \<Rightarrow> string" where
  "asString d = (case d of StrData s \<Rightarrow> s | _ \<Rightarrow> [])"

definition asTuning :: "SyData \<Rightarrow> TuningParseResult" where
  "asTuning d =
     (case d of TuningData t \<Rightarrow> t | _ \<Rightarrow> \<lparr>tuning_octave = 0, tuning_noteValue = 0, tuning_realValue = 0\<rparr>)"

text \<open>
  \<^verbatim>\<open>(_syData as string).toLowerCase()\<close> where the terminal kind was not checked: a payload
  that is no string has no such method, and the call throws a \<^verbatim>\<open>TypeError\<close>.
\<close>

definition lowerOf :: "SyData \<Rightarrow> error + string" where
  "lowerOf d = (case d of StrData s \<Rightarrow> Inr (toLowerCase s) | _ \<Rightarrow> Inl TypeError)"

text \<open>\<^verbatim>\<open>error(nonterm, expected, wrongSymbol)\<close> and \<^verbatim>\<open>errorMessage(message)\<close>, without positions.\<close>

definition error :: "Importer \<Rightarrow> string \<Rightarrow> AlphaTexSymbols \<Rightarrow> bool \<Rightarrow> error" where
  "error st nonterm expected wrongSymbol =
     AlphaTexSymbolError nonterm expected (if wrongSymbol then sy st else expected)"

definition errorMessage :: "string \<Rightarrow> error" where
  "errorMessage message = AlphaTexMessage message"

subsection \<open>Progress through the terminals\<close>

text \<open>
  Every loop of the parser reads at least one terminal per round. The measure counts the
  unread terminals twice and adds one while the current terminal is not \<^verbatim>\<open>Eof\<close>.
\<close>

definition remaining :: "Importer \<Rightarrow> nat" where
  "remaining st = 2 * length (input st) + (if sy st = Eof then 0 else 1)"

lemma upd_curTrack_lex [simp]:
  "sy (upd_curTrack f st) = sy st" "syData (upd_curTrack f st) = syData st"
  "input (upd_curTrack f st) = input st"
  by (simp_all add: upd_curTrack_def)

lemma upd_curStaff_lex [simp]:
  "sy (upd_curStaff f st) = sy st" "syData (upd_curStaff f st) = syData st"
  "input (upd_curStaff f st) = input st"
  by (simp_all add: upd_curStaff_def)

lemma upd_curBar_lex [simp]:
  "sy (upd_curBar f st) = sy st" "syData (upd_curBar f st) = syData st"
  "input (upd_curBar f st) = input st"
  by (simp_all add: upd_curBar_def)

lemma upd_curVoice_lex [simp]:
  "sy (upd_curVoice f st) = sy st" "syData (upd_curVoice f st) = syData st"
  "input (upd_curVoice f st) = input st"
  by (simp_all add: upd_curVoice_def)

lemma upd_curBeat_lex [simp]:
  "sy (upd_curBeat f st) = sy st" "syData (upd_curBeat f st) = syData st"
  "input (upd_curBeat f st) = input st"
  by (simp_all add: upd_curBeat_def)

lemma upd_curNote_lex [simp]:
  "sy (upd_curNote f st) = sy st" "syData (upd_curNote f st) = syData st"
  "input (upd_curNote f st) = input st"
  by (simp_all add: upd_curNote_def)

lemma upd_curMaster_lex [simp]:
  "sy (upd_curMaster f st) = sy st" "syData (upd_curMaster f st) = syData st"
  "input (upd_curMaster f st) = input st"
  by (simp_all add: upd_curMaster_def)

lemma remaining_upd [simp]:
  "remaining (upd_curTrack f st) = remaining st"
  "remaining (upd_curStaff g st) = remaining st"
  "remaining (upd_curBar h st) = remaining st"
  "remaining (upd_curVoice k st) = remaining st"
  "remaining (upd_curBeat l st) = remaining st"
  "remaining (upd_curNote m st) = remaining st"
  "remaining (upd_curMaster n st) = remaining st"
  by (simp_all add: remaining_def)

lemma remaining_fields [simp]:
  "remaining (st\<lparr>score := a\<rparr>) = remaining st"
  "remaining (st\<lparr>trackChannel := b\<rparr>) = remaining st"
  "remaining (st\<lparr>currentTrack := c\<rparr>) = remaining st"
  "remaining (st\<lparr>currentStaff := d\<rparr>) = remaining st"
  "remaining (st\<lparr>currentDuration := e\<rparr>) = remaining st"
  "remaining (st\<lparr>currentDynamics := g\<rparr>) = remaining st"
  "remaining (st\<lparr>currentTuplet := h\<rparr>) = remaining st"
  "remaining (st\<lparr>lyrics := i\<rparr>) = remaining st"
  "remaining (st\<lparr>staffHasExplicitTuning := j\<rparr>) = remaining st"
  "remaining (st\<lparr>staffTuningApplied := k\<rparr>) = remaining st"
  "remaining (st\<lparr>percussionArticulationNames := l\<rparr>) = remaining st"
  by (simp_all add: remaining_def)

lemma remaining_newSy_le: "remaining (newSy st) \<le> remaining st"
  by (simp add: remaining_def newSy_def split: list.splits)

lemma remaining_newSy_less: "sy st \<noteq> Eof \<Longrightarrow> remaining (newSy st) < remaining st"
  by (simp add: remaining_def newSy_def split: list.splits)

lemma remaining_newSy_less': "sy (newSy st) \<noteq> Eof \<Longrightarrow> remaining (newSy st) < remaining st"
  by (simp add: remaining_def newSy_def split: list.splits)

named_theorems rem \<open>rules that bound the terminals left after reading some\<close>

lemma remaining_newSy_step [rem]:
  "remaining st' \<le> remaining st \<Longrightarrow> remaining (newSy st') \<le> remaining st"
  "remaining st' < remaining st \<Longrightarrow> remaining (newSy st') < remaining st"
  "remaining st' \<le> remaining st \<Longrightarrow> sy st' \<noteq> Eof \<Longrightarrow> remaining (newSy st') < remaining st"
  using remaining_newSy_le [of st'] remaining_newSy_less [of st'] by auto

lemma remaining_newSy_peel:
  "remaining s \<le> remaining (newSy t) \<Longrightarrow>
     (sy t \<noteq> Eof \<longrightarrow> remaining s < remaining t) \<and> remaining s \<le> remaining t"
  "remaining s < remaining (newSy t) \<Longrightarrow> remaining s < remaining t"
  using remaining_newSy_le [of t] remaining_newSy_less [of t] by auto

subsection \<open>Chord properties\<close>

text \<open>\<^verbatim>\<open>case 'barre'\<close>: the numbers that follow are the barre frets.\<close>

function barreFrets :: "Chord \<Rightarrow> Importer \<Rightarrow> Chord \<times> Importer" where
  "barreFrets chord st =
     (if sy st = Number then
        barreFrets (chord\<lparr>chord_barreFrets := chord_barreFrets chord @ [asNumber (syData st)]\<rparr>)
          (newSy st)
      else (chord, st))"
  by pat_completeness auto
termination
  by (relation "measure (\<lambda>(chord, st). remaining st)") (auto intro: remaining_newSy_less)

declare barreFrets.simps [simp del]

lemma barreFrets_remaining:
  "barreFrets chord st = (chord', st') \<Longrightarrow> remaining st' \<le> remaining st"
proof (induction chord st rule: barreFrets.induct)
  case (1 chord st)
  show ?case
  proof (cases "sy st = Number")
    case True
    with "1.prems" have
      "barreFrets (chord\<lparr>chord_barreFrets := chord_barreFrets chord @ [asNumber (syData st)]\<rparr>)
         (newSy st) = (chord', st')"
      by (simp add: barreFrets.simps [of chord st])
    from "1.IH" [OF True this] remaining_newSy_le [of st] show ?thesis by simp
  next
    case False
    with "1.prems" show ?thesis by (simp add: barreFrets.simps [of chord st])
  qed
qed

text \<open>One round of the \<^verbatim>\<open>while\<close> loop of \<^verbatim>\<open>chordProperties\<close>: the \<^verbatim>\<open>switch\<close> on the property name.\<close>

definition chordProperty :: "Chord \<Rightarrow> Importer \<Rightarrow> error + (Chord \<times> Importer)" where
  "chordProperty chord st =
     (let name = toLowerCase (asString (syData st)) in
      if name = ''firstfret'' then
        (let st = newSy st in
         if sy st = Number then
           Inr (chord\<lparr>chord_firstFret := asNumber (syData st)\<rparr>, newSy st)
         else Inl (error st ''chord-firstfret'' Number True))
      else if name = ''showdiagram'' then
        (let st = newSy st in
         if sy st = String then
           Inr (chord\<lparr>chord_showDiagram := (toLowerCase (asString (syData st)) \<noteq> ''false'')\<rparr>,
                newSy st)
         else if sy st = Number then
           Inr (chord\<lparr>chord_showDiagram := (asNumber (syData st) \<noteq> 0)\<rparr>, newSy st)
         else Inl (error st ''chord-showdiagram'' String True))
      else if name = ''showfingering'' then
        (let st = newSy st in
         if sy st = String then
           Inr (chord\<lparr>chord_showDiagram := (toLowerCase (asString (syData st)) \<noteq> ''false'')\<rparr>,
                newSy st)
         else if sy st = Number then
           Inr (chord\<lparr>chord_showFingering := (asNumber (syData st) \<noteq> 0)\<rparr>, newSy st)
         else Inl (error st ''chord-showfingering'' String True))
      else if name = ''showname'' then
        (let st = newSy st in
         if sy st = String then
           Inr (chord\<lparr>chord_showName := (toLowerCase (asString (syData st)) \<noteq> ''false'')\<rparr>,
                newSy st)
         else if sy st = Number then
           Inr (chord\<lparr>chord_showName := (asNumber (syData st) \<noteq> 0)\<rparr>, newSy st)
         else Inl (error st ''chord-showname'' String True))
      else if name = ''barre'' then Inr (barreFrets chord (newSy st))
      else Inl (error st ''chord-properties'' String False))"

lemma barreFrets_remaining_less:
  "barreFrets chord (newSy st) = (chord', st') \<Longrightarrow> sy st \<noteq> Eof \<Longrightarrow>
     remaining st' < remaining st"
  using barreFrets_remaining [of chord "newSy st" chord' st'] remaining_newSy_less [of st]
  by simp

lemma chordProperty_remaining:
  "chordProperty chord st = Inr (chord', st') \<Longrightarrow> sy st \<noteq> Eof \<Longrightarrow>
     remaining st' < remaining st"
  unfolding chordProperty_def Let_def
  by (auto split: if_splits simp: rem barreFrets_remaining_less)

function chordPropertiesLoop :: "Chord \<Rightarrow> Importer \<Rightarrow> error + (Chord \<times> Importer)" where
  "chordPropertiesLoop chord st =
     (if sy st = String then
        (case chordProperty chord st of
           Inl e \<Rightarrow> Inl e
         | Inr (chord', st') \<Rightarrow> chordPropertiesLoop chord' st')
      else Inr (chord, st))"
  by pat_completeness auto
termination
  by (relation "measure (\<lambda>(chord, st). remaining st)") (auto dest: chordProperty_remaining)

declare chordPropertiesLoop.simps [simp del]

lemma chordPropertiesLoop_remaining:
  "chordPropertiesLoop chord st = Inr (chord', st') \<Longrightarrow> remaining st' \<le> remaining st"
proof (induction chord st rule: chordPropertiesLoop.induct)
  case (1 chord st)
  show ?case
  proof (cases "sy st = String")
    case True
    with "1.prems" obtain c1 s1 where step: "chordProperty chord st = Inr (c1, s1)"
      and rest: "chordPropertiesLoop c1 s1 = Inr (chord', st')"
      by (auto simp: chordPropertiesLoop.simps [of chord st] split: sum.splits)
    from chordProperty_remaining [OF step] True have "remaining s1 < remaining st" by simp
    with "1.IH" [OF True step refl rest] show ?thesis by simp
  next
    case False
    with "1.prems" show ?thesis by (simp add: chordPropertiesLoop.simps [of chord st])
  qed
qed

definition chordProperties :: "Chord \<Rightarrow> Importer \<Rightarrow> error + (Chord \<times> Importer)" where
  "chordProperties chord st =
     (if sy st \<noteq> LBrace then Inr (chord, st)
      else
        (case chordPropertiesLoop chord (newSy st) of
           Inl e \<Rightarrow> Inl e
         | Inr (chord', st') \<Rightarrow>
             if sy st' \<noteq> RBrace then Inl (error st' ''chord-properties'' RBrace True)
             else Inr (chord', newSy st')))"

lemma chordProperties_remaining:
  "chordProperties chord st = Inr (chord', st') \<Longrightarrow> remaining st' \<le> remaining st"
proof (cases "sy st \<noteq> LBrace")
  case True
  assume "chordProperties chord st = Inr (chord', st')"
  with True show ?thesis by (simp add: chordProperties_def)
next
  case False
  assume a: "chordProperties chord st = Inr (chord', st')"
  with False obtain s1 where loop: "chordPropertiesLoop chord (newSy st) = Inr (chord', s1)"
    and st': "st' = newSy s1"
    by (auto simp: chordProperties_def split: sum.splits if_splits)
  from chordPropertiesLoop_remaining [OF loop] remaining_newSy_le [of st]
    remaining_newSy_le [of s1] st'
  show ?thesis by simp
qed

subsection \<open>Staff meta\<close>

text \<open>\<^verbatim>\<open>case 'tuning'\<close>: the \<^verbatim>\<open>do ... while\<close> that collects the tuning terminals.\<close>

function readTunings :: "int list \<Rightarrow> Importer \<Rightarrow> int list \<times> Importer" where
  "readTunings tuning st =
     (let tuning = tuning @ [tuning_realValue (asTuning (syData st))];
          st = newSy st
      in if sy st = Tuning then readTunings tuning st else (tuning, st))"
  by pat_completeness auto
termination
  by (relation "measure (\<lambda>(tuning, st). remaining st)") (auto intro: remaining_newSy_less')

declare readTunings.simps [simp del]

lemma readTunings_remaining:
  "readTunings tuning st = (tuning', st') \<Longrightarrow> remaining st' \<le> remaining st"
proof (induction tuning st rule: readTunings.induct)
  case (1 tuning st)
  show ?case
  proof (cases "sy (newSy st) = Tuning")
    case True
    with "1.prems" have
      "readTunings (tuning @ [tuning_realValue (asTuning (syData st))]) (newSy st) = (tuning', st')"
      by (simp add: readTunings.simps [of tuning st] Let_def)
    from "1.IH" [OF refl refl True this] remaining_newSy_le [of st] show ?thesis by simp
  next
    case False
    with "1.prems" remaining_newSy_le [of st] show ?thesis
      by (auto simp: readTunings.simps [of tuning st] Let_def)
  qed
qed

lemma readTunings_remaining_less:
  "readTunings tuning st = (tuning', st') \<Longrightarrow> sy st \<noteq> Eof \<Longrightarrow> remaining st' < remaining st"
proof -
  assume a: "readTunings tuning st = (tuning', st')" and b: "sy st \<noteq> Eof"
  show ?thesis
  proof (cases "sy (newSy st) = Tuning")
    case True
    with a have
      "readTunings (tuning @ [tuning_realValue (asTuning (syData st))]) (newSy st) = (tuning', st')"
      by (simp add: readTunings.simps [of tuning st] Let_def)
    from readTunings_remaining [OF this] remaining_newSy_less [OF b] show ?thesis by simp
  next
    case False
    with a remaining_newSy_less [OF b] show ?thesis
      by (auto simp: readTunings.simps [of tuning st] Let_def)
  qed
qed

text \<open>\<^verbatim>\<open>case 'chord'\<close>: one fret per string of the staff, \<^verbatim>\<open>x\<close> for a muted string.\<close>

fun chordStrings :: "nat \<Rightarrow> Chord \<Rightarrow> Importer \<Rightarrow> Chord \<times> Importer" where
  "chordStrings 0 chord st = (chord, st)"
| "chordStrings (Suc n) chord st =
     chordStrings n
       (if sy st = Number then
          chord\<lparr>chord_strings := chord_strings chord @ [asNumber (syData st)]\<rparr>
        else if sy st = String \<and> toLowerCase (asString (syData st)) = ''x'' then
          chord\<lparr>chord_strings := chord_strings chord @ [- 1]\<rparr>
        else chord)
       (newSy st)"

lemma chordStrings_remaining:
  "chordStrings n chord st = (chord', st') \<Longrightarrow> remaining st' \<le> remaining st"
proof (induction n arbitrary: chord st)
  case 0
  then show ?case by simp
next
  case (Suc n)
  from Suc.prems Suc.IH [of _ "newSy st"] remaining_newSy_le [of st] show ?case
    by (simp del: chordStrings.simps(2) add: chordStrings.simps(2) [of n chord st]) force
qed

text \<open>Decimal digits of an index, as string concatenation with a number writes them.\<close>

fun showNat :: "nat \<Rightarrow> string" where
  "showNat n =
     (if n < 10 then [''0123456789'' ! n]
      else showNat (n div 10) @ [''0123456789'' ! (n mod 10)])"

declare showNat.simps [simp del]

text \<open>
  \<^verbatim>\<open>getChordId(staff, chordName)\<close> for the current staff, given the lower-cased name: the
  staff's index and its track's index are appended.
\<close>

definition getChordId :: "Importer \<Rightarrow> string \<Rightarrow> string" where
  "getChordId st lowerName = lowerName @ showNat (currentStaff st) @ showNat (currentTrack st)"

text \<open>\<^verbatim>\<open>Staff.addChord\<close> and \<^verbatim>\<open>Staff.hasChord\<close>: the chords of a staff are a map keyed by the id.\<close>

definition addChord :: "string \<Rightarrow> Chord \<Rightarrow> Staff \<Rightarrow> Staff" where
  "addChord chordId chord staff =
     staff\<lparr>staff_chords := AList.update chordId chord (staff_chords staff)\<rparr>"

definition hasChord :: "Staff \<Rightarrow> string \<Rightarrow> bool" where
  "hasChord staff chordId \<longleftrightarrow> map_of (staff_chords staff) chordId \<noteq> None"

definition isAlphaNumeric :: "char \<Rightarrow> bool" where
  "isAlphaNumeric c \<longleftrightarrow>
     c \<in> set ''abcdefghijklmnopqrstuvwxyzABCDEFGHIJKLMNOPQRSTUVWXYZ0123456789''"

definition toArticulationId :: "string \<Rightarrow> string" where
  "toArticulationId plain = toLowerCase (filter isAlphaNumeric plain)"

definition applyPercussionStaff :: "Staff \<Rightarrow> Staff" where
  "applyPercussionStaff staff = staff\<lparr>staff_isPercussion := True, staff_showTablature := False\<rparr>"

text \<open>
  \<^verbatim>\<open>handleStaffMeta\<close>. Values interpolated into a message text are left out of it.
\<close>

definition handleStaffMeta :: "Env \<Rightarrow> Importer \<Rightarrow> error + (bool \<times> Importer)" where
  "handleStaffMeta env st =
     (let tag = toLowerCase (asString (syData st)) in
      if tag = ''capo'' then
        (let st = newSy st in
         if sy st = Number then
           Inr (True, newSy (upd_curStaff (staff_capo_update (\<lambda>_. asNumber (syData st))) st))
         else Inl (error st ''capo'' Number True))
      else if tag = ''tuning'' then
        (let st = newSy st;
             strings = length (staff_tunings (curStaff st));
             st = st\<lparr>staffHasExplicitTuning := True, staffTuningApplied := False\<rparr>
         in
           case
             (if sy st = String then
                (let text = toLowerCase (asString (syData st)) in
                 if text = ''piano'' \<or> text = ''none'' \<or> text = ''voice'' then
                   Inr (newSy (upd_curStaff
                     (\<lambda>s. s\<lparr>staff_tunings := [], staff_displayTranspositionPitch := 0\<rparr>) st))
                 else Inl (error st ''tuning'' Tuning True))
              else if sy st = Tuning then
                (case readTunings [] st of
                   (tuning, st') \<Rightarrow> Inr (upd_curStaff (staff_tunings_update (\<lambda>_. tuning)) st'))
              else Inl (error st ''tuning'' Tuning True))
           of
             Inl e \<Rightarrow> Inl e
           | Inr st \<Rightarrow>
               if strings \<noteq> length (staff_tunings (curStaff st)) \<and>
                  length (staff_chords (curStaff st)) > 0
               then Inl (errorMessage ''Tuning must be defined before any chord'')
               else Inr (True, st))
      else if tag = ''instrument'' then
        (let st = newSy st;
             st = st\<lparr>staffTuningApplied := False\<rparr>
         in
           if sy st = Number then
             (let instrument = asNumber (syData st) in
              if instrument \<ge> 0 \<and> instrument \<le> 127 then
                Inr (True, newSy (upd_curTrack (track_program_update (\<lambda>_. instrument)) st))
              else Inl (error st ''instrument'' Number False))
           else if sy st = String then
             (let instrumentName = toLowerCase (asString (syData st)) in
              if instrumentName = ''percussion'' then
                Inr (True, newSy (upd_curTrack
                  (\<lambda>t. t\<lparr>track_staves := map applyPercussionStaff (track_staves t),
                          track_primaryChannel := 9, track_secondaryChannel := 9\<rparr>) st))
              else
                Inr (True, newSy (upd_curTrack
                  (track_program_update (\<lambda>_. env_gmValue env instrumentName)) st)))
           else Inl (error st ''instrument'' Number True))
      else if tag = ''lyrics'' then
        (let st = newSy st;
             lyrics0 = \<lparr>lyrics_startBar = 0, lyrics_text = []\<rparr>;
             lyrics1 = (if sy st = Number then lyrics0\<lparr>lyrics_startBar := asNumber (syData st)\<rparr>
                        else lyrics0);
             st = (if sy st = Number then newSy st else st)
         in
           if sy st = String then
             (let lyrics2 = lyrics1\<lparr>lyrics_text := asString (syData st)\<rparr>;
                  st = newSy st
              in case map_of (lyrics st) (currentTrack st) of
                   None \<Rightarrow> Inl TypeError
                 | Some ls \<Rightarrow>
                     Inr (True,
                       st\<lparr>lyrics := AList.update (currentTrack st) (ls @ [lyrics2]) (lyrics st)\<rparr>))
           else Inl (error st ''lyrics'' String True))
      else if tag = ''chord'' then
        (case chordProperties new_Chord (newSy st) of
           Inl e \<Rightarrow> Inl e
         | Inr (chord, st) \<Rightarrow>
             if sy st = String then
               (let chord = chord\<lparr>chord_name := asString (syData st)\<rparr>;
                    st = newSy st
                in case chordStrings (length (staff_tunings (curStaff st))) chord st of
                     (chord, st) \<Rightarrow>
                       Inr (True,
                         upd_curStaff
                           (addChord (getChordId st (toLowerCase (chord_name chord))) chord) st))
             else Inl (error st ''chord-name'' String True))
      else if tag = ''articulation'' then
        (let st = newSy st in
         if sy st \<noteq> String then Inl (error st ''articulation-name'' String True)
         else
           (let name = asString (syData st);
                st = newSy st
            in
              if name = ''defaults'' then
                Inr (True,
                  st\<lparr>percussionArticulationNames :=
                       foldl
                         (\<lambda>names (defaultName, defaultValue).
                            AList.update (toArticulationId defaultName) defaultValue
                              (AList.update (toLowerCase defaultName) defaultValue names))
                         (percussionArticulationNames st) (env_articulationNames env)\<rparr>)
              else if sy st \<noteq> Number then Inl (error st ''articulation-number'' Number True)
              else
                (let number = asNumber (syData st);
                     st = newSy st
                 in
                   if \<not> env_articulationKnown env number then
                     Inl (errorMessage ''Unknown articulation'')
                   else
                     Inr (True,
                       st\<lparr>percussionArticulationNames :=
                            AList.update (toLowerCase name) number
                              (percussionArticulationNames st)\<rparr>))))
      else Inr (False, st))"

lemma chordProperties_remaining_less:
  "chordProperties chord (newSy st) = Inr (chord', st') \<Longrightarrow> sy st \<noteq> Eof \<Longrightarrow>
     remaining st' < remaining st"
  using chordProperties_remaining [of chord "newSy st" chord' st'] remaining_newSy_less [of st]
  by simp

lemma chordStrings_remaining_less:
  "chordStrings n chord (newSy st) = (chord', st') \<Longrightarrow> remaining st < k \<Longrightarrow>
     remaining st' < k"
  using chordStrings_remaining [of n chord "newSy st" chord' st'] remaining_newSy_le [of st]
  by simp

lemma readTunings_remaining_bound:
  "readTunings tuning ((newSy st)\<lparr>staffHasExplicitTuning := a, staffTuningApplied := b\<rparr>) =
     (tuning', st') \<Longrightarrow> sy st \<noteq> Eof \<Longrightarrow> remaining st' < remaining st"
  using readTunings_remaining
    [of tuning "(newSy st)\<lparr>staffHasExplicitTuning := a, staffTuningApplied := b\<rparr>" tuning' st']
    remaining_newSy_less [of st]
  by simp

lemma handleStaffMeta_remaining:
  "handleStaffMeta env st = Inr (handled, st') \<Longrightarrow> sy st \<noteq> Eof \<Longrightarrow>
     (if handled then remaining st' < remaining st else st' = st)"
  unfolding handleStaffMeta_def Let_def
  by (auto split: if_splits sum.splits prod.splits option.splits
      simp: rem
      dest!: chordProperties_remaining_less
      dest: chordStrings_remaining_less readTunings_remaining_bound)

subsection \<open>Song metadata\<close>

definition setScoreText :: "string \<Rightarrow> string \<Rightarrow> Score \<Rightarrow> Score" where
  "setScoreText metadataTag metadataValue sc =
     (if metadataTag = ''title'' then sc\<lparr>score_title := metadataValue\<rparr>
      else if metadataTag = ''subtitle'' then sc\<lparr>score_subTitle := metadataValue\<rparr>
      else if metadataTag = ''artist'' then sc\<lparr>score_artist := metadataValue\<rparr>
      else if metadataTag = ''album'' then sc\<lparr>score_album := metadataValue\<rparr>
      else if metadataTag = ''words'' then sc\<lparr>score_words := metadataValue\<rparr>
      else if metadataTag = ''music'' then sc\<lparr>score_music := metadataValue\<rparr>
      else if metadataTag = ''copyright'' then sc\<lparr>score_copyright := metadataValue\<rparr>
      else sc)"

text \<open>
  One round of the \<^verbatim>\<open>while\<close> loop of \<^verbatim>\<open>metaData\<close>; the result carries \<^verbatim>\<open>anyMeta\<close> and
  \<^verbatim>\<open>continueReading\<close>.
\<close>

definition metaDataTag :: "Env \<Rightarrow> bool \<Rightarrow> Importer \<Rightarrow> error + (bool \<times> bool \<times> Importer)" where
  "metaDataTag env anyMeta st =
     (let metadataTag = toLowerCase (asString (syData st)) in
      if metadataTag \<in> set [''title'', ''subtitle'', ''artist'', ''album'', ''words'', ''music'',
           ''copyright''] then
        (let st = newSy st in
         if sy st \<noteq> String then Inl (error st metadataTag String True)
         else
           Inr (True, True,
             newSy (st\<lparr>score := setScoreText metadataTag (asString (syData st)) (score st)\<rparr>)))
      else if metadataTag = ''tempo'' then
        (let st = newSy st in
         if sy st = Number then
           Inr (True, True,
             newSy (st\<lparr>score := (score st)\<lparr>score_tempo := asFloat (syData st)\<rparr>\<rparr>))
         else Inl (error st ''tempo'' Number True))
      else
        (case handleStaffMeta env st of
           Inl e \<Rightarrow> Inl e
         | Inr (handled, st') \<Rightarrow>
             if handled then Inr (True, True, st')
             else if anyMeta then Inl (error st' ''metaDataTags'' String False)
             else Inr (anyMeta, False, st')))"

lemma metaDataTag_remaining:
  "metaDataTag env anyMeta st = Inr (anyMeta', True, st') \<Longrightarrow> sy st \<noteq> Eof \<Longrightarrow>
     remaining st' < remaining st"
  unfolding metaDataTag_def Let_def
  by (auto split: if_splits sum.splits prod.splits simp: rem
      dest: handleStaffMeta_remaining)

lemma metaDataTag_stop:
  "metaDataTag env anyMeta st = Inr (anyMeta', False, st') \<Longrightarrow> st' = st \<or> sy st = Eof"
  unfolding metaDataTag_def Let_def
  by (auto split: if_splits sum.splits prod.splits dest: handleStaffMeta_remaining)

function metaDataLoop :: "Env \<Rightarrow> bool \<Rightarrow> Importer \<Rightarrow> error + (bool \<times> Importer)" where
  "metaDataLoop env anyMeta st =
     (if sy st = MetaCommand then
        (case metaDataTag env anyMeta st of
           Inl e \<Rightarrow> Inl e
         | Inr (anyMeta', continueReading, st') \<Rightarrow>
             if continueReading then metaDataLoop env anyMeta' st' else Inr (anyMeta', st'))
      else Inr (anyMeta, st))"
  by pat_completeness auto
termination
  by (relation "measure (\<lambda>(env, anyMeta, st). remaining st)")
    (auto dest: metaDataTag_remaining)

declare metaDataLoop.simps [simp del]

lemma metaDataLoop_remaining:
  "metaDataLoop env anyMeta st = Inr (anyMeta', st') \<Longrightarrow> remaining st' \<le> remaining st"
proof (induction env anyMeta st rule: metaDataLoop.induct)
  case (1 env anyMeta st)
  show ?case
  proof (cases "sy st = MetaCommand")
    case True
    with "1.prems" obtain a c s1 where step: "metaDataTag env anyMeta st = Inr (a, c, s1)"
      and rest: "if c then metaDataLoop env a s1 = Inr (anyMeta', st') else st' = s1"
      by (auto simp: metaDataLoop.simps [of env anyMeta st] split: sum.splits if_splits)
    show ?thesis
    proof (cases c)
      case True
      with step \<open>sy st = MetaCommand\<close> have "remaining s1 < remaining st"
        by (auto dest: metaDataTag_remaining)
      moreover from True rest "1.IH" [OF \<open>sy st = MetaCommand\<close> step refl refl]
      have "remaining st' \<le> remaining s1" by simp
      ultimately show ?thesis by simp
    next
      case False
      with step rest \<open>sy st = MetaCommand\<close> show ?thesis
        by (auto dest: metaDataTag_stop)
    qed
  next
    case False
    with "1.prems" show ?thesis by (simp add: metaDataLoop.simps [of env anyMeta st])
  qed
qed

definition metaData :: "Env \<Rightarrow> Importer \<Rightarrow> error + (bool \<times> Importer)" where
  "metaData env st =
     (case metaDataLoop env False st of
        Inl e \<Rightarrow> Inl e
      | Inr (anyMeta, st) \<Rightarrow>
          if anyMeta then
            (if sy st \<noteq> Dot then Inl (error st ''song'' Dot True)
             else Inr (anyMeta, newSy st))
          else if sy st = Dot then Inr (anyMeta, newSy st)
          else Inr (anyMeta, st))"

subsection \<open>Tracks and staves\<close>

text \<open>
  \<^verbatim>\<open>newTrack\<close>. \<^verbatim>\<open>Score.addTrack\<close> appends the track and gives it its position as index; the
  lyrics of the track are kept under that index.
\<close>

definition newTrack :: "Env \<Rightarrow> Importer \<Rightarrow> Importer" where
  "newTrack env st =
     (let staff = new_Staff\<lparr>staff_displayTranspositionPitch := - 12,
                              staff_tunings := env_defaultTuning6 env\<rparr>;
          track = (ensureStaveCount 1 new_Track)
                    \<lparr>track_program := 25,
                     track_primaryChannel := trackChannel st,
                     track_secondaryChannel := trackChannel st + 1\<rparr>;
          track = track\<lparr>track_staves := map_nth 0 (\<lambda>_. staff) (track_staves track)\<rparr>;
          index = length (score_tracks (score st))
      in st\<lparr>trackChannel := trackChannel st + 2,
              currentTrack := index,
              currentStaff := 0,
              score := (score st)\<lparr>score_tracks := score_tracks (score st) @ [track]\<rparr>,
              lyrics := AList.update index [] (lyrics st),
              currentDynamics := DynamicValue_F\<rparr>)"

lemma newTrack_lex [simp]:
  "sy (newTrack env st) = sy st" "syData (newTrack env st) = syData st"
  "input (newTrack env st) = input st" "remaining (newTrack env st) = remaining st"
  by (simp_all add: newTrack_def Let_def remaining_def)

text \<open>One round of the loop of \<^verbatim>\<open>staffProperties\<close>; the flags are score, tabs and slash.\<close>

definition staffProperty ::
  "bool \<times> bool \<times> bool \<Rightarrow> Importer \<Rightarrow> error + ((bool \<times> bool \<times> bool) \<times> Importer)" where
  "staffProperty flags st =
     (case flags of (showStandardNotation, showTabs, showSlash) \<Rightarrow>
        (let name = toLowerCase (asString (syData st)) in
         if name = ''score'' then Inr ((True, showTabs, showSlash), newSy st)
         else if name = ''tabs'' then Inr ((showStandardNotation, True, showSlash), newSy st)
         else if name = ''slash'' then Inr ((showStandardNotation, showTabs, True), newSy st)
         else Inl (error st ''staff-properties'' String False)))"

lemma staffProperty_remaining:
  "staffProperty flags st = Inr (flags', st') \<Longrightarrow> sy st \<noteq> Eof \<Longrightarrow>
     remaining st' < remaining st"
  unfolding staffProperty_def Let_def
  by (auto split: if_splits prod.splits simp: rem)

function staffPropertiesLoop ::
  "bool \<times> bool \<times> bool \<Rightarrow> Importer \<Rightarrow> error + ((bool \<times> bool \<times> bool) \<times> Importer)" where
  "staffPropertiesLoop flags st =
     (if sy st = String then
        (case staffProperty flags st of
           Inl e \<Rightarrow> Inl e
         | Inr (flags', st') \<Rightarrow> staffPropertiesLoop flags' st')
      else Inr (flags, st))"
  by pat_completeness auto
termination
  by (relation "measure (\<lambda>(flags, st). remaining st)") (auto dest: staffProperty_remaining)

declare staffPropertiesLoop.simps [simp del]

lemma staffPropertiesLoop_remaining:
  "staffPropertiesLoop flags st = Inr (flags', st') \<Longrightarrow> remaining st' \<le> remaining st"
proof (induction flags st rule: staffPropertiesLoop.induct)
  case (1 flags st)
  show ?case
  proof (cases "sy st = String")
    case True
    with "1.prems" obtain f1 s1 where step: "staffProperty flags st = Inr (f1, s1)"
      and rest: "staffPropertiesLoop f1 s1 = Inr (flags', st')"
      by (auto simp: staffPropertiesLoop.simps [of flags st] split: sum.splits)
    from staffProperty_remaining [OF step] True have "remaining s1 < remaining st" by simp
    with "1.IH" [OF True step refl rest] show ?thesis by simp
  next
    case False
    with "1.prems" show ?thesis by (simp add: staffPropertiesLoop.simps [of flags st])
  qed
qed

definition staffProperties :: "Importer \<Rightarrow> error + Importer" where
  "staffProperties st =
     (if sy st \<noteq> LBrace then Inr st
      else
        (case staffPropertiesLoop (False, False, False) (newSy st) of
           Inl e \<Rightarrow> Inl e
         | Inr ((showStandardNotation, showTabs, showSlash), st) \<Rightarrow>
             (let st =
                (if showStandardNotation \<or> showTabs \<or> showSlash then
                   upd_curStaff
                     (\<lambda>s. s\<lparr>staff_showStandardNotation := showStandardNotation,
                             staff_showTablature := showTabs,
                             staff_showSlash := showSlash\<rparr>) st
                 else st)
              in if sy st \<noteq> RBrace then Inl (error st ''staff-properties'' RBrace True)
                 else Inr (newSy st))))"

lemma staffProperties_remaining:
  "staffProperties st = Inr st' \<Longrightarrow> remaining st' \<le> remaining st"
  unfolding staffProperties_def Let_def
  by (auto split: if_splits sum.splits prod.splits simp: rem
      dest!: staffPropertiesLoop_remaining remaining_newSy_peel)

text \<open>
  The first block of \<^verbatim>\<open>trackStaffMeta\<close>: a pending \<^verbatim>\<open>\track\<close>. A new track is started only when
  the score has master bars; without them it is the \<^verbatim>\<open>\track\<close> of the initial track.
\<close>

definition trackMeta :: "Env \<Rightarrow> Importer \<Rightarrow> Importer" where
  "trackMeta env st =
     (if toLowerCase (asString (syData st)) = ''track'' then
        (let st = st\<lparr>staffHasExplicitTuning := False, staffTuningApplied := False\<rparr>;
             st = newSy st;
             st = (if length (score_masterBars (score st)) > 0 then newTrack env st
                   else st);
             st = (if sy st = String then
                     newSy (upd_curTrack (track_name_update (\<lambda>_. asString (syData st))) st)
                   else st);
             st = (if sy st = String then
                     newSy (upd_curTrack
                       (track_shortName_update (\<lambda>_. asString (syData st))) st)
                   else st)
         in st)
      else st)"

text \<open>The second block of \<^verbatim>\<open>trackStaffMeta\<close>: a pending \<^verbatim>\<open>\staff\<close>.\<close>

definition staffMeta :: "Importer \<Rightarrow> error + Importer" where
  "staffMeta st =
     (if sy st = MetaCommand \<and> toLowerCase (asString (syData st)) = ''staff'' then
        (let st = st\<lparr>staffHasExplicitTuning := False, staffTuningApplied := False\<rparr>;
             st = newSy st;
             st =
               (if length (staff_bars (track_staves (curTrack st) ! 0)) > 0 then
                  (let isPercussion = staff_isPercussion (curStaff st);
                       st = upd_curTrack
                              (\<lambda>t. ensureStaveCount (length (track_staves t) + 1) t) st;
                       st = st\<lparr>currentStaff := length (track_staves (curTrack st)) - 1\<rparr>;
                       st = (if isPercussion then upd_curStaff applyPercussionStaff st
                             else st)
                   in st\<lparr>currentDynamics := DynamicValue_F\<rparr>)
                else st)
         in staffProperties st)
      else Inr st)"

text \<open>\<^verbatim>\<open>trackStaffMeta\<close>: a pending \<^verbatim>\<open>\track\<close> and \<^verbatim>\<open>\staff\<close> at the head of a bar.\<close>

definition trackStaffMeta :: "Env \<Rightarrow> Importer \<Rightarrow> error + (bool \<times> Importer)" where
  "trackStaffMeta env st =
     (if sy st \<noteq> MetaCommand then Inr (False, st)
      else
        (case staffMeta (trackMeta env st) of
           Inl e \<Rightarrow> Inl e
         | Inr st \<Rightarrow> Inr (True, st)))"

lemma trackMeta_remaining:
  "sy st = MetaCommand \<Longrightarrow>
     remaining (trackMeta env st) < remaining st \<or> trackMeta env st = st"
  unfolding trackMeta_def Let_def
  by (auto split: if_splits simp: rem dest!: remaining_newSy_peel)

lemma staffMeta_remaining:
  "staffMeta st = Inr st' \<Longrightarrow> remaining st' < remaining st \<or> st' = st"
  unfolding staffMeta_def Let_def
  by (auto split: if_splits simp: rem dest!: staffProperties_remaining remaining_newSy_peel)

subsection \<open>Bend and whammy points\<close>

text \<open>
  \<^verbatim>\<open>Note.addBendPoint\<close> and \<^verbatim>\<open>Beat.addWhammyBarPoint\<close>: the point list is created by the first
  point added to it.
\<close>

definition addPoint :: "BendPoint \<Rightarrow> BendPoint list option \<Rightarrow> BendPoint list option" where
  "addPoint p points = (case points of None \<Rightarrow> Some [p] | Some ps \<Rightarrow> Some (ps @ [p]))"

text \<open>
  One round of the loop that reads the points between the parentheses of \<^verbatim>\<open>b\<close>, \<^verbatim>\<open>be\<close>, \<^verbatim>\<open>tb\<close>
  and \<^verbatim>\<open>tbe\<close>. The two copies of the loop differ in the name they report an error under and in
  the object that receives the point; here the points are collected in reading order and
  handed to the object after the loop.
\<close>

definition readPoint ::
  "string \<Rightarrow> bool \<Rightarrow> Importer \<Rightarrow> error + (BendPoint \<times> Importer)" where
  "readPoint nonterm exact st =
     (if exact then
        (if sy st \<noteq> Number then Inl (error st nonterm Number True)
         else
           (let offset = asJsNumber (syData st);
                st = newSy st
            in if sy st \<noteq> Number then Inl (error st nonterm Number True)
               else Inr (\<lparr>bp_offset = offset, bp_value = asJsNumber (syData st)\<rparr>, newSy st)))
      else
        (if sy st \<noteq> Number then Inl (error st nonterm Number True)
         else
           Inr (\<lparr>bp_offset = IntNumber 0, bp_value = asJsNumber (syData st)\<rparr>, newSy st)))"

lemma readPoint_remaining:
  "readPoint nonterm exact st = Inr (p, st') \<Longrightarrow> remaining st' < remaining st"
  unfolding readPoint_def Let_def
  by (auto split: if_splits simp: rem)

function pointsLoop ::
  "string \<Rightarrow> bool \<Rightarrow> BendPoint list \<Rightarrow> Importer \<Rightarrow> error + (BendPoint list \<times> Importer)" where
  "pointsLoop nonterm exact points st =
     (if sy st \<noteq> RParensis \<and> sy st \<noteq> Eof then
        (case readPoint nonterm exact st of
           Inl e \<Rightarrow> Inl e
         | Inr (p, st') \<Rightarrow> pointsLoop nonterm exact (points @ [p]) st')
      else Inr (points, st))"
  by pat_completeness auto
termination
  by (relation "measure (\<lambda>(nonterm, exact, points, st). remaining st)")
    (auto dest: readPoint_remaining)

declare pointsLoop.simps [simp del]

lemma pointsLoop_remaining:
  "pointsLoop nonterm exact points st = Inr (points', st') \<Longrightarrow> remaining st' \<le> remaining st"
proof (induction nonterm exact points st rule: pointsLoop.induct)
  case (1 nonterm exact points st)
  show ?case
  proof (cases "sy st \<noteq> RParensis \<and> sy st \<noteq> Eof")
    case True
    with "1.prems" obtain p s1 where step: "readPoint nonterm exact st = Inr (p, s1)"
      and rest: "pointsLoop nonterm exact (points @ [p]) s1 = Inr (points', st')"
      by (auto simp: pointsLoop.simps [of nonterm exact points st] split: sum.splits)
    from readPoint_remaining [OF step] have "remaining s1 < remaining st" .
    with "1.IH" [OF True step refl rest] show ?thesis by simp
  next
    case False
    with "1.prems" show ?thesis
      by (auto simp: pointsLoop.simps [of nonterm exact points st])
  qed
qed

text \<open>\<^verbatim>\<open>while (points.length > 60) points.splice(points.length - 1, 1)\<close>\<close>

function dropExcess :: "BendPoint list \<Rightarrow> BendPoint list" where
  "dropExcess points = (if length points > 60 then dropExcess (butlast points) else points)"
  by pat_completeness auto
termination
  by (relation "measure length") auto

declare dropExcess.simps [simp del]

text \<open>
  The loop that sets the positions in the non-exact form:
  \<^verbatim>\<open>while (i < count) { points[i].offset = Math.min(60, i * step); i++; }\<close>
\<close>

function setPositions :: "int \<Rightarrow> nat \<Rightarrow> BendPoint list \<Rightarrow> BendPoint list" where
  "setPositions step i points =
     (if i < length points then
        setPositions step (Suc i)
          (points[i := (points ! i)\<lparr>bp_offset := IntNumber (min 60 (int i * step))\<rparr>])
      else points)"
  by pat_completeness auto
termination
  by (relation "measure (\<lambda>(step, i, points). length points - i)") auto

declare setPositions.simps [simp del]

text \<open>
  \<^verbatim>\<open>(60 / (count - 1)) | 0\<close> for a bend and \<^verbatim>\<open>(60 / count) | 0\<close> for a whammy bar: a division by
  zero is infinite and becomes 0 under \<^verbatim>\<open>| 0\<close>; otherwise the quotient is cut to an integer.
\<close>

definition truncDiv :: "int \<Rightarrow> int \<Rightarrow> int" where
  "truncDiv a b = (if b = 0 then 0 else sgn a * sgn b * (\<bar>a\<bar> div \<bar>b\<bar>))"

definition bendStep :: "nat \<Rightarrow> int" where
  "bendStep n = truncDiv 60 (int n - 1)"

definition whammyStep :: "nat \<Rightarrow> int" where
  "whammyStep n = truncDiv 60 (int n)"

text \<open>
  \<^verbatim>\<open>points.sort((a, b) => a.offset - b.offset)\<close>: a stable sort on the offset when every
  offset is a number (two infinite offsets of one sign compare as equal), and the order of
  the implementation when an offset is \<^verbatim>\<open>NaN\<close>.
\<close>

definition offsetKey :: "BendPoint \<Rightarrow> int" where
  "offsetKey p = (case bp_offset p of IntNumber n \<Rightarrow> roundDouble n | NaN \<Rightarrow> 0)"

definition sortByOffset :: "Env \<Rightarrow> BendPoint list \<Rightarrow> BendPoint list" where
  "sortByOffset env points =
     (if list_all (\<lambda>p. bp_offset p \<noteq> NaN) points then sort_key offsetKey points
      else env_sortInconsistent env points)"

text \<open>
  What \<^verbatim>\<open>noteEffects\<close> does to the bend points of the note once the closing parenthesis is
  reached, and \<^verbatim>\<open>applyBeatEffect\<close> to the whammy bar points of the beat.
\<close>

definition bendPositions :: "Env \<Rightarrow> bool \<Rightarrow> BendPoint list \<Rightarrow> BendPoint list" where
  "bendPositions env exact points =
     (let points = dropExcess points in
      if exact then sortByOffset env points
      else setPositions (bendStep (length points)) 0 points)"

definition whammyPositions :: "Env \<Rightarrow> bool \<Rightarrow> BendPoint list \<Rightarrow> BendPoint list" where
  "whammyPositions env exact points =
     (let points = dropExcess points in
      if \<not> exact then setPositions (whammyStep (length points)) 0 points
      else sortByOffset env points)"

subsection \<open>Beat effects\<close>

definition readTempoAutomation :: "Importer \<Rightarrow> error + (Automation \<times> Importer)" where
  "readTempoAutomation st =
     (let st = newSy st in
      if sy st \<noteq> Number then Inl (error st ''tempo'' Number True)
      else
        Inr (\<lparr>automation_isLinear = False, automation_type = Tempo,
              automation_value = asFloat (syData st)\<rparr>, newSy st))"

lemma readTempoAutomation_remaining:
  "readTempoAutomation st = Inr (a, st') \<Longrightarrow> sy st \<noteq> Eof \<Longrightarrow> remaining st' < remaining st"
  unfolding readTempoAutomation_def Let_def
  by (auto split: if_splits simp: rem)

definition applyTuplet :: "int \<Rightarrow> Beat \<Rightarrow> Beat" where
  "applyTuplet tuplet beat =
     (if tuplet = 3 then beat\<lparr>beat_tupletNumerator := 3, beat_tupletDenominator := 2\<rparr>
      else if tuplet = 5 then beat\<lparr>beat_tupletNumerator := 5, beat_tupletDenominator := 4\<rparr>
      else if tuplet = 6 then beat\<lparr>beat_tupletNumerator := 6, beat_tupletDenominator := 4\<rparr>
      else if tuplet = 7 then beat\<lparr>beat_tupletNumerator := 7, beat_tupletDenominator := 4\<rparr>
      else if tuplet = 9 then beat\<lparr>beat_tupletNumerator := 9, beat_tupletDenominator := 8\<rparr>
      else if tuplet = 10 then beat\<lparr>beat_tupletNumerator := 10, beat_tupletDenominator := 8\<rparr>
      else if tuplet = 11 then beat\<lparr>beat_tupletNumerator := 11, beat_tupletDenominator := 8\<rparr>
      else if tuplet = 12 then beat\<lparr>beat_tupletNumerator := 12, beat_tupletDenominator := 8\<rparr>
      else beat\<lparr>beat_tupletNumerator := 1, beat_tupletDenominator := 1\<rparr>)"

definition dynamicsFromString :: "string \<Rightarrow> Beat \<Rightarrow> Beat" where
  "dynamicsFromString s beat =
     (if s = ''ppp'' then beat\<lparr>beat_dynamics := DynamicValue_PPP\<rparr>
      else if s = ''pp'' then beat\<lparr>beat_dynamics := DynamicValue_PP\<rparr>
      else if s = ''p'' then beat\<lparr>beat_dynamics := DynamicValue_P\<rparr>
      else if s = ''mp'' then beat\<lparr>beat_dynamics := DynamicValue_MP\<rparr>
      else if s = ''mf'' then beat\<lparr>beat_dynamics := DynamicValue_MF\<rparr>
      else if s = ''f'' then beat\<lparr>beat_dynamics := DynamicValue_F\<rparr>
      else if s = ''ff'' then beat\<lparr>beat_dynamics := DynamicValue_FF\<rparr>
      else if s = ''fff'' then beat\<lparr>beat_dynamics := DynamicValue_FFF\<rparr>
      else beat)"

text \<open>
  \<^verbatim>\<open>applyBeatEffect(beat)\<close>; the beat is the one \<^verbatim>\<open>beat()\<close> has added to the voice last.
\<close>

definition applyBeatEffect :: "Env \<Rightarrow> Importer \<Rightarrow> error + (bool \<times> Importer)" where
  "applyBeatEffect env st =
     (let effect = toLowerCase (asString (syData st)) in
      if effect = ''f'' then
        Inr (True, newSy (upd_curBeat (beat_fadeIn_update (\<lambda>_. True)) st))
      else if effect = ''v'' then
        Inr (True, newSy (upd_curBeat (beat_vibrato_update (\<lambda>_. Slight)) st))
      else if effect = ''s'' then
        Inr (True, newSy (upd_curBeat (beat_slap_update (\<lambda>_. True)) st))
      else if effect = ''p'' then
        Inr (True, newSy (upd_curBeat (beat_pop_update (\<lambda>_. True)) st))
      else if effect = ''tt'' then
        Inr (True, newSy (upd_curBeat (beat_tap_update (\<lambda>_. True)) st))
      else if effect = ''dd'' then
        Inr (True, newSy (upd_curBeat (beat_dots_update (\<lambda>_. 2)) st))
      else if effect = ''d'' then
        Inr (True, newSy (upd_curBeat (beat_dots_update (\<lambda>_. 1)) st))
      else if effect = ''su'' then
        Inr (True, newSy (upd_curBeat (beat_pickStroke_update (\<lambda>_. PickStroke_Up)) st))
      else if effect = ''sd'' then
        Inr (True, newSy (upd_curBeat (beat_pickStroke_update (\<lambda>_. PickStroke_Down)) st))
      else if effect = ''tu'' then
        (let st = newSy st in
         if sy st \<noteq> Number then Inl (error st ''tuplet'' Number True)
         else Inr (True, newSy (upd_curBeat (applyTuplet (asNumber (syData st))) st)))
      else if effect = ''tb'' \<or> effect = ''tbe'' then
        (let exact = (effect = ''tbe'');
             st = newSy st
         in
           if sy st \<noteq> LParensis then Inl (error st ''tremolobar-effect'' LParensis True)
           else
             (case pointsLoop ''tremolobar-effect'' exact [] (newSy st) of
                Inl e \<Rightarrow> Inl e
              | Inr (points, st) \<Rightarrow>
                  (let st = upd_curBeat
                         (beat_whammyBarPoints_update
                            (\<lambda>old. map_option (whammyPositions env exact)
                               (foldl (\<lambda>ps p. addPoint p ps) old points))) st
                   in if sy st \<noteq> RParensis then
                        Inl (error st ''tremolobar-effect'' RParensis True)
                      else Inr (True, newSy st))))
      else if effect = ''bu'' \<or> effect = ''bd'' \<or> effect = ''au'' \<or> effect = ''ad'' then
        (let st = upd_curBeat
               (beat_brushType_update
                  (\<lambda>_. if effect = ''bu'' then BrushUp
                       else if effect = ''bd'' then BrushDown
                       else if effect = ''au'' then ArpeggioUp
                       else ArpeggioDown)) st;
             st = newSy st
         in
           if sy st = Number then
             Inr (True,
               newSy (upd_curBeat
                 (beat_brushDuration_update (\<lambda>_. BrushDuration_Explicit (asNumber (syData st))))
                 st))
           else
             Inr (True,
               upd_curBeat (beat_brushDuration_update (\<lambda>_. BrushDuration_Calculated)) st))
      else if effect = ''ch'' then
        (let st = newSy st in
         case lowerOf (syData st) of
           Inl e \<Rightarrow> Inl e
         | Inr lowerName \<Rightarrow>
             (let chordName = asString (syData st);
                  chordId = getChordId st lowerName;
                  st = (if \<not> hasChord (curStaff st) chordId then
                          upd_curStaff
                            (addChord chordId
                               (new_Chord\<lparr>chord_showDiagram := False, chord_name := chordName\<rparr>))
                            st
                        else st);
                  st = upd_curBeat (beat_chordId_update (\<lambda>_. Some chordId)) st
              in Inr (True, newSy st)))
      else if effect = ''gr'' then
        (let st = newSy st in
         case lowerOf (syData st) of
           Inl e \<Rightarrow> Inl e
         | Inr kind \<Rightarrow>
             if kind = ''ob'' then
               Inr (True, newSy (upd_curBeat (beat_graceType_update (\<lambda>_. OnBeat)) st))
             else if kind = ''b'' then
               Inr (True, newSy (upd_curBeat (beat_graceType_update (\<lambda>_. BendGrace)) st))
             else Inr (True, upd_curBeat (beat_graceType_update (\<lambda>_. BeforeBeat)) st))
      else if effect = ''dy'' then
        (let st = newSy st in
         case lowerOf (syData st) of
           Inl e \<Rightarrow> Inl e
         | Inr level \<Rightarrow>
             (let st = upd_curBeat (dynamicsFromString level) st;
                  st = st\<lparr>currentDynamics := beat_dynamics (curBeat st)\<rparr>
              in Inr (True, newSy st)))
      else if effect = ''cre'' then
        Inr (True, newSy (upd_curBeat (beat_crescendo_update (\<lambda>_. Crescendo)) st))
      else if effect = ''dec'' then
        Inr (True, newSy (upd_curBeat (beat_crescendo_update (\<lambda>_. Decrescendo)) st))
      else if effect = ''tempo'' then
        (case readTempoAutomation st of
           Inl e \<Rightarrow> Inl e
         | Inr (tempoAutomation, st) \<Rightarrow>
             Inr (True,
               upd_curMaster
                 (master_tempoAutomations_update (\<lambda>as. as @ [tempoAutomation]))
                 (upd_curBeat (beat_automations_update (\<lambda>as. as @ [tempoAutomation])) st)))
      else if effect = ''tp'' then
        (let st = newSy st;
             st = upd_curBeat (beat_tremoloSpeed_update (\<lambda>_. Some Eighth)) st
         in
           if sy st = Number then
             (let n = asNumber (syData st) in
              Inr (True,
                newSy (upd_curBeat
                  (beat_tremoloSpeed_update
                     (\<lambda>_. Some (if n = 8 then Eighth
                                 else if n = 16 then Sixteenth
                                 else if n = 32 then ThirtySecond
                                 else Eighth))) st)))
           else Inr (True, st))
      else Inr (False, st))"

lemma applyBeatEffect_remaining:
  "applyBeatEffect env st = Inr (applied, st') \<Longrightarrow> sy st \<noteq> Eof \<Longrightarrow>
     (if applied then remaining st' < remaining st else st' = st)"
  unfolding applyBeatEffect_def Let_def
  by (auto split: if_splits sum.splits prod.splits simp: rem
      dest!: pointsLoop_remaining readTempoAutomation_remaining remaining_newSy_peel)

subsection \<open>Note effects\<close>

text \<open>
  One round of the \<^verbatim>\<open>while\<close> loop of \<^verbatim>\<open>noteEffects(note)\<close>; the note is the one \<^verbatim>\<open>note()\<close> has
  added to the beat last, and \<^verbatim>\<open>note.beat\<close> is the current beat.
\<close>

definition noteEffect :: "Env \<Rightarrow> Importer \<Rightarrow> error + Importer" where
  "noteEffect env st =
     (let effect = toLowerCase (asString (syData st)) in
      if effect = ''b'' \<or> effect = ''be'' then
        (let exact = (effect = ''be'');
             st = newSy st
         in
           if sy st \<noteq> LParensis then Inl (error st ''bend-effect'' LParensis True)
           else
             (case pointsLoop ''bend-effect-value'' exact [] (newSy st) of
                Inl e \<Rightarrow> Inl e
              | Inr (points, st) \<Rightarrow>
                  (let st = upd_curNote
                         (note_bendPoints_update
                            (\<lambda>old. map_option (bendPositions env exact)
                               (foldl (\<lambda>ps p. addPoint p ps) old points))) st
                   in if sy st \<noteq> RParensis then Inl (error st ''bend-effect'' RParensis True)
                      else Inr (newSy st))))
      else if effect = ''nh'' then
        Inr (newSy (upd_curNote (note_harmonicType_update (\<lambda>_. Natural)) st))
      else if effect = ''ah'' then
        Inr (newSy (upd_curNote (note_harmonicType_update (\<lambda>_. Artificial)) st))
      else if effect = ''th'' then
        Inr (newSy (upd_curNote (note_harmonicType_update (\<lambda>_. Tap)) st))
      else if effect = ''ph'' then
        Inr (newSy (upd_curNote (note_harmonicType_update (\<lambda>_. Pinch)) st))
      else if effect = ''sh'' then
        Inr (newSy (upd_curNote (note_harmonicType_update (\<lambda>_. Semi)) st))
      else if effect = ''tr'' then
        (let st = newSy st in
         if sy st \<noteq> Number then Inl (error st ''trill-effect'' Number True)
         else
           (let fret = asNumber (syData st);
                st = newSy st;
                n = asNumber (syData st);
                duration =
                  (if sy st = Number then
                     (if n = 16 then Sixteenth
                      else if n = 32 then ThirtySecond
                      else if n = 64 then SixtyFourth
                      else Sixteenth)
                   else Sixteenth);
                st = (if sy st = Number then newSy st else st)
            in Inr (upd_curNote
                 (\<lambda>note. note\<lparr>note_trillValue := fret + env_stringTuning env (curStaff st) note,
                               note_trillSpeed := duration\<rparr>) st)))
      else if effect = ''v'' then
        Inr (upd_curNote (note_vibrato_update (\<lambda>_. Slight)) (newSy st))
      else if effect = ''sl'' then
        Inr (upd_curNote (note_slideOutType_update (\<lambda>_. Legato)) (newSy st))
      else if effect = ''ss'' then
        Inr (upd_curNote (note_slideOutType_update (\<lambda>_. Shift)) (newSy st))
      else if effect = ''sib'' then
        Inr (upd_curNote (note_slideInType_update (\<lambda>_. IntoFromBelow)) (newSy st))
      else if effect = ''sia'' then
        Inr (upd_curNote (note_slideInType_update (\<lambda>_. IntoFromAbove)) (newSy st))
      else if effect = ''sou'' then
        Inr (upd_curNote (note_slideOutType_update (\<lambda>_. OutUp)) (newSy st))
      else if effect = ''sod'' then
        Inr (upd_curNote (note_slideOutType_update (\<lambda>_. OutDown)) (newSy st))
      else if effect = ''psd'' then
        Inr (upd_curNote (note_slideOutType_update (\<lambda>_. PickSlideDown)) (newSy st))
      else if effect = ''psu'' then
        Inr (upd_curNote (note_slideOutType_update (\<lambda>_. PickSlideUp)) (newSy st))
      else if effect = ''h'' then
        Inr (upd_curNote (note_isHammerPullOrigin_update (\<lambda>_. True)) (newSy st))
      else if effect = ''lht'' then
        Inr (upd_curNote (note_isLeftHandTapped_update (\<lambda>_. True)) (newSy st))
      else if effect = ''g'' then
        Inr (upd_curNote (note_isGhost_update (\<lambda>_. True)) (newSy st))
      else if effect = ''ac'' then
        Inr (upd_curNote (note_accentuated_update (\<lambda>_. Normal)) (newSy st))
      else if effect = ''hac'' then
        Inr (upd_curNote (note_accentuated_update (\<lambda>_. Heavy)) (newSy st))
      else if effect = ''pm'' then
        Inr (upd_curNote (note_isPalmMute_update (\<lambda>_. True)) (newSy st))
      else if effect = ''st'' then
        Inr (upd_curNote (note_isStaccato_update (\<lambda>_. True)) (newSy st))
      else if effect = ''lr'' then
        Inr (upd_curNote (note_isLetRing_update (\<lambda>_. True)) (newSy st))
      else if effect = ''x'' then
        Inr (upd_curNote (\<lambda>note. note\<lparr>note_fret := 0, note_isDead := True\<rparr>) (newSy st))
      else if effect = ''-'' \<or> effect = ''t'' then
        Inr (upd_curNote (note_isTieDestination_update (\<lambda>_. True)) (newSy st))
      else if effect = ''lf'' then
        (let st = newSy st;
             finger = (if sy st = Number then toFinger (asNumber (syData st)) else Thumb);
             st = (if sy st = Number then newSy st else st)
         in Inr (upd_curNote (note_leftHandFinger_update (\<lambda>_. finger)) st))
      else if effect = ''rf'' then
        (let st = newSy st;
             finger = (if sy st = Number then toFinger (asNumber (syData st)) else Thumb);
             st = (if sy st = Number then newSy st else st)
         in Inr (upd_curNote (note_rightHandFinger_update (\<lambda>_. finger)) st))
      else
        (case applyBeatEffect env st of
           Inl e \<Rightarrow> Inl e
         | Inr (applied, st') \<Rightarrow>
             if applied then Inr st' else Inl (error st' effect String False)))"

lemma noteEffect_remaining:
  "noteEffect env st = Inr st' \<Longrightarrow> sy st \<noteq> Eof \<Longrightarrow> remaining st' < remaining st"
  unfolding noteEffect_def Let_def
  by (auto split: if_splits sum.splits prod.splits simp: rem
      dest!: pointsLoop_remaining remaining_newSy_peel
      dest: applyBeatEffect_remaining)

function noteEffectsLoop :: "Env \<Rightarrow> Importer \<Rightarrow> error + Importer" where
  "noteEffectsLoop env st =
     (if sy st = String then
        (case noteEffect env st of
           Inl e \<Rightarrow> Inl e
         | Inr st' \<Rightarrow> noteEffectsLoop env st')
      else Inr st)"
  by pat_completeness auto
termination
  by (relation "measure (\<lambda>(env, st). remaining st)") (auto dest: noteEffect_remaining)

declare noteEffectsLoop.simps [simp del]

lemma noteEffectsLoop_remaining:
  "noteEffectsLoop env st = Inr st' \<Longrightarrow> remaining st' \<le> remaining st"
proof (induction env st rule: noteEffectsLoop.induct)
  case (1 env st)
  show ?case
  proof (cases "sy st = String")
    case True
    with "1.prems" obtain s1 where step: "noteEffect env st = Inr s1"
      and rest: "noteEffectsLoop env s1 = Inr st'"
      by (auto simp: noteEffectsLoop.simps [of env st] split: sum.splits)
    from noteEffect_remaining [OF step] True have "remaining s1 < remaining st" by simp
    with "1.IH" [OF True step rest] show ?thesis by simp
  next
    case False
    with "1.prems" show ?thesis by (simp add: noteEffectsLoop.simps [of env st])
  qed
qed

definition noteEffects :: "Env \<Rightarrow> Importer \<Rightarrow> error + Importer" where
  "noteEffects env st =
     (if sy st \<noteq> LBrace then Inr st
      else
        (case noteEffectsLoop env (newSy st) of
           Inl e \<Rightarrow> Inl e
         | Inr st \<Rightarrow>
             if sy st \<noteq> RBrace then Inl (error st ''note-effect'' RBrace False)
             else Inr (newSy st)))"

lemma noteEffects_remaining:
  "noteEffects env st = Inr st' \<Longrightarrow> remaining st' \<le> remaining st"
  unfolding noteEffects_def
  by (auto split: if_splits sum.splits simp: rem
      dest!: noteEffectsLoop_remaining remaining_newSy_peel)

subsection \<open>Notes\<close>

text \<open>
  What the \<^verbatim>\<open>switch\<close> at the head of \<^verbatim>\<open>note()\<close> leaves in its local variables: dead, tie, fret,
  octave and tone; nothing when the terminal starts no note.
\<close>

definition noteHead ::
  "Env \<Rightarrow> Importer \<Rightarrow> error + (bool \<times> bool \<times> int \<times> int \<times> int) option" where
  "noteHead env st =
     (if sy st = Number then
        (let fret = asNumber (syData st) in
         if staff_isPercussion (curStaff st) \<and> \<not> env_articulationKnown env fret then
           Inl (errorMessage ''Unknown percussion articulation'')
         else Inr (Some (False, False, fret, - 1, - 1)))
      else if sy st = String then
        (if staff_isPercussion (curStaff st) then
           (case map_of (percussionArticulationNames st) (toLowerCase (asString (syData st))) of
              Some fret \<Rightarrow> Inr (Some (False, False, fret, - 1, - 1))
            | None \<Rightarrow> Inl (errorMessage ''Unknown percussion articulation''))
         else
           (let isDead = (asString (syData st) = ''x'');
                isTie = (asString (syData st) = ''-'')
            in if isTie \<or> isDead then Inr (Some (isDead, isTie, 0, - 1, - 1))
               else Inl (error st ''note-fret'' Number True)))
      else if sy st = Tuning then
        (let tuning = asTuning (syData st) in
         Inr (Some (False, False, - 1, tuning_octave tuning, tuning_noteValue tuning)))
      else Inr None)"

text \<open>The \<^verbatim>\<open>.string\<close> part of a fretted note; \<^verbatim>\<open>-1\<close> for a note that is not fretted.\<close>

definition noteStringPart :: "bool \<Rightarrow> Importer \<Rightarrow> error + (int \<times> Importer)" where
  "noteStringPart isFretted st =
     (if isFretted then
        (if sy st \<noteq> Dot then Inl (error st ''note'' Dot True)
         else
           (let st = newSy st in
            if sy st \<noteq> Number then Inl (error st ''note-string'' Number True)
            else
              (let noteString = asNumber (syData st) in
               if noteString < 1 \<or> noteString > int (length (staff_tunings (curStaff st))) then
                 Inl (error st ''note-string'' Number False)
               else Inr (noteString, newSy st))))
      else Inr (- 1, st))"

text \<open>\<^verbatim>\<open>note(beat)\<close>; the beat is the current beat.\<close>

definition note' :: "Env \<Rightarrow> Importer \<Rightarrow> error + (bool \<times> Importer)" where
  "note' env st =
     (case noteHead env st of
        Inl e \<Rightarrow> Inl e
      | Inr None \<Rightarrow> Inr (False, st)
      | Inr (Some (isDead, isTie, fret, octave, tone)) \<Rightarrow>
          (let st = newSy st;
               isFretted = (octave = - 1 \<and> length (staff_tunings (curStaff st)) > 0 \<and>
                            \<not> staff_isPercussion (curStaff st))
           in
             case noteStringPart isFretted st of
               Inl e \<Rightarrow> Inl e
             | Inr (noteString, st) \<Rightarrow>
                 (let note =
                    (if isFretted then
                       new_Note
                         \<lparr>note_string :=
                            int (length (staff_tunings (curStaff st))) - (noteString - 1),
                          note_isDead := isDead,
                          note_isTieDestination := isTie,
                          note_fret := (if \<not> isTie then fret else note_fret new_Note)\<rparr>
                     else if staff_isPercussion (curStaff st) then
                       new_Note\<lparr>note_percussionArticulation := fret\<rparr>
                     else
                       new_Note\<lparr>note_octave := octave, note_tone := tone,
                                 note_isTieDestination := isTie\<rparr>);
                      st = upd_curBeat (beat_notes_update (\<lambda>notes. notes @ [note])) st
                  in case noteEffects env st of
                       Inl e \<Rightarrow> Inl e
                     | Inr st \<Rightarrow> Inr (True, st))))"

lemma noteHead_Some:
  "noteHead env st = Inr (Some h) \<Longrightarrow> sy st \<noteq> Eof"
  unfolding noteHead_def Let_def
  by (auto split: if_splits option.splits)

lemma noteStringPart_remaining:
  "noteStringPart isFretted st = Inr (n, st') \<Longrightarrow> remaining st' \<le> remaining st"
  unfolding noteStringPart_def Let_def
  by (auto split: if_splits simp: rem)

lemma note_remaining:
  assumes "note' env st = Inr (found, st')"
  shows "if found then remaining st' < remaining st else st' = st"
proof (cases "noteHead env st")
  case (Inl e)
  with assms show ?thesis by (simp add: note'_def)
next
  case (Inr h)
  show ?thesis
  proof (cases h)
    case None
    with Inr assms show ?thesis by (simp add: note'_def)
  next
    case (Some t)
    obtain isDead isTie fret octave tone where t: "t = (isDead, isTie, fret, octave, tone)"
      by (cases t) auto
    from Inr Some have ne: "sy st \<noteq> Eof" by (auto dest: noteHead_Some)
    then have lt: "remaining (newSy st) < remaining st" by (rule remaining_newSy_less)
    from assms Inr Some t obtain b n s1 s2 where
      sp: "noteStringPart b (newSy st) = Inr (n, s1)" and
      ne: "noteEffects env (upd_curBeat (beat_notes_update (\<lambda>notes. notes @ [s2])) s1) = Inr st'"
      and f: "found"
      by (auto simp: note'_def Let_def split: sum.splits prod.splits)
    from noteStringPart_remaining [OF sp] noteEffects_remaining [OF ne] lt f
    show ?thesis by simp
  qed
qed

text \<open>The notes of a parenthesised note list after the first one.\<close>

function noteList :: "Env \<Rightarrow> Importer \<Rightarrow> error + Importer" where
  "noteList env st =
     (if sy st \<noteq> RParensis \<and> sy st \<noteq> Eof then
        (case note' env st of
           Inl e \<Rightarrow> Inl e
         | Inr (found, st') \<Rightarrow> if found then noteList env st' else Inr st')
      else Inr st)"
  by pat_completeness auto
termination
  by (relation "measure (\<lambda>(env, st). remaining st)") (auto dest: note_remaining)

declare noteList.simps [simp del]

lemma noteList_remaining:
  "noteList env st = Inr st' \<Longrightarrow> remaining st' \<le> remaining st"
proof (induction env st rule: noteList.induct)
  case (1 env st)
  show ?case
  proof (cases "sy st \<noteq> RParensis \<and> sy st \<noteq> Eof")
    case True
    with "1.prems" obtain found s1 where step: "note' env st = Inr (found, s1)"
      and rest: "if found then noteList env s1 = Inr st' else st' = s1"
      by (auto simp: noteList.simps [of env st] split: sum.splits if_splits)
    show ?thesis
    proof (cases found)
      case True
      with note_remaining [OF step] have "remaining s1 < remaining st" by simp
      moreover from True rest "1.IH" [OF \<open>sy st \<noteq> RParensis \<and> sy st \<noteq> Eof\<close> step refl]
      have "remaining st' \<le> remaining s1" by simp
      ultimately show ?thesis by simp
    next
      case False
      with note_remaining [OF step] rest show ?thesis by simp
    qed
  next
    case False
    with "1.prems" show ?thesis by (auto simp: noteList.simps [of env st])
  qed
qed

subsection \<open>Beats\<close>

text \<open>One round of the loop over the options of a \<^verbatim>\<open>:duration { ... }\<close> prefix.\<close>

definition beatDurationOption :: "Importer \<Rightarrow> error + Importer" where
  "beatDurationOption st =
     (let effect = toLowerCase (asString (syData st)) in
      if effect = ''tu'' then
        (let st = newSy st in
         if sy st \<noteq> Number then Inl (error st ''duration-tuplet'' Number True)
         else Inr (newSy (st\<lparr>currentTuplet := asNumber (syData st)\<rparr>)))
      else Inl (error st ''beat-duration'' String False))"

lemma beatDurationOption_remaining:
  "beatDurationOption st = Inr st' \<Longrightarrow> sy st \<noteq> Eof \<Longrightarrow> remaining st' < remaining st"
  unfolding beatDurationOption_def Let_def
  by (auto split: if_splits simp: rem)

function beatDurationOptions :: "Importer \<Rightarrow> error + Importer" where
  "beatDurationOptions st =
     (if sy st = String then
        (case beatDurationOption st of
           Inl e \<Rightarrow> Inl e
         | Inr st' \<Rightarrow> beatDurationOptions st')
      else Inr st)"
  by pat_completeness auto
termination
  by (relation "measure remaining") (auto dest: beatDurationOption_remaining)

declare beatDurationOptions.simps [simp del]

lemma beatDurationOptions_remaining:
  "beatDurationOptions st = Inr st' \<Longrightarrow> remaining st' \<le> remaining st"
proof (induction st rule: beatDurationOptions.induct)
  case (1 st)
  show ?case
  proof (cases "sy st = String")
    case True
    with "1.prems" obtain s1 where step: "beatDurationOption st = Inr s1"
      and rest: "beatDurationOptions s1 = Inr st'"
      by (auto simp: beatDurationOptions.simps [of st] split: sum.splits)
    from beatDurationOption_remaining [OF step] True have "remaining s1 < remaining st" by simp
    with "1.IH" [OF True step rest] show ?thesis by simp
  next
    case False
    with "1.prems" show ?thesis by (simp add: beatDurationOptions.simps [of st])
  qed
qed

definition beatDuration :: "Importer \<Rightarrow> error + Importer" where
  "beatDuration st =
     (if sy st \<noteq> DoubleDot then Inr st
      else
        (let st = newSy st in
         if sy st \<noteq> Number then Inl (error st ''duration'' Number True)
         else
           (let st = st\<lparr>currentDuration := parseDurationNumber (asJsNumber (syData st)),
                         currentTuplet := 1\<rparr>;
                st = newSy st
            in
              if sy st \<noteq> LBrace then Inr st
              else
                (case beatDurationOptions (newSy st) of
                   Inl e \<Rightarrow> Inl e
                 | Inr st \<Rightarrow>
                     if sy st \<noteq> RBrace then Inl (error st ''beat-duration'' RBrace True)
                     else Inr (newSy st)))))"

lemma beatDuration_remaining:
  "beatDuration st = Inr st' \<Longrightarrow> remaining st' \<le> remaining st"
  unfolding beatDuration_def Let_def
  by (auto split: if_splits sum.splits simp: rem
      dest!: beatDurationOptions_remaining remaining_newSy_peel)

function beatEffectsLoop :: "Env \<Rightarrow> Importer \<Rightarrow> error + Importer" where
  "beatEffectsLoop env st =
     (if sy st = String then
        (case applyBeatEffect env st of
           Inl e \<Rightarrow> Inl e
         | Inr (applied, st') \<Rightarrow>
             if \<not> applied then Inl (error st' ''beat-effects'' String False)
             else beatEffectsLoop env st')
      else Inr st)"
  by pat_completeness auto
termination
  by (relation "measure (\<lambda>(env, st). remaining st)") (auto dest: applyBeatEffect_remaining)

declare beatEffectsLoop.simps [simp del]

lemma beatEffectsLoop_remaining:
  "beatEffectsLoop env st = Inr st' \<Longrightarrow> remaining st' \<le> remaining st"
proof (induction env st rule: beatEffectsLoop.induct)
  case (1 env st)
  show ?case
  proof (cases "sy st = String")
    case True
    with "1.prems" obtain s1 where step: "applyBeatEffect env st = Inr (True, s1)"
      and rest: "beatEffectsLoop env s1 = Inr st'"
      by (auto simp: beatEffectsLoop.simps [of env st] split: sum.splits if_splits)
    from applyBeatEffect_remaining [OF step] True have "remaining s1 < remaining st" by simp
    with "1.IH" [OF True step refl] rest show ?thesis by simp
  next
    case False
    with "1.prems" show ?thesis by (simp add: beatEffectsLoop.simps [of env st])
  qed
qed

definition beatEffects :: "Env \<Rightarrow> Importer \<Rightarrow> error + Importer" where
  "beatEffects env st =
     (if sy st \<noteq> LBrace then Inr st
      else
        (case beatEffectsLoop env (newSy st) of
           Inl e \<Rightarrow> Inl e
         | Inr st \<Rightarrow>
             if sy st \<noteq> RBrace then Inl (error st ''beat-effects'' RBrace True)
             else Inr (newSy st)))"

lemma beatEffects_remaining:
  "beatEffects env st = Inr st' \<Longrightarrow> remaining st' \<le> remaining st"
  unfolding beatEffects_def
  by (auto split: if_splits sum.splits simp: rem
      dest!: beatEffectsLoop_remaining remaining_newSy_peel)

text \<open>
  Modelled from the spec: \<^verbatim>\<open>BeatCloner.clone\<close> is generated code outside the sources. The
  clone is a full deep copy of the beat, its notes included, that shares nothing with the
  original; as a value it is the beat itself.
\<close>

definition BeatCloner_clone :: "Beat \<Rightarrow> Beat" where
  "BeatCloner_clone beat = beat"

text \<open>The notes of a beat: a parenthesised list, the rest \<^verbatim>\<open>r\<close>, or a single note.\<close>

definition beatNotes :: "Env \<Rightarrow> Importer \<Rightarrow> error + (bool \<times> Importer)" where
  "beatNotes env st =
     (if sy st = LParensis then
        (case note' env (newSy st) of
           Inl e \<Rightarrow> Inl e
         | Inr (found, st) \<Rightarrow>
             (case noteList env st of
                Inl e \<Rightarrow> Inl e
              | Inr st \<Rightarrow>
                  if sy st \<noteq> RParensis then Inl (error st ''note-list'' RParensis True)
                  else Inr (True, newSy st)))
      else if sy st = String \<and> toLowerCase (asString (syData st)) = ''r'' then
        Inr (True, newSy st)
      else
        (case note' env st of
           Inl e \<Rightarrow> Inl e
         | Inr (found, st) \<Rightarrow>
             if \<not> found then Inr (False, upd_curVoice (voice_beats_update butlast) st)
             else Inr (True, st)))"

text \<open>The \<^verbatim>\<open>.duration\<close> suffix of a beat.\<close>

definition beatNewDuration :: "Importer \<Rightarrow> error + Importer" where
  "beatNewDuration st =
     (if sy st = Dot then
        (let st = newSy st in
         if sy st \<noteq> Number then Inl (error st ''duration'' Number True)
         else Inr (newSy (st\<lparr>currentDuration := parseDurationNumber (asJsNumber (syData st))\<rparr>)))
      else Inr st)"

text \<open>The \<^verbatim>\<open>*N\<close> suffix of a beat; 1 when there is none.\<close>

definition beatMultiplier :: "Importer \<Rightarrow> error + (int \<times> Importer)" where
  "beatMultiplier st =
     (if sy st = Multiply then
        (let st = newSy st in
         if sy st \<noteq> Number then Inl (error st ''multiplier'' Number True)
         else Inr (asNumber (syData st), newSy st))
      else Inr (1, st))"

text \<open>
  \<^verbatim>\<open>beat.duration = this._currentDuration\<close>, \<^verbatim>\<open>beat.dynamics = this._currentDynamics\<close>, and the
  running tuplet unless the beat has one of its own.
\<close>

definition beatValues :: "Importer \<Rightarrow> Importer" where
  "beatValues st =
     (let st = upd_curBeat
            (\<lambda>b. b\<lparr>beat_duration := currentDuration st,
                    beat_dynamics := currentDynamics st\<rparr>) st
      in if currentTuplet st \<noteq> 1 \<and> \<not> hasTuplet (curBeat st) then
           upd_curBeat (applyTuplet (currentTuplet st)) st
         else st)"

text \<open>
  \<^verbatim>\<open>beat(voice)\<close> up to the beat multiplier: the duration prefix, the new beat added to the
  voice, its notes, the duration suffix and the values of the beat.
\<close>

definition beatHead :: "Env \<Rightarrow> Importer \<Rightarrow> error + (bool \<times> Importer)" where
  "beatHead env st =
     (case beatDuration st of
        Inl e \<Rightarrow> Inl e
      | Inr st \<Rightarrow>
          (case beatNotes env (upd_curVoice (voice_beats_update (\<lambda>beats. beats @ [new_Beat])) st) of
             Inl e \<Rightarrow> Inl e
           | Inr (produced, st) \<Rightarrow>
               if \<not> produced then Inr (False, st)
               else
                 (case beatNewDuration st of
                    Inl e \<Rightarrow> Inl e
                  | Inr st \<Rightarrow> Inr (True, beatValues st))))"

text \<open>
  \<^verbatim>\<open>beat(voice)\<close>: after the head, the multiplier and the beat effects, \<^verbatim>\<open>beatRepeat - 1\<close>
  clones of the beat are added to the voice. The counter of the loop is a double: it does not
  get past \<open>2 ^ 53\<close>, and with a larger bound the loop does not end. The limits of arrays and
  of memory are not part of the model.
\<close>

definition beat :: "Env \<Rightarrow> Importer \<Rightarrow> error + (bool \<times> Importer)" where
  "beat env st =
     (case beatHead env st of
        Inl e \<Rightarrow> Inl e
      | Inr (produced, st) \<Rightarrow>
          if \<not> produced then Inr (False, st)
          else
            (case beatMultiplier st of
               Inl e \<Rightarrow> Inl e
             | Inr (beatRepeat, st) \<Rightarrow>
                 (case beatEffects env st of
                    Inl e \<Rightarrow> Inl e
                  | Inr st \<Rightarrow>
                      if jsMinus beatRepeat 1 > 2 ^ 53 then Inl NonTermination
                      else
                        Inr (True,
                          upd_curVoice
                            (voice_beats_update
                               (\<lambda>beats. beats @
                                  replicate (nat (jsMinus beatRepeat 1))
                                    (BeatCloner_clone (last beats)))) st))))"

lemma beatNotes_remaining:
  "beatNotes env st = Inr (produced, st') \<Longrightarrow>
     (if produced then remaining st' < remaining st else remaining st' \<le> remaining st)"
  unfolding beatNotes_def
  by (auto split: if_splits sum.splits prod.splits simp: rem
      dest!: note_remaining noteList_remaining remaining_newSy_peel)

lemma beatNewDuration_remaining:
  "beatNewDuration st = Inr st' \<Longrightarrow> remaining st' \<le> remaining st"
  unfolding beatNewDuration_def Let_def
  by (auto split: if_splits simp: rem)

lemma beatMultiplier_remaining:
  "beatMultiplier st = Inr (n, st') \<Longrightarrow> remaining st' \<le> remaining st"
  unfolding beatMultiplier_def Let_def
  by (auto split: if_splits simp: rem)

lemma beatValues_lex [simp]:
  "sy (beatValues st) = sy st" "syData (beatValues st) = syData st"
  "input (beatValues st) = input st" "remaining (beatValues st) = remaining st"
  by (simp_all add: beatValues_def Let_def)

lemma beatHead_remaining:
  "beatHead env st = Inr (produced, st') \<Longrightarrow>
     (if produced then remaining st' < remaining st else remaining st' \<le> remaining st)"
  unfolding beatHead_def
  by (auto split: if_splits sum.splits prod.splits simp: rem
      dest!: beatDuration_remaining beatNotes_remaining beatNewDuration_remaining)

lemma beat_remaining:
  "beat env st = Inr (produced, st') \<Longrightarrow>
     (if produced then remaining st' < remaining st else remaining st' \<le> remaining st)"
  unfolding beat_def
  by (auto split: if_splits sum.splits prod.splits simp: rem
      dest!: beatHead_remaining beatMultiplier_remaining beatEffects_remaining)

subsection \<open>Bar meta\<close>

text \<open>
  The bit operators of the source work on 32-bit two's complement integers: \<^verbatim>\<open>a << b\<close> shifts
  by \<^verbatim>\<open>b\<close> modulo 32, and \<^verbatim>\<open>a | b\<close> is the signed reading of the bitwise disjunction. An
  infinite operand counts as 0, which is what \<open>2 ^ 1024\<close> is modulo \<open>2 ^ 32\<close>.
\<close>

definition jsShiftLeft :: "int \<Rightarrow> int \<Rightarrow> int" where
  "jsShiftLeft a b = sint (push_bit (nat (b mod 32)) (word_of_int a :: 32 word))"

definition jsOr :: "int \<Rightarrow> int \<Rightarrow> int" where
  "jsOr a b = sint ((word_of_int a :: 32 word) OR word_of_int b)"

text \<open>\<^verbatim>\<open>applyAlternateEnding(master)\<close>; the master bar is the one of the current bar.\<close>

definition applyAlternateEnding :: "Importer \<Rightarrow> error + Importer" where
  "applyAlternateEnding st =
     (let num = asNumber (syData st) in
      if num < 1 then Inl (error st ''alternateending'' Number True)
      else
        Inr (newSy (upd_curMaster
          (master_alternateEndings_update (\<lambda>a. jsOr a (jsShiftLeft 1 (jsMinus num 1)))) st)))"

lemma applyAlternateEnding_remaining:
  "applyAlternateEnding st = Inr st' \<Longrightarrow> sy st \<noteq> Eof \<Longrightarrow> remaining st' < remaining st"
  unfolding applyAlternateEnding_def Let_def
  by (auto split: if_splits simp: rem)

text \<open>The further numbers of a parenthesised list of alternate endings.\<close>

function alternateEndings :: "Importer \<Rightarrow> error + Importer" where
  "alternateEndings st =
     (if sy st = Number then
        (case applyAlternateEnding st of
           Inl e \<Rightarrow> Inl e
         | Inr st' \<Rightarrow> alternateEndings st')
      else Inr st)"
  by pat_completeness auto
termination
  by (relation "measure remaining") (auto dest: applyAlternateEnding_remaining)

declare alternateEndings.simps [simp del]

lemma alternateEndings_remaining:
  "alternateEndings st = Inr st' \<Longrightarrow> remaining st' \<le> remaining st"
proof (induction st rule: alternateEndings.induct)
  case (1 st)
  show ?case
  proof (cases "sy st = Number")
    case True
    with "1.prems" obtain s1 where step: "applyAlternateEnding st = Inr s1"
      and rest: "alternateEndings s1 = Inr st'"
      by (auto simp: alternateEndings.simps [of st] split: sum.splits)
    from applyAlternateEnding_remaining [OF step] True have "remaining s1 < remaining st"
      by simp
    with "1.IH" [OF True step rest] show ?thesis by simp
  next
    case False
    with "1.prems" show ?thesis by (simp add: alternateEndings.simps [of st])
  qed
qed

text \<open>
  One round of the \<^verbatim>\<open>while\<close> loop of \<^verbatim>\<open>barMeta(bar)\<close>; the bar is the last bar of the current
  staff and \<^verbatim>\<open>master\<close> its master bar.
\<close>

definition barMetaCommand :: "Env \<Rightarrow> Importer \<Rightarrow> error + Importer" where
  "barMetaCommand env st =
     (let command = toLowerCase (asString (syData st)) in
      if command = ''ts'' then
        (let st = newSy st in
         if sy st \<noteq> Number then Inl (error st ''timesignature-numerator'' Number True)
         else
           (let st = upd_curMaster
                  (master_timeSignatureNumerator_update (\<lambda>_. asNumber (syData st))) st;
                st = newSy st
            in
              if sy st \<noteq> Number then Inl (error st ''timesignature-denominator'' Number True)
              else
                Inr (newSy (upd_curMaster
                  (master_timeSignatureDenominator_update (\<lambda>_. asNumber (syData st))) st))))
      else if command = ''ro'' then
        Inr (newSy (upd_curMaster (master_isRepeatStart_update (\<lambda>_. True)) st))
      else if command = ''rc'' then
        (let st = newSy st in
         if sy st \<noteq> Number then Inl (error st ''repeatclose'' Number True)
         else if asNumber (syData st) > 2048 then Inl (error st ''repeatclose'' Number False)
         else
           Inr (newSy (upd_curMaster
             (master_repeatCount_update (\<lambda>_. asNumber (syData st))) st)))
      else if command = ''ae'' then
        (let st = newSy st in
         if sy st = LParensis then
           (let st = newSy st in
            if sy st \<noteq> Number then Inl (error st ''alternateending'' Number True)
            else
              (case applyAlternateEnding st of
                 Inl e \<Rightarrow> Inl e
               | Inr st \<Rightarrow>
                   (case alternateEndings st of
                      Inl e \<Rightarrow> Inl e
                    | Inr st \<Rightarrow>
                        if sy st \<noteq> RParensis then
                          Inl (error st ''alternateending-list'' RParensis True)
                        else Inr (newSy st))))
         else if sy st \<noteq> Number then Inl (error st ''alternateending'' Number True)
         else applyAlternateEnding st)
      else if command = ''ks'' then
        (let st = newSy st in
         if sy st \<noteq> String then Inl (error st ''keysignature'' String True)
         else
           Inr (newSy (upd_curMaster
             (master_keySignature_update (\<lambda>_. parseKeySignature (asString (syData st)))) st)))
      else if command = ''clef'' then
        (let st = newSy st in
         if sy st = String then
           Inr (newSy (upd_curBar
             (bar_clef_update (\<lambda>_. parseClefFromString (asString (syData st)))) st))
         else if sy st = Number then
           Inr (newSy (upd_curBar
             (bar_clef_update (\<lambda>_. parseClefFromInt (asNumber (syData st)))) st))
         else if sy st = Tuning then
           Inr (newSy (upd_curBar
             (bar_clef_update
                (\<lambda>_. parseClefFromInt (tuning_realValue (asTuning (syData st))))) st))
         else Inl (error st ''clef'' String True))
      else if command = ''tempo'' then
        (case readTempoAutomation st of
           Inl e \<Rightarrow> Inl e
         | Inr (tempoAutomation, st) \<Rightarrow>
             Inr (upd_curMaster
               (master_tempoAutomations_update (\<lambda>as. as @ [tempoAutomation])) st))
      else if command = ''section'' then
        (let st = newSy st in
         if sy st \<noteq> String then Inl (error st ''section'' String True)
         else
           (let text = asString (syData st);
                st = newSy st
            in
              if sy st = String \<and> \<not> isNoteText (toLowerCase (asString (syData st))) then
                Inr (newSy (upd_curMaster
                  (master_section_update
                     (\<lambda>_. Some \<lparr>section_marker = text,
                                 section_text = asString (syData st)\<rparr>)) st))
              else
                Inr (upd_curMaster
                  (master_section_update
                     (\<lambda>_. Some \<lparr>section_marker = [], section_text = text\<rparr>)) st)))
      else if command = ''tf'' then
        (let st = newSy st in
         if sy st = String then
           Inr (newSy (upd_curMaster
             (master_tripletFeel_update
                (\<lambda>_. parseTripletFeelFromString (asString (syData st)))) st))
         else if sy st = Number then
           Inr (newSy (upd_curMaster
             (master_tripletFeel_update
                (\<lambda>_. parseTripletFeelFromInt (asNumber (syData st)))) st))
         else Inl (error st ''triplet-feel'' String True))
      else if command = ''ac'' then
        Inr (newSy (upd_curMaster (master_isAnacrusis_update (\<lambda>_. True)) st))
      else if curMasterIndex st = 0 then
        (case handleStaffMeta env st of
           Inl e \<Rightarrow> Inl e
         | Inr (handled, st') \<Rightarrow>
             if \<not> handled then Inl (error st' ''measure-effects'' String False)
             else Inr st')
      else Inl (error st ''measure-effects'' String False))"

lemma barMetaCommand_remaining:
  "barMetaCommand env st = Inr st' \<Longrightarrow> sy st \<noteq> Eof \<Longrightarrow> remaining st' < remaining st"
  unfolding barMetaCommand_def Let_def
  by (auto split: if_splits sum.splits prod.splits simp: rem
      dest!: alternateEndings_remaining readTempoAutomation_remaining
      dest: applyAlternateEnding_remaining handleStaffMeta_remaining
      dest!: remaining_newSy_peel)

function barMetaLoop :: "Env \<Rightarrow> bool \<Rightarrow> Importer \<Rightarrow> error + (bool \<times> Importer)" where
  "barMetaLoop env anyMeta st =
     (if sy st = MetaCommand then
        (case barMetaCommand env st of
           Inl e \<Rightarrow> Inl e
         | Inr st' \<Rightarrow> barMetaLoop env True st')
      else Inr (anyMeta, st))"
  by pat_completeness auto
termination
  by (relation "measure (\<lambda>(env, anyMeta, st). remaining st)")
    (auto dest: barMetaCommand_remaining)

declare barMetaLoop.simps [simp del]

lemma barMetaLoop_remaining:
  "barMetaLoop env anyMeta st = Inr (anyMeta', st') \<Longrightarrow>
     (if sy st = MetaCommand then remaining st' < remaining st else st' = st)"
proof (induction env anyMeta st rule: barMetaLoop.induct)
  case (1 env anyMeta st)
  show ?case
  proof (cases "sy st = MetaCommand")
    case True
    with "1.prems" obtain s1 where step: "barMetaCommand env st = Inr s1"
      and rest: "barMetaLoop env True s1 = Inr (anyMeta', st')"
      by (auto simp: barMetaLoop.simps [of env anyMeta st] split: sum.splits)
    from barMetaCommand_remaining [OF step] True have "remaining s1 < remaining st" by simp
    moreover from "1.IH" [OF True step rest] have "remaining st' \<le> remaining s1"
      by (auto split: if_splits)
    ultimately show ?thesis using True by simp
  next
    case False
    with "1.prems" show ?thesis by (simp add: barMetaLoop.simps [of env anyMeta st])
  qed
qed

definition barMeta :: "Env \<Rightarrow> Importer \<Rightarrow> error + (bool \<times> Importer)" where
  "barMeta env st =
     (case barMetaLoop env False st of
        Inl e \<Rightarrow> Inl e
      | Inr (anyMeta, st) \<Rightarrow>
          Inr (anyMeta,
            if curMasterIndex st = 0 \<and> master_tempoAutomations (curMaster st) = [] then
              upd_curMaster
                (master_tempoAutomations_update
                   (\<lambda>as. as @ [\<lparr>automation_isLinear = False, automation_type = Tempo,
                                 automation_value = score_tempo (score st)\<rparr>])) st
            else st))"

lemma barMeta_remaining:
  "barMeta env st = Inr (anyMeta, st') \<Longrightarrow>
     (if sy st = MetaCommand then remaining st' < remaining st
      else remaining st' = remaining st)"
  unfolding barMeta_def
  by (auto split: if_splits sum.splits prod.splits dest!: barMetaLoop_remaining)

subsection \<open>Bars\<close>

text \<open>
  \<^verbatim>\<open>newBar(staff)\<close>: \<^verbatim>\<open>Staff.addBar\<close> appends the bar, which takes the clef of the bar before it,
  and the bar receives one voice.
\<close>

definition newBar :: "Staff \<Rightarrow> Staff" where
  "newBar staff =
     (let bar = (if length (staff_bars staff) > 0 then
                   new_Bar\<lparr>bar_clef := bar_clef (last (staff_bars staff))\<rparr>
                 else new_Bar);
          bar = bar\<lparr>bar_voices := bar_voices bar @ [new_Voice]\<rparr>
      in staff\<lparr>staff_bars := staff_bars staff @ [bar]\<rparr>)"

text \<open>
  \<^verbatim>\<open>Score.addMasterBar\<close> appends the new master bar; after the first one it takes key and time
  signature and triplet feel from the master bar before it.
\<close>

definition addMasterBar :: "Score \<Rightarrow> Score" where
  "addMasterBar sc =
     (let master =
        (if length (score_masterBars sc) > 0 then
           (let previous = last (score_masterBars sc) in
            new_MasterBar
              \<lparr>master_keySignature := master_keySignature previous,
               master_keySignatureType := master_keySignatureType previous,
               master_timeSignatureDenominator := master_timeSignatureDenominator previous,
               master_timeSignatureNumerator := master_timeSignatureNumerator previous,
               master_tripletFeel := master_tripletFeel previous\<rparr>)
         else new_MasterBar)
      in sc\<lparr>score_masterBars := score_masterBars sc @ [master]\<rparr>)"

text \<open>The tuning a staff receives from the program of its track when none was given.\<close>

definition detectTuning :: "Env \<Rightarrow> int \<Rightarrow> Staff \<Rightarrow> Staff" where
  "detectTuning env program staff =
     (let staff = staff\<lparr>staff_displayTranspositionPitch := 0, staff_tunings := []\<rparr> in
      if program = 15 \<or> (program \<ge> 24 \<and> program \<le> 31) then
        staff\<lparr>staff_displayTranspositionPitch := - 12,
               staff_tunings := env_defaultTuning6 env\<rparr>
      else if program \<ge> 32 \<and> program \<le> 39 then
        staff\<lparr>staff_displayTranspositionPitch := - 12, staff_tunings := [43, 38, 33, 28]\<rparr>
      else if program = 40 \<or> program = 44 \<or> program = 45 \<or> program = 48 \<or> program = 49 \<or>
              program = 50 \<or> program = 51 then
        staff\<lparr>staff_tunings := [52, 57, 50, 43]\<rparr>
      else if program = 41 then staff\<lparr>staff_tunings := [57, 50, 43, 36]\<rparr>
      else if program = 42 then staff\<lparr>staff_tunings := [45, 38, 31, 24]\<rparr>
      else if program = 43 then
        staff\<lparr>staff_displayTranspositionPitch := - 12, staff_tunings := [43, 38, 33, 28]\<rparr>
      else if program = 105 then staff\<lparr>staff_tunings := [50, 47, 43, 38, 55]\<rparr>
      else if program = 106 then staff\<lparr>staff_tunings := [57, 52, 45]\<rparr>
      else if program = 107 then staff\<lparr>staff_tunings := [52, 45, 38, 31]\<rparr>
      else if program = 110 then staff\<lparr>staff_tunings := [64, 57, 50, 43]\<rparr>
      else staff)"

text \<open>The beats of a bar, up to the next \<^verbatim>\<open>|\<close> or the end of the input.\<close>

function barBeats :: "Env \<Rightarrow> bool \<Rightarrow> Importer \<Rightarrow> error + (bool \<times> Importer)" where
  "barBeats env anyBeatData st =
     (if sy st \<noteq> Pipe \<and> sy st \<noteq> Eof then
        (case beat env st of
           Inl e \<Rightarrow> Inl e
         | Inr (produced, st') \<Rightarrow>
             if \<not> produced then Inr (anyBeatData, st') else barBeats env True st')
      else Inr (anyBeatData, st))"
  by pat_completeness auto
termination
  by (relation "measure (\<lambda>(env, anyBeatData, st). remaining st)")
    (auto dest: beat_remaining)

declare barBeats.simps [simp del]

lemma barBeats_remaining:
  "barBeats env anyBeatData st = Inr (anyBeatData', st') \<Longrightarrow> remaining st' \<le> remaining st"
proof (induction env anyBeatData st rule: barBeats.induct)
  case (1 env anyBeatData st)
  show ?case
  proof (cases "sy st \<noteq> Pipe \<and> sy st \<noteq> Eof")
    case True
    with "1.prems" obtain produced s1 where step: "beat env st = Inr (produced, s1)"
      and rest: "if produced then barBeats env True s1 = Inr (anyBeatData', st') else st' = s1"
      by (auto simp: barBeats.simps [of env anyBeatData st] split: sum.splits if_splits)
    show ?thesis
    proof (cases produced)
      case True
      with beat_remaining [OF step] have "remaining s1 < remaining st" by simp
      moreover from True rest "1.IH" [OF \<open>sy st \<noteq> Pipe \<and> sy st \<noteq> Eof\<close> step refl]
      have "remaining st' \<le> remaining s1" by simp
      ultimately show ?thesis by simp
    next
      case False
      with beat_remaining [OF step] rest show ?thesis by simp
    qed
  next
    case False
    with "1.prems" show ?thesis by (auto simp: barBeats.simps [of env anyBeatData st])
  qed
qed

definition bar :: "Env \<Rightarrow> Importer \<Rightarrow> error + (bool \<times> Importer)" where
  "bar env st =
     (case trackStaffMeta env st of
        Inl e \<Rightarrow> Inl e
      | Inr (anyStaffMeta, st) \<Rightarrow>
          (let st = upd_curStaff newBar st;
               st = (if length (staff_bars (curStaff st)) > length (score_masterBars (score st))
                     then st\<lparr>score := addMasterBar (score st)\<rparr>
                     else st)
           in
             case barMeta env st of
               Inl e \<Rightarrow> Inl e
             | Inr (anyBarMeta, st) \<Rightarrow>
                 (let st =
                    (if \<not> staffTuningApplied st \<and> \<not> staffHasExplicitTuning st then
                       (upd_curStaff (detectTuning env (track_program (curTrack st))) st)
                         \<lparr>staffTuningApplied := True\<rparr>
                     else st)
                  in
                    case barBeats env False st of
                      Inl e \<Rightarrow> Inl e
                    | Inr (anyBeatData, st) \<Rightarrow>
                        Inr (anyStaffMeta \<or> anyBarMeta \<or> anyBeatData,
                          if voice_beats (curVoice st) = [] then
                            upd_curVoice
                              (voice_beats_update
                                 (\<lambda>beats. beats @ [new_Beat\<lparr>beat_isEmpty := True\<rparr>])) st
                          else st))))"

lemma trackStaffMeta_remaining:
  "trackStaffMeta env st = Inr (anyStaffMeta, st') \<Longrightarrow>
     remaining st' < remaining st \<or> st' = st"
  using trackMeta_remaining [of st env]
  by (auto simp: trackStaffMeta_def split: if_splits sum.splits dest!: staffMeta_remaining)

lemma bar_remaining:
  "bar env st = Inr (anyData, st') \<Longrightarrow>
     (if sy st = MetaCommand then remaining st' < remaining st
      else remaining st' \<le> remaining st)"
  unfolding bar_def Let_def
  by (auto split: sum.splits prod.splits if_splits
      dest!: trackStaffMeta_remaining barMeta_remaining barBeats_remaining)

function barsLoop :: "Env \<Rightarrow> Importer \<Rightarrow> error + Importer" where
  "barsLoop env st =
     (if sy st \<noteq> Eof then
        (if sy st = Pipe then
           (case bar env (newSy st) of
              Inl e \<Rightarrow> Inl e
            | Inr (anyData, st') \<Rightarrow> barsLoop env st')
         else if sy st = MetaCommand then
           (case bar env st of
              Inl e \<Rightarrow> Inl e
            | Inr (anyData, st') \<Rightarrow> barsLoop env st')
         else Inr st)
      else Inr st)"
  by pat_completeness auto
termination
proof (relation "measure (\<lambda>(env, st). remaining st)")
  show "wf (measure (\<lambda>(env, st). remaining st))" by simp
next
  fix env st x anyData st'
  assume "sy st \<noteq> Eof" "sy st = Pipe" "bar env (newSy st) = Inr x" "(anyData, st') = x"
  then have "remaining st' \<le> remaining (newSy st)" "remaining (newSy st) < remaining st"
    using bar_remaining [of env "newSy st" anyData st'] remaining_newSy_less [of st]
    by (auto split: if_splits)
  then show "((env, st'), (env, st)) \<in> measure (\<lambda>(env, st). remaining st)" by simp
next
  fix env st x anyData st'
  assume "sy st = MetaCommand" "bar env st = Inr x" "(anyData, st') = x"
  then show "((env, st'), (env, st)) \<in> measure (\<lambda>(env, st). remaining st)"
    using bar_remaining [of env st anyData st'] by auto
qed

declare barsLoop.simps [simp del]

definition bars :: "Env \<Rightarrow> Importer \<Rightarrow> error + (bool \<times> Importer)" where
  "bars env st =
     (case bar env st of
        Inl e \<Rightarrow> Inl e
      | Inr (anyData, st) \<Rightarrow>
          (case barsLoop env st of
             Inl e \<Rightarrow> Inl e
           | Inr st \<Rightarrow> Inr (anyData, st)))"

subsection \<open>Finishing the score\<close>

text \<open>
  One round of the loop of \<^verbatim>\<open>consolidate\<close>: a new bar whose first voice holds one empty beat.
\<close>

definition addEmptyBar :: "Staff \<Rightarrow> Staff" where
  "addEmptyBar staff =
     staff_bars_update
       (map_last (bar_voices_update (map_nth 0
          (voice_beats_update (\<lambda>beats. beats @ [new_Beat\<lparr>beat_isEmpty := True\<rparr>])))))
       (newBar staff)"

lemma length_addEmptyBar [simp]:
  "length (staff_bars (addEmptyBar staff)) = Suc (length (staff_bars staff))"
  by (simp add: addEmptyBar_def newBar_def Let_def)

function padStaff :: "nat \<Rightarrow> Staff \<Rightarrow> Staff" where
  "padStaff n staff =
     (if length (staff_bars staff) < n then padStaff n (addEmptyBar staff) else staff)"
  by pat_completeness auto
termination
  by (relation "measure (\<lambda>(n, staff). n - length (staff_bars staff))") auto

declare padStaff.simps [simp del]

definition consolidate :: "Importer \<Rightarrow> Importer" where
  "consolidate st =
     st\<lparr>score :=
          score_tracks_update
            (map (track_staves_update (map (padStaff (length (score_masterBars (score st)))))))
            (score st)\<rparr>"

text \<open>The fields of a fresh importer that is handed the terminals of the input.\<close>

definition new_Importer :: "Token list \<Rightarrow> Importer" where
  "new_Importer tokens =
     \<lparr>score = new_Score, trackChannel = 0, currentTrack = 0, currentStaff = 0, sy = No,
      syData = StrData [], input = tokens, currentDuration = QuadrupleWhole,
      currentDynamics = DynamicValue_PPP, currentTuplet = 0, lyrics = [],
      staffHasExplicitTuning = False, staffTuningApplied = False,
      percussionArticulationNames = []\<rparr>"

definition createDefaultScore :: "Env \<Rightarrow> Importer \<Rightarrow> Importer" where
  "createDefaultScore env st =
     newTrack env (st\<lparr>score := new_Score\<lparr>score_tempo := 120, score_tempoLabel := []\<rparr>\<rparr>)"

definition isAlphaTexError :: "error \<Rightarrow> bool" where
  "isAlphaTexError e =
     (case e of AlphaTexSymbolError n x y \<Rightarrow> True | AlphaTexMessage m \<Rightarrow> True | _ \<Rightarrow> False)"

text \<open>
  \<^verbatim>\<open>readScore\<close>, up to and including \<^verbatim>\<open>consolidate\<close>. What follows in the source
  (\<^verbatim>\<open>Score.finish\<close>, \<^verbatim>\<open>rebuildRepeatGroups\<close>, \<^verbatim>\<open>applyLyrics\<close>) belongs to the model classes.
\<close>

definition parse :: "Env \<Rightarrow> Importer \<Rightarrow> error + Importer" where
  "parse env st =
     (case metaData env st of
        Inl e \<Rightarrow> Inl e
      | Inr (anyMetaRead, st) \<Rightarrow>
          (case bars env st of
             Inl e \<Rightarrow> Inl e
           | Inr (anyBarsRead, st) \<Rightarrow>
               if \<not> anyMetaRead \<and> \<not> anyBarsRead then
                 Inl (UnsupportedFormatError ''No alphaTex data found'')
               else Inr (consolidate st)))"

definition readScore :: "Env \<Rightarrow> Token list \<Rightarrow> error + Score" where
  "readScore env tokens =
     (let st = (new_Importer tokens)\<lparr>lyrics := []\<rparr>;
          st = createDefaultScore env st;
          st = st\<lparr>currentDuration := Quarter, currentDynamics := DynamicValue_F,
                  currentTuplet := 1\<rparr>;
          st = newSy st
      in
        if sy st = LowerThan then
          Inl (UnsupportedFormatError
            (''Unknown start sign '' @ [CHR 0x27] @ ''<'' @ [CHR 0x27] @
               '' (meant to import as XML?)''))
        else if sy st = Eof then Inl (UnsupportedFormatError ''Unexpected end of file'')
        else
          (case parse env st of
             Inl e \<Rightarrow> Inl (if isAlphaTexError e then UnsupportedFormatCause e else e)
           | Inr st \<Rightarrow> Inr (score st)))"

section \<open>What the productions leave in place\<close>

subsection \<open>Updates at a position\<close>

lemma nth_map_nth:
  "map_nth i f xs ! j = (if i = j \<and> i < length xs then f (xs ! j) else xs ! j)"
  by (induction i f xs arbitrary: j rule: map_nth.induct) (auto simp: nth_Cons split: nat.splits)

lemma map_nth_out_of_range [simp]: "length xs \<le> i \<Longrightarrow> map_nth i f xs = xs"
  by (induction i f xs rule: map_nth.induct) auto

lemma map_map_nth:
  "(\<And>x. g (f x) = g x) \<Longrightarrow> map g (map_nth i f xs) = map g xs"
  by (induction i f xs rule: map_nth.induct) auto

lemma map_nth_append_last [simp]: "map_nth (length xs) f (xs @ [x]) = xs @ [f x]"
  by (induction xs) auto

lemma map_last_snoc [simp]: "map_last f (xs @ [x]) = xs @ [f x]"
  by (simp add: map_last_def)

lemma map_last_Nil [simp]: "map_last f [] = []"
  by (simp add: map_last_def)

lemma butlast_map_last [simp]: "butlast (map_last f xs) = butlast xs"
  by (cases xs rule: rev_cases) auto

lemma last_map_last [simp]: "xs \<noteq> [] \<Longrightarrow> last (map_last f xs) = f (last xs)"
  by (cases xs rule: rev_cases) auto

lemma map_last_eq_Nil [simp]: "map_last f xs = [] \<longleftrightarrow> xs = []"
  by (cases xs rule: rev_cases) auto

subsection \<open>Reading a terminal changes the lexical fields only\<close>

lemma newSy_fields [simp]:
  "score (newSy st) = score st"
  "trackChannel (newSy st) = trackChannel st"
  "currentTrack (newSy st) = currentTrack st"
  "currentStaff (newSy st) = currentStaff st"
  "currentDuration (newSy st) = currentDuration st"
  "currentDynamics (newSy st) = currentDynamics st"
  "currentTuplet (newSy st) = currentTuplet st"
  "lyrics (newSy st) = lyrics st"
  "staffHasExplicitTuning (newSy st) = staffHasExplicitTuning st"
  "staffTuningApplied (newSy st) = staffTuningApplied st"
  "percussionArticulationNames (newSy st) = percussionArticulationNames st"
  by (simp_all add: newSy_def split: list.splits)

lemma newSy_Cons:
  "input st = t # ts \<Longrightarrow>
     sy (newSy st) = tokenSymbol t \<and> syData (newSy st) = tokenData t (syData st) \<and>
     input (newSy st) = ts"
  by (simp add: newSy_def)

lemma newSy_Nil: "input st = [] \<Longrightarrow> sy (newSy st) = Eof \<and> input (newSy st) = []"
  by (simp add: newSy_def)

lemma newSy_cur [simp]:
  "curTrack (newSy st) = curTrack st"
  "curStaff (newSy st) = curStaff st"
  "curBar (newSy st) = curBar st"
  "curVoice (newSy st) = curVoice st"
  "curBeat (newSy st) = curBeat st"
  "curNote (newSy st) = curNote st"
  "curMasterIndex (newSy st) = curMasterIndex st"
  "curMaster (newSy st) = curMaster st"
  by (simp_all add: curTrack_def curStaff_def curBar_def curVoice_def curBeat_def curNote_def
      curMasterIndex_def curMaster_def)

subsection \<open>The current objects after an update\<close>

definition validStaff :: "Importer \<Rightarrow> bool" where
  "validStaff st \<longleftrightarrow>
     currentTrack st < length (score_tracks (score st)) \<and>
     currentStaff st < length (track_staves (curTrack st))"

lemma upd_curTrack_fields [simp]:
  "currentTrack (upd_curTrack f st) = currentTrack st"
  "currentStaff (upd_curTrack f st) = currentStaff st"
  "score_masterBars (score (upd_curTrack f st)) = score_masterBars (score st)"
  "score_tempo (score (upd_curTrack f st)) = score_tempo (score st)"
  "length (score_tracks (score (upd_curTrack f st))) = length (score_tracks (score st))"
  "staffHasExplicitTuning (upd_curTrack f st) = staffHasExplicitTuning st"
  "staffTuningApplied (upd_curTrack f st) = staffTuningApplied st"
  "currentTuplet (upd_curTrack f st) = currentTuplet st"
  "currentDuration (upd_curTrack f st) = currentDuration st"
  "currentDynamics (upd_curTrack f st) = currentDynamics st"
  "percussionArticulationNames (upd_curTrack f st) = percussionArticulationNames st"
  "lyrics (upd_curTrack f st) = lyrics st"
  by (simp_all add: upd_curTrack_def)

lemma curTrack_upd_curTrack:
  "curTrack (upd_curTrack f st) =
     (if currentTrack st < length (score_tracks (score st)) then f (curTrack st)
      else curTrack st)"
  by (simp add: curTrack_def upd_curTrack_def nth_map_nth)

lemma upd_curStaff_fields [simp]:
  "currentTrack (upd_curStaff f st) = currentTrack st"
  "currentStaff (upd_curStaff f st) = currentStaff st"
  "score_masterBars (score (upd_curStaff f st)) = score_masterBars (score st)"
  "score_tempo (score (upd_curStaff f st)) = score_tempo (score st)"
  "length (score_tracks (score (upd_curStaff f st))) = length (score_tracks (score st))"
  "staffHasExplicitTuning (upd_curStaff f st) = staffHasExplicitTuning st"
  "staffTuningApplied (upd_curStaff f st) = staffTuningApplied st"
  "currentTuplet (upd_curStaff f st) = currentTuplet st"
  "currentDuration (upd_curStaff f st) = currentDuration st"
  "currentDynamics (upd_curStaff f st) = currentDynamics st"
  "percussionArticulationNames (upd_curStaff f st) = percussionArticulationNames st"
  "lyrics (upd_curStaff f st) = lyrics st"
  by (simp_all add: upd_curStaff_def)

lemma curStaff_upd_curStaff:
  "curStaff (upd_curStaff f st) = (if validStaff st then f (curStaff st) else curStaff st)"
  by (auto simp: curStaff_def upd_curStaff_def curTrack_upd_curTrack validStaff_def nth_map_nth)

lemma length_staves_upd_curStaff [simp]:
  "length (track_staves (curTrack (upd_curStaff f st))) = length (track_staves (curTrack st))"
  by (simp add: upd_curStaff_def curTrack_upd_curTrack)

lemma validStaff_upd_curStaff [simp]: "validStaff (upd_curStaff f st) = validStaff st"
  by (simp add: validStaff_def)

lemma validStaff_newSy [simp]: "validStaff (newSy st) = validStaff st"
  by (simp add: validStaff_def)

lemma upd_curMaster_fields [simp]:
  "currentTrack (upd_curMaster f st) = currentTrack st"
  "currentStaff (upd_curMaster f st) = currentStaff st"
  "score_tracks (score (upd_curMaster f st)) = score_tracks (score st)"
  "score_tempo (score (upd_curMaster f st)) = score_tempo (score st)"
  "length (score_masterBars (score (upd_curMaster f st))) = length (score_masterBars (score st))"
  "staffHasExplicitTuning (upd_curMaster f st) = staffHasExplicitTuning st"
  "staffTuningApplied (upd_curMaster f st) = staffTuningApplied st"
  "currentTuplet (upd_curMaster f st) = currentTuplet st"
  "currentDuration (upd_curMaster f st) = currentDuration st"
  "currentDynamics (upd_curMaster f st) = currentDynamics st"
  "percussionArticulationNames (upd_curMaster f st) = percussionArticulationNames st"
  "lyrics (upd_curMaster f st) = lyrics st"
  by (simp_all add: upd_curMaster_def)

lemma upd_curMaster_cur [simp]:
  "curTrack (upd_curMaster f st) = curTrack st"
  "curStaff (upd_curMaster f st) = curStaff st"
  "curBar (upd_curMaster f st) = curBar st"
  "curVoice (upd_curMaster f st) = curVoice st"
  "curBeat (upd_curMaster f st) = curBeat st"
  "curNote (upd_curMaster f st) = curNote st"
  "curMasterIndex (upd_curMaster f st) = curMasterIndex st"
  "validStaff (upd_curMaster f st) = validStaff st"
  by (simp_all add: curTrack_def curStaff_def curBar_def curVoice_def curBeat_def curNote_def
      curMasterIndex_def validStaff_def)

lemma masterBars_upd_curMaster:
  "score_masterBars (score (upd_curMaster f st)) =
     map_nth (curMasterIndex st) f (score_masterBars (score st))"
  by (simp add: upd_curMaster_def)

subsection \<open>Productions that only read\<close>

definition lexOnly :: "Importer \<Rightarrow> Importer \<Rightarrow> bool" where
  "lexOnly st st' \<longleftrightarrow>
     score st' = score st \<and> currentTrack st' = currentTrack st \<and>
     currentStaff st' = currentStaff st \<and> trackChannel st' = trackChannel st \<and>
     currentDuration st' = currentDuration st \<and> currentDynamics st' = currentDynamics st \<and>
     currentTuplet st' = currentTuplet st \<and> lyrics st' = lyrics st \<and>
     staffHasExplicitTuning st' = staffHasExplicitTuning st \<and>
     staffTuningApplied st' = staffTuningApplied st \<and>
     percussionArticulationNames st' = percussionArticulationNames st"

lemma lexOnly_refl [simp]: "lexOnly st st"
  by (simp add: lexOnly_def)

lemma lexOnly_newSy [simp]: "lexOnly st (newSy st)"
  by (simp add: lexOnly_def)

lemma lexOnly_trans: "lexOnly a b \<Longrightarrow> lexOnly b c \<Longrightarrow> lexOnly a c"
  by (simp add: lexOnly_def)

lemma lexOnly_newSy_step [simp]: "lexOnly st s \<Longrightarrow> lexOnly st (newSy s)"
  by (simp add: lexOnly_def)

lemma lexOnly_fields:
  assumes "lexOnly st st'"
  shows "score st' = score st" "currentTrack st' = currentTrack st"
    "currentStaff st' = currentStaff st" "trackChannel st' = trackChannel st"
    "currentDuration st' = currentDuration st" "currentDynamics st' = currentDynamics st"
    "currentTuplet st' = currentTuplet st" "lyrics st' = lyrics st"
    "staffHasExplicitTuning st' = staffHasExplicitTuning st"
    "staffTuningApplied st' = staffTuningApplied st"
    "percussionArticulationNames st' = percussionArticulationNames st"
  using assms by (simp_all add: lexOnly_def)

lemma lexOnly_cur:
  assumes "lexOnly st st'"
  shows "curTrack st' = curTrack st" "curStaff st' = curStaff st" "curBar st' = curBar st"
    "curVoice st' = curVoice st" "curBeat st' = curBeat st"
    "curMasterIndex st' = curMasterIndex st" "curMaster st' = curMaster st"
    "validStaff st' = validStaff st"
  using lexOnly_fields [OF assms]
  by (simp_all add: curTrack_def curStaff_def curBar_def curVoice_def curBeat_def
      curMasterIndex_def curMaster_def validStaff_def)

lemma readTunings_lexOnly: "readTunings tuning st = (tuning', st') \<Longrightarrow> lexOnly st st'"
proof (induction tuning st rule: readTunings.induct)
  case (1 tuning st)
  show ?case
  proof (cases "sy (newSy st) = Tuning")
    case True
    with "1.prems" have
      "readTunings (tuning @ [tuning_realValue (asTuning (syData st))]) (newSy st) = (tuning', st')"
      by (simp add: readTunings.simps [of tuning st] Let_def)
    from "1.IH" [OF refl refl True this] show ?thesis
      using lexOnly_trans [of st "newSy st" st'] by simp
  next
    case False
    with "1.prems" show ?thesis
      by (auto simp: readTunings.simps [of tuning st] Let_def)
  qed
qed

text \<open>The tunings collected from a run of tuning terminals.\<close>

lemma readTunings_tokens:
  assumes "syData st = TuningData t" "input st = map TokTuning ts @ rest"
    "rest = [] \<or> tokenSymbol (hd rest) \<noteq> Tuning"
  shows "fst (readTunings tuning st) = tuning @ map tuning_realValue (t # ts)"
  using assms
proof (induction ts arbitrary: st t tuning)
  case Nil
  then have "sy (newSy st) \<noteq> Tuning"
    by (cases rest) (auto simp: newSy_def)
  with Nil show ?case
    by (simp add: readTunings.simps [of tuning st] Let_def asTuning_def)
next
  case (Cons u ts)
  from Cons.prems have n: "sy (newSy st) = Tuning" "syData (newSy st) = TuningData u"
    "input (newSy st) = map TokTuning ts @ rest"
    by (simp_all add: newSy_def)
  from Cons.IH [OF n(2) n(3) Cons.prems(3)] n(1) Cons.prems(1) show ?case
    by (simp add: readTunings.simps [of tuning st] Let_def asTuning_def)
qed

subsection \<open>The current voice and what surrounds it\<close>

definition validVoice :: "Importer \<Rightarrow> bool" where
  "validVoice st \<longleftrightarrow>
     validStaff st \<and> staff_bars (curStaff st) \<noteq> [] \<and> bar_voices (curBar st) \<noteq> []"

definition barCounts :: "Importer \<Rightarrow> nat list list" where
  "barCounts st =
     map (\<lambda>t. map (\<lambda>s. length (staff_bars s)) (track_staves t)) (score_tracks (score st))"

definition masterCount :: "Importer \<Rightarrow> nat" where
  "masterCount st = length (score_masterBars (score st))"

text \<open>The first master bar exists and carries a tempo automation.\<close>

definition tempoAt0 :: "Importer \<Rightarrow> bool" where
  "tempoAt0 st \<longleftrightarrow>
     score_masterBars (score st) \<noteq> [] \<and>
     master_tempoAutomations (hd (score_masterBars (score st))) \<noteq> []"

definition prevBeats :: "Importer \<Rightarrow> Beat list" where
  "prevBeats st = butlast (voice_beats (curVoice st))"

definition beatCount :: "Importer \<Rightarrow> nat" where
  "beatCount st = length (voice_beats (curVoice st))"

text \<open>
  The part of the importer's fields the current objects are found by: the score and the two
  positions.
\<close>

definition place :: "Importer \<Rightarrow> Score \<times> nat \<times> nat" where
  "place st = (score st, currentTrack st, currentStaff st)"

lemma place_cong:
  assumes "place st' = place st"
  shows "curTrack st' = curTrack st" "curStaff st' = curStaff st" "curBar st' = curBar st"
    "curVoice st' = curVoice st" "curBeat st' = curBeat st" "curNote st' = curNote st"
    "curMasterIndex st' = curMasterIndex st" "curMaster st' = curMaster st"
    "validStaff st' = validStaff st" "validVoice st' = validVoice st"
    "barCounts st' = barCounts st" "masterCount st' = masterCount st"
    "tempoAt0 st' = tempoAt0 st" "prevBeats st' = prevBeats st" "beatCount st' = beatCount st"
    "upd_curTrack f st' = st'\<lparr>score := score (upd_curTrack f st)\<rparr>"
  using assms
  by (simp_all add: place_def curTrack_def curStaff_def curBar_def curVoice_def curBeat_def
      curNote_def curMasterIndex_def curMaster_def validStaff_def validVoice_def barCounts_def
      masterCount_def tempoAt0_def prevBeats_def beatCount_def upd_curTrack_def)

lemma place_simps [simp]:
  "place (newSy st) = place st"
  "place (st\<lparr>trackChannel := a\<rparr>) = place st"
  "place (st\<lparr>currentDuration := b\<rparr>) = place st"
  "place (st\<lparr>currentDynamics := c\<rparr>) = place st"
  "place (st\<lparr>currentTuplet := d\<rparr>) = place st"
  "place (st\<lparr>lyrics := e\<rparr>) = place st"
  "place (st\<lparr>staffHasExplicitTuning := g\<rparr>) = place st"
  "place (st\<lparr>staffTuningApplied := h\<rparr>) = place st"
  "place (st\<lparr>percussionArticulationNames := i\<rparr>) = place st"
  "place (st\<lparr>sy := j\<rparr>) = place st"
  "place (st\<lparr>syData := k\<rparr>) = place st"
  "place (st\<lparr>input := l\<rparr>) = place st"
  by (simp_all add: place_def)

lemma field_updates_cur [simp]:
  fixes st :: Importer
  shows
  "\<And>a. curStaff (st\<lparr>currentDuration := a\<rparr>) = curStaff st"
  "\<And>a. curStaff (st\<lparr>currentDynamics := a\<rparr>) = curStaff st"
  "\<And>a. curStaff (st\<lparr>currentTuplet := a\<rparr>) = curStaff st"
  "\<And>a. curStaff (st\<lparr>lyrics := a\<rparr>) = curStaff st"
  "\<And>a. curStaff (st\<lparr>staffHasExplicitTuning := a\<rparr>) = curStaff st"
  "\<And>a. curStaff (st\<lparr>staffTuningApplied := a\<rparr>) = curStaff st"
  "\<And>a. curStaff (st\<lparr>percussionArticulationNames := a\<rparr>) = curStaff st"
  "\<And>a. curTrack (st\<lparr>currentDuration := a\<rparr>) = curTrack st"
  "\<And>a. curTrack (st\<lparr>currentDynamics := a\<rparr>) = curTrack st"
  "\<And>a. curTrack (st\<lparr>currentTuplet := a\<rparr>) = curTrack st"
  "\<And>a. curTrack (st\<lparr>lyrics := a\<rparr>) = curTrack st"
  "\<And>a. curTrack (st\<lparr>staffHasExplicitTuning := a\<rparr>) = curTrack st"
  "\<And>a. curTrack (st\<lparr>staffTuningApplied := a\<rparr>) = curTrack st"
  "\<And>a. curTrack (st\<lparr>percussionArticulationNames := a\<rparr>) = curTrack st"
  "\<And>a. curBeat (st\<lparr>currentDuration := a\<rparr>) = curBeat st"
  "\<And>a. curBeat (st\<lparr>currentDynamics := a\<rparr>) = curBeat st"
  "\<And>a. curBeat (st\<lparr>currentTuplet := a\<rparr>) = curBeat st"
  "\<And>a. curVoice (st\<lparr>currentDuration := a\<rparr>) = curVoice st"
  "\<And>a. curVoice (st\<lparr>currentDynamics := a\<rparr>) = curVoice st"
  "\<And>a. curVoice (st\<lparr>currentTuplet := a\<rparr>) = curVoice st"
  "\<And>a. curVoice (st\<lparr>staffTuningApplied := a\<rparr>) = curVoice st"
  "\<And>a. curMasterIndex (st\<lparr>currentDuration := a\<rparr>) = curMasterIndex st"
  "\<And>a. curMasterIndex (st\<lparr>currentDynamics := a\<rparr>) = curMasterIndex st"
  "\<And>a. curMasterIndex (st\<lparr>currentTuplet := a\<rparr>) = curMasterIndex st"
  "\<And>a. curMasterIndex (st\<lparr>lyrics := a\<rparr>) = curMasterIndex st"
  "\<And>a. curMasterIndex (st\<lparr>staffHasExplicitTuning := a\<rparr>) = curMasterIndex st"
  "\<And>a. curMasterIndex (st\<lparr>staffTuningApplied := a\<rparr>) = curMasterIndex st"
  "\<And>a. curMasterIndex (st\<lparr>percussionArticulationNames := a\<rparr>) = curMasterIndex st"
  "\<And>a. curMaster (st\<lparr>staffTuningApplied := a\<rparr>) = curMaster st"
  "\<And>a. validStaff (st\<lparr>currentDuration := a\<rparr>) = validStaff st"
  "\<And>a. validStaff (st\<lparr>currentDynamics := a\<rparr>) = validStaff st"
  "\<And>a. validStaff (st\<lparr>currentTuplet := a\<rparr>) = validStaff st"
  "\<And>a. validStaff (st\<lparr>lyrics := a\<rparr>) = validStaff st"
  "\<And>a. validStaff (st\<lparr>staffHasExplicitTuning := a\<rparr>) = validStaff st"
  "\<And>a. validStaff (st\<lparr>staffTuningApplied := a\<rparr>) = validStaff st"
  "\<And>a. validStaff (st\<lparr>percussionArticulationNames := a\<rparr>) = validStaff st"
  "\<And>a. validVoice (st\<lparr>currentDuration := a\<rparr>) = validVoice st"
  "\<And>a. validVoice (st\<lparr>currentDynamics := a\<rparr>) = validVoice st"
  "\<And>a. validVoice (st\<lparr>currentTuplet := a\<rparr>) = validVoice st"
  "\<And>a. validVoice (st\<lparr>staffTuningApplied := a\<rparr>) = validVoice st"
  by (simp_all add: curTrack_def curStaff_def curBar_def curVoice_def curBeat_def
      curMasterIndex_def curMaster_def validStaff_def validVoice_def)

lemma newSy_valid [simp]: "validVoice (newSy st) = validVoice st"
  by (simp add: validVoice_def)

subsection \<open>Updates below the current staff\<close>

lemma curBar_upd_curBar:
  "curBar (upd_curBar f st) =
     (if validStaff st \<and> staff_bars (curStaff st) \<noteq> [] then f (curBar st) else curBar st)"
  by (simp add: curBar_def upd_curBar_def curStaff_upd_curStaff)

lemma curStaff_upd_curBar:
  "curStaff (upd_curBar f st) =
     (if validStaff st then staff_bars_update (map_last f) (curStaff st) else curStaff st)"
  by (simp add: upd_curBar_def curStaff_upd_curStaff)

lemma curVoice_upd_curVoice:
  "curVoice (upd_curVoice f st) = (if validVoice st then f (curVoice st) else curVoice st)"
  by (auto simp: curVoice_def upd_curVoice_def curBar_upd_curBar validVoice_def nth_map_nth)

lemma below_staff_fields [simp]:
  "currentTrack (upd_curBar f st) = currentTrack st"
  "currentStaff (upd_curBar f st) = currentStaff st"
  "currentTrack (upd_curVoice g st) = currentTrack st"
  "currentStaff (upd_curVoice g st) = currentStaff st"
  "currentTrack (upd_curBeat h st) = currentTrack st"
  "currentStaff (upd_curBeat h st) = currentStaff st"
  "currentTrack (upd_curNote k st) = currentTrack st"
  "currentStaff (upd_curNote k st) = currentStaff st"
  "score_masterBars (score (upd_curBar f st)) = score_masterBars (score st)"
  "score_masterBars (score (upd_curVoice g st)) = score_masterBars (score st)"
  "score_masterBars (score (upd_curBeat h st)) = score_masterBars (score st)"
  "score_masterBars (score (upd_curNote k st)) = score_masterBars (score st)"
  "score_tempo (score (upd_curBar f st)) = score_tempo (score st)"
  "score_tempo (score (upd_curVoice g st)) = score_tempo (score st)"
  "score_tempo (score (upd_curBeat h st)) = score_tempo (score st)"
  "score_tempo (score (upd_curNote k st)) = score_tempo (score st)"
  "currentTuplet (upd_curBeat h st) = currentTuplet st"
  "currentDuration (upd_curBeat h st) = currentDuration st"
  "currentDynamics (upd_curBeat h st) = currentDynamics st"
  "staffHasExplicitTuning (upd_curVoice g st) = staffHasExplicitTuning st"
  "staffTuningApplied (upd_curVoice g st) = staffTuningApplied st"
  by (simp_all add: upd_curBar_def upd_curVoice_def upd_curBeat_def upd_curNote_def)

lemma barCounts_upd_curStaff:
  "(\<And>s. length (staff_bars (f s)) = length (staff_bars s)) \<Longrightarrow>
     barCounts (upd_curStaff f st) = barCounts st"
  by (simp add: barCounts_def upd_curStaff_def upd_curTrack_def map_map_nth)

lemma barCounts_upd_curTrack:
  "(\<And>t. map (\<lambda>s. length (staff_bars s)) (track_staves (f t)) =
          map (\<lambda>s. length (staff_bars s)) (track_staves t)) \<Longrightarrow>
     barCounts (upd_curTrack f st) = barCounts st"
  by (simp add: barCounts_def upd_curTrack_def map_map_nth)

lemma barCounts_below [simp]:
  "barCounts (upd_curBar f st) = barCounts st"
  "barCounts (upd_curVoice g st) = barCounts st"
  "barCounts (upd_curBeat h st) = barCounts st"
  "barCounts (upd_curNote k st) = barCounts st"
  "barCounts (upd_curMaster m st) = barCounts st"
  by (simp_all add: upd_curBar_def upd_curVoice_def upd_curBeat_def upd_curNote_def
      barCounts_upd_curStaff)
    (simp add: barCounts_def)

lemma masterCount_simps [simp]:
  "masterCount (upd_curTrack f0 st) = masterCount st"
  "masterCount (upd_curStaff f1 st) = masterCount st"
  "masterCount (upd_curBar f st) = masterCount st"
  "masterCount (upd_curVoice g st) = masterCount st"
  "masterCount (upd_curBeat h st) = masterCount st"
  "masterCount (upd_curNote k st) = masterCount st"
  "masterCount (upd_curMaster m st) = masterCount st"
  by (simp_all add: masterCount_def)

lemma tempoAt0_simps [simp]:
  "tempoAt0 (upd_curTrack f0 st) = tempoAt0 st"
  "tempoAt0 (upd_curStaff f1 st) = tempoAt0 st"
  "tempoAt0 (upd_curBar f st) = tempoAt0 st"
  "tempoAt0 (upd_curVoice g st) = tempoAt0 st"
  "tempoAt0 (upd_curBeat h st) = tempoAt0 st"
  "tempoAt0 (upd_curNote k st) = tempoAt0 st"
  by (simp_all add: tempoAt0_def)

lemma hd_map_nth: "hd (map_nth i f xs) = (if i = 0 \<and> xs \<noteq> [] then f (hd xs) else hd xs)"
  by (cases xs; cases i) auto

lemma map_nth_eq_Nil [simp]: "map_nth i f xs = [] \<longleftrightarrow> xs = []"
  by (cases xs; cases i) auto

lemma tempoAt0_upd_curMaster:
  "(\<And>m. master_tempoAutomations m \<noteq> [] \<Longrightarrow> master_tempoAutomations (f m) \<noteq> []) \<Longrightarrow>
     tempoAt0 st \<Longrightarrow> tempoAt0 (upd_curMaster f st)"
  by (simp add: tempoAt0_def upd_curMaster_def hd_map_nth)

lemma valid_below [simp]:
  "validStaff (upd_curBar f st) = validStaff st"
  "validStaff (upd_curVoice g st) = validStaff st"
  "validStaff (upd_curBeat h st) = validStaff st"
  "validStaff (upd_curNote k st) = validStaff st"
  by (simp_all add: upd_curBar_def upd_curVoice_def upd_curBeat_def upd_curNote_def)

lemma curStaff_bars_upd_curVoice:
  "length (staff_bars (curStaff (upd_curVoice g st))) = length (staff_bars (curStaff st))"
  "staff_tunings (curStaff (upd_curVoice g st)) = staff_tunings (curStaff st)"
  "staff_chords (curStaff (upd_curVoice g st)) = staff_chords (curStaff st)"
  "staff_isPercussion (curStaff (upd_curVoice g st)) = staff_isPercussion (curStaff st)"
  by (simp_all add: upd_curVoice_def curStaff_upd_curBar)

lemma curMasterIndex_below [simp]:
  "curMasterIndex (upd_curBar f st) = curMasterIndex st"
  "curMasterIndex (upd_curVoice g st) = curMasterIndex st"
  "curMasterIndex (upd_curBeat h st) = curMasterIndex st"
  "curMasterIndex (upd_curNote k st) = curMasterIndex st"
  by (simp_all add: curMasterIndex_def upd_curVoice_def upd_curBeat_def upd_curNote_def
      curStaff_upd_curBar)

lemma validVoice_upd_curVoice [simp]: "validVoice (upd_curVoice g st) = validVoice st"
  by (auto simp: validVoice_def upd_curVoice_def curBar_upd_curBar curStaff_upd_curBar)

subsection \<open>The view that the productions inside a bar keep\<close>

lemma voice_beats_upd_curBeat:
  "voice_beats (curVoice (upd_curBeat g st)) =
     (if validVoice st then map_last g (voice_beats (curVoice st))
      else voice_beats (curVoice st))"
  by (simp add: upd_curBeat_def curVoice_upd_curVoice)

lemma curBeat_upd_curBeat:
  "curBeat (upd_curBeat g st) =
     (if validVoice st \<and> voice_beats (curVoice st) \<noteq> [] then g (curBeat st) else curBeat st)"
  by (auto simp: curBeat_def voice_beats_upd_curBeat)

lemma upd_curBeat_view [simp]:
  "prevBeats (upd_curBeat g st) = prevBeats st"
  "beatCount (upd_curBeat g st) = beatCount st"
  "validVoice (upd_curBeat g st) = validVoice st"
  "length (staff_bars (curStaff (upd_curBeat g st))) = length (staff_bars (curStaff st))"
  "staff_tunings (curStaff (upd_curBeat g st)) = staff_tunings (curStaff st)"
  "staff_chords (curStaff (upd_curBeat g st)) = staff_chords (curStaff st)"
  "staff_isPercussion (curStaff (upd_curBeat g st)) = staff_isPercussion (curStaff st)"
  by (simp_all add: prevBeats_def beatCount_def voice_beats_upd_curBeat)
    (simp_all add: upd_curBeat_def curStaff_bars_upd_curVoice)

lemma upd_curNote_view [simp]:
  "prevBeats (upd_curNote k st) = prevBeats st"
  "beatCount (upd_curNote k st) = beatCount st"
  "validVoice (upd_curNote k st) = validVoice st"
  "length (staff_bars (curStaff (upd_curNote k st))) = length (staff_bars (curStaff st))"
  "staff_tunings (curStaff (upd_curNote k st)) = staff_tunings (curStaff st)"
  "staff_chords (curStaff (upd_curNote k st)) = staff_chords (curStaff st)"
  "staff_isPercussion (curStaff (upd_curNote k st)) = staff_isPercussion (curStaff st)"
  "beat_isEmpty (curBeat (upd_curNote k st)) = beat_isEmpty (curBeat st)"
  "length (beat_notes (curBeat (upd_curNote k st))) = length (beat_notes (curBeat st))"
  by (simp_all add: upd_curNote_def curBeat_upd_curBeat)

lemma upd_curMaster_view [simp]:
  "prevBeats (upd_curMaster f st) = prevBeats st"
  "beatCount (upd_curMaster f st) = beatCount st"
  "validVoice (upd_curMaster f st) = validVoice st"
  by (simp_all add: prevBeats_def beatCount_def validVoice_def)

lemma newSy_view [simp]:
  "prevBeats (newSy st) = prevBeats st"
  "beatCount (newSy st) = beatCount st"
  "barCounts (newSy st) = barCounts st"
  "masterCount (newSy st) = masterCount st"
  "tempoAt0 (newSy st) = tempoAt0 st"
  by (simp_all add: prevBeats_def beatCount_def barCounts_def masterCount_def tempoAt0_def)

text \<open>Updates of the current staff and track that leave the bars of every staff alone.\<close>

lemma curStaff_bars_upd_curStaff:
  "(\<And>s. staff_bars (f s) = staff_bars s) \<Longrightarrow>
     staff_bars (curStaff (upd_curStaff f st)) = staff_bars (curStaff st)"
  by (simp add: curStaff_upd_curStaff)

lemma upd_curStaff_view:
  assumes "\<And>s. staff_bars (f s) = staff_bars s"
  shows "curBar (upd_curStaff f st) = curBar st" "curVoice (upd_curStaff f st) = curVoice st"
    "curBeat (upd_curStaff f st) = curBeat st" "prevBeats (upd_curStaff f st) = prevBeats st"
    "beatCount (upd_curStaff f st) = beatCount st"
    "validVoice (upd_curStaff f st) = validVoice st"
    "curMasterIndex (upd_curStaff f st) = curMasterIndex st"
    "barCounts (upd_curStaff f st) = barCounts st"
  using assms
  by (simp_all add: curBar_def curVoice_def curBeat_def prevBeats_def beatCount_def
      validVoice_def curMasterIndex_def curStaff_bars_upd_curStaff barCounts_upd_curStaff)

lemma staves_bars_upd_curTrack:
  assumes "\<And>t. map staff_bars (track_staves (f t)) = map staff_bars (track_staves t)"
  shows "map staff_bars (track_staves (curTrack (upd_curTrack f st))) =
    map staff_bars (track_staves (curTrack st))"
  using assms by (simp add: curTrack_upd_curTrack)

lemma upd_curTrack_view:
  assumes "\<And>t. map staff_bars (track_staves (f t)) = map staff_bars (track_staves t)"
  shows "staff_bars (curStaff (upd_curTrack f st)) = staff_bars (curStaff st) \<or>
           \<not> validStaff st"
    "validStaff (upd_curTrack f st) = validStaff st"
    "barCounts (upd_curTrack f st) = barCounts st"
proof -
  have len: "length (track_staves (f t)) = length (track_staves t)" for t
    using arg_cong [OF assms [of t], of length] by simp
  have nth: "i < length (track_staves t) \<Longrightarrow>
      staff_bars (track_staves (f t) ! i) = staff_bars (track_staves t ! i)" for t i
    using arg_cong [OF assms [of t], of "\<lambda>xs. xs ! i"] len [of t] by simp
  show "staff_bars (curStaff (upd_curTrack f st)) = staff_bars (curStaff st) \<or>
           \<not> validStaff st"
    using nth [of "currentStaff st" "curTrack st"]
    by (auto simp: curStaff_def curTrack_upd_curTrack validStaff_def)
  show "validStaff (upd_curTrack f st) = validStaff st"
    by (auto simp: validStaff_def curTrack_upd_curTrack len)
  have "map (\<lambda>s. length (staff_bars s)) (track_staves (f t)) =
      map (\<lambda>s. length (staff_bars s)) (track_staves t)" for t
    using arg_cong [OF assms [of t], of "map length"] by (simp add: comp_def)
  then show "barCounts (upd_curTrack f st) = barCounts st"
    by (rule barCounts_upd_curTrack)
qed

text \<open>
  What no production inside a bar changes: the positions, the number of bars of every staff
  and of master bars, and whether there is a current staff and voice.
\<close>

definition outer :: "Importer \<Rightarrow> nat \<times> nat \<times> nat list list \<times> nat \<times> bool \<times> bool \<times> nat" where
  "outer st =
     (currentTrack st, currentStaff st, barCounts st, masterCount st, validStaff st,
      validVoice st, length (staff_bars (curStaff st)))"

text \<open>
  What the productions below a beat keep as well: the beats of the current voice before its
  last one, their number, and the empty flag of the last one.
\<close>

definition view :: "Importer \<Rightarrow> (nat \<times> nat \<times> nat list list \<times> nat \<times> bool \<times> bool \<times> nat) \<times> Beat list \<times> nat \<times> bool" where
  "view st = (outer st, prevBeats st, beatCount st, beat_isEmpty (curBeat st))"

lemma outer_fields:
  assumes "outer st' = outer st"
  shows "currentTrack st' = currentTrack st" "currentStaff st' = currentStaff st"
    "barCounts st' = barCounts st" "masterCount st' = masterCount st"
    "validStaff st' = validStaff st" "validVoice st' = validVoice st"
    "length (staff_bars (curStaff st')) = length (staff_bars (curStaff st))"
    "curMasterIndex st' = curMasterIndex st"
  using assms by (simp_all add: outer_def curMasterIndex_def)

lemma view_fields:
  assumes "view st' = view st"
  shows "outer st' = outer st"
    "prevBeats st' = prevBeats st" "beatCount st' = beatCount st"
    "beat_isEmpty (curBeat st') = beat_isEmpty (curBeat st)"
  using assms by (simp_all add: view_def)

lemma outer_upd_curVoice [simp]: "outer (upd_curVoice g st) = outer st"
  by (simp add: outer_def curStaff_bars_upd_curVoice)

lemma view_newSy [simp]: "view (newSy st) = view st"
  by (simp add: view_def outer_def)

lemma view_upd_curNote [simp]: "view (upd_curNote k st) = view st"
  by (simp add: view_def outer_def)

lemma view_upd_curMaster [simp]: "view (upd_curMaster f st) = view st"
  by (simp add: view_def outer_def)

lemma view_upd_curBeat:
  "(\<And>b. beat_isEmpty (g b) = beat_isEmpty b) \<Longrightarrow> view (upd_curBeat g st) = view st"
  by (simp add: view_def outer_def curBeat_upd_curBeat)

lemma view_upd_curStaff:
  "(\<And>s. staff_bars (f s) = staff_bars s) \<Longrightarrow> view (upd_curStaff f st) = view st"
  by (simp add: view_def outer_def upd_curStaff_view curStaff_bars_upd_curStaff)

lemma view_upd_curBar:
  "(\<And>b. bar_voices (f b) = bar_voices b) \<Longrightarrow> view (upd_curBar f st) = view st"
  by (auto simp: view_def outer_def validVoice_def curBar_upd_curBar curStaff_upd_curBar
      prevBeats_def beatCount_def curBeat_def curVoice_def)

lemma view_fields_update [simp]:
  fixes st :: Importer
  shows
  "\<And>a. view (st\<lparr>currentDuration := a\<rparr>) = view st"
  "\<And>a. view (st\<lparr>currentDynamics := a\<rparr>) = view st"
  "\<And>a. view (st\<lparr>currentTuplet := a\<rparr>) = view st"
  "\<And>a. view (st\<lparr>lyrics := a\<rparr>) = view st"
  "\<And>a. view (st\<lparr>staffHasExplicitTuning := a\<rparr>) = view st"
  "\<And>a. view (st\<lparr>staffTuningApplied := a\<rparr>) = view st"
  "\<And>a. view (st\<lparr>percussionArticulationNames := a\<rparr>) = view st"
  by (simp_all add: view_def outer_def barCounts_def masterCount_def validStaff_def
      validVoice_def prevBeats_def beatCount_def curTrack_def curStaff_def curBar_def
      curVoice_def curBeat_def)

lemma tempoAt0_fields_update [simp]:
  fixes st :: Importer
  shows
  "\<And>a. tempoAt0 (st\<lparr>currentDuration := a\<rparr>) = tempoAt0 st"
  "\<And>a. tempoAt0 (st\<lparr>currentDynamics := a\<rparr>) = tempoAt0 st"
  "\<And>a. tempoAt0 (st\<lparr>currentTuplet := a\<rparr>) = tempoAt0 st"
  "\<And>a. tempoAt0 (st\<lparr>lyrics := a\<rparr>) = tempoAt0 st"
  "\<And>a. tempoAt0 (st\<lparr>staffHasExplicitTuning := a\<rparr>) = tempoAt0 st"
  "\<And>a. tempoAt0 (st\<lparr>staffTuningApplied := a\<rparr>) = tempoAt0 st"
  "\<And>a. tempoAt0 (st\<lparr>percussionArticulationNames := a\<rparr>) = tempoAt0 st"
  by (simp_all add: tempoAt0_def)

definition kept :: "Importer \<Rightarrow> Importer \<Rightarrow> bool" where
  "kept st st' \<longleftrightarrow> view st' = view st \<and> (tempoAt0 st \<longrightarrow> tempoAt0 st')"

lemma kept_refl [simp]: "kept st st"
  by (simp add: kept_def)

lemma kept_trans: "kept a b \<Longrightarrow> kept b c \<Longrightarrow> kept a c"
  by (simp add: kept_def)

lemma lexOnly_kept: "lexOnly st st' \<Longrightarrow> kept st st'"
  using lexOnly_fields [of st st'] lexOnly_cur [of st st']
  by (simp add: kept_def view_def outer_def barCounts_def masterCount_def validVoice_def
      prevBeats_def beatCount_def tempoAt0_def)

lemma applyTuplet_keeps [simp]:
  "beat_isEmpty (applyTuplet n b) = beat_isEmpty b" "beat_notes (applyTuplet n b) = beat_notes b"
  by (simp_all add: applyTuplet_def)

lemma dynamicsFromString_keeps [simp]:
  "beat_isEmpty (dynamicsFromString s b) = beat_isEmpty b"
  "beat_notes (dynamicsFromString s b) = beat_notes b"
  by (simp_all add: dynamicsFromString_def)

lemma addChord_bars [simp]: "staff_bars (addChord k c s) = staff_bars s"
  by (simp add: addChord_def)

lemma applyPercussionStaff_bars [simp]: "staff_bars (applyPercussionStaff s) = staff_bars s"
  by (simp add: applyPercussionStaff_def)

subsection \<open>Every production inside a bar keeps the view\<close>

lemma lexOnly_keptD:
  "lexOnly st st' \<Longrightarrow>
     view st' = view st \<and> tempoAt0 st' = tempoAt0 st \<and> curBeat st' = curBeat st \<and>
     curStaff st' = curStaff st \<and> curTrack st' = curTrack st \<and>
     score_tempo (score st') = score_tempo (score st)"
  using lexOnly_fields [of st st'] lexOnly_cur [of st st']
  by (simp add: view_def outer_def barCounts_def masterCount_def validVoice_def prevBeats_def
      beatCount_def tempoAt0_def)

lemma readPoint_lexOnly: "readPoint nonterm exact st = Inr (p, st') \<Longrightarrow> lexOnly st st'"
  unfolding readPoint_def Let_def
  by (auto split: if_splits)

lemma pointsLoop_lexOnly:
  "pointsLoop nonterm exact points st = Inr (points', st') \<Longrightarrow> lexOnly st st'"
proof (induction nonterm exact points st rule: pointsLoop.induct)
  case (1 nonterm exact points st)
  show ?case
  proof (cases "sy st \<noteq> RParensis \<and> sy st \<noteq> Eof")
    case True
    with "1.prems" obtain p s1 where step: "readPoint nonterm exact st = Inr (p, s1)"
      and rest: "pointsLoop nonterm exact (points @ [p]) s1 = Inr (points', st')"
      by (auto simp: pointsLoop.simps [of nonterm exact points st] split: sum.splits)
    from readPoint_lexOnly [OF step] "1.IH" [OF True step refl rest] show ?thesis
      by (rule lexOnly_trans)
  next
    case False
    with "1.prems" show ?thesis
      by (auto simp: pointsLoop.simps [of nonterm exact points st])
  qed
qed

lemma readTempoAutomation_lexOnly:
  "readTempoAutomation st = Inr (a, st') \<Longrightarrow> lexOnly st st'"
  unfolding readTempoAutomation_def Let_def
  by (auto split: if_splits)

lemma notes_upd_curBeat:
  "(\<And>b. beat_notes (g b) = beat_notes b) \<Longrightarrow>
     beat_notes (curBeat (upd_curBeat g st)) = beat_notes (curBeat st)"
  by (simp add: curBeat_upd_curBeat)

lemma tempo_automation_appended [simp]:
  "master_tempoAutomations (master_tempoAutomations_update (\<lambda>as. as @ [a]) m) \<noteq> []"
  by simp

lemma applyBeatEffect_kept:
  "applyBeatEffect env st = Inr (applied, st') \<Longrightarrow>
     kept st st' \<and> beat_notes (curBeat st') = beat_notes (curBeat st)"
  unfolding applyBeatEffect_def Let_def kept_def
  by (auto split: if_splits sum.splits prod.splits
      simp: view_upd_curBeat view_upd_curStaff notes_upd_curBeat upd_curStaff_view
        tempoAt0_upd_curMaster
      dest!: pointsLoop_lexOnly readTempoAutomation_lexOnly lexOnly_keptD)

lemma noteEffect_kept: "noteEffect env st = Inr st' \<Longrightarrow> kept st st'"
  unfolding noteEffect_def Let_def
  by (auto split: if_splits sum.splits prod.splits
      simp: kept_def
      dest!: pointsLoop_lexOnly applyBeatEffect_kept lexOnly_keptD)

lemma noteEffectsLoop_kept: "noteEffectsLoop env st = Inr st' \<Longrightarrow> kept st st'"
proof (induction env st rule: noteEffectsLoop.induct)
  case (1 env st)
  show ?case
  proof (cases "sy st = String")
    case True
    with "1.prems" obtain s1 where step: "noteEffect env st = Inr s1"
      and rest: "noteEffectsLoop env s1 = Inr st'"
      by (auto simp: noteEffectsLoop.simps [of env st] split: sum.splits)
    from noteEffect_kept [OF step] "1.IH" [OF True step rest] show ?thesis
      by (rule kept_trans)
  next
    case False
    with "1.prems" show ?thesis by (simp add: noteEffectsLoop.simps [of env st])
  qed
qed

lemma noteEffects_kept: "noteEffects env st = Inr st' \<Longrightarrow> kept st st'"
  unfolding noteEffects_def
  by (auto split: if_splits sum.splits simp: kept_def dest!: noteEffectsLoop_kept)

lemma noteStringPart_lexOnly:
  "noteStringPart isFretted st = Inr (n, st') \<Longrightarrow> lexOnly st st'"
  unfolding noteStringPart_def Let_def
  by (auto split: if_splits)

lemma note_kept:
  "note' env st = Inr (found, st') \<Longrightarrow> kept st st' \<and> (\<not> found \<longrightarrow> st' = st)"
  unfolding note'_def Let_def
  by (auto split: if_splits sum.splits prod.splits option.splits
      simp: kept_def view_upd_curBeat
      dest!: noteStringPart_lexOnly noteEffects_kept lexOnly_keptD)

lemma noteList_kept: "noteList env st = Inr st' \<Longrightarrow> kept st st'"
proof (induction env st rule: noteList.induct)
  case (1 env st)
  show ?case
  proof (cases "sy st \<noteq> RParensis \<and> sy st \<noteq> Eof")
    case True
    with "1.prems" obtain found s1 where step: "note' env st = Inr (found, s1)"
      and rest: "if found then noteList env s1 = Inr st' else st' = s1"
      by (auto simp: noteList.simps [of env st] split: sum.splits if_splits)
    show ?thesis
    proof (cases found)
      case True
      with rest "1.IH" [OF \<open>sy st \<noteq> RParensis \<and> sy st \<noteq> Eof\<close> step refl]
      have "kept s1 st'" by simp
      with note_kept [OF step] show ?thesis by (auto intro: kept_trans)
    next
      case False
      with note_kept [OF step] rest show ?thesis by simp
    qed
  next
    case False
    with "1.prems" show ?thesis by (auto simp: noteList.simps [of env st])
  qed
qed

text \<open>The duration prefix and suffix and the multiplier leave the score and the positions.\<close>

lemma beatDurationOption_place: "beatDurationOption st = Inr st' \<Longrightarrow> place st' = place st"
  unfolding beatDurationOption_def Let_def
  by (auto split: if_splits)

lemma beatDurationOptions_place: "beatDurationOptions st = Inr st' \<Longrightarrow> place st' = place st"
proof (induction st rule: beatDurationOptions.induct)
  case (1 st)
  show ?case
  proof (cases "sy st = String")
    case True
    with "1.prems" obtain s1 where step: "beatDurationOption st = Inr s1"
      and rest: "beatDurationOptions s1 = Inr st'"
      by (auto simp: beatDurationOptions.simps [of st] split: sum.splits)
    from beatDurationOption_place [OF step] "1.IH" [OF True step rest] show ?thesis by simp
  next
    case False
    with "1.prems" show ?thesis by (simp add: beatDurationOptions.simps [of st])
  qed
qed

lemma beatDuration_place: "beatDuration st = Inr st' \<Longrightarrow> place st' = place st"
  unfolding beatDuration_def Let_def
  by (auto split: if_splits sum.splits dest!: beatDurationOptions_place)

lemma beatNewDuration_place: "beatNewDuration st = Inr st' \<Longrightarrow> place st' = place st"
  unfolding beatNewDuration_def Let_def
  by (auto split: if_splits)

lemma beatMultiplier_place: "beatMultiplier st = Inr (n, st') \<Longrightarrow> place st' = place st"
  unfolding beatMultiplier_def Let_def
  by (auto split: if_splits)

lemma place_keptD:
  "place st' = place st \<Longrightarrow>
     view st' = view st \<and> tempoAt0 st' = tempoAt0 st \<and> curBeat st' = curBeat st \<and>
     curVoice st' = curVoice st"
  using place_cong [of st' st]
  by (simp add: view_def outer_def place_def)

lemma beatValues_kept:
  "view (beatValues st) = view st" "tempoAt0 (beatValues st) = tempoAt0 st"
  "beat_notes (curBeat (beatValues st)) = beat_notes (curBeat st)"
  by (simp_all add: beatValues_def Let_def view_upd_curBeat notes_upd_curBeat)

lemma beatEffectsLoop_kept:
  "beatEffectsLoop env st = Inr st' \<Longrightarrow>
     kept st st' \<and> beat_notes (curBeat st') = beat_notes (curBeat st)"
proof (induction env st rule: beatEffectsLoop.induct)
  case (1 env st)
  show ?case
  proof (cases "sy st = String")
    case True
    with "1.prems" obtain s1 where step: "applyBeatEffect env st = Inr (True, s1)"
      and rest: "beatEffectsLoop env s1 = Inr st'"
      by (auto simp: beatEffectsLoop.simps [of env st] split: sum.splits if_splits)
    from applyBeatEffect_kept [OF step] "1.IH" [OF True step refl] rest show ?thesis
      by (auto intro: kept_trans)
  next
    case False
    with "1.prems" show ?thesis by (simp add: beatEffectsLoop.simps [of env st])
  qed
qed

lemma beatEffects_kept:
  "beatEffects env st = Inr st' \<Longrightarrow>
     kept st st' \<and> beat_notes (curBeat st') = beat_notes (curBeat st)"
  unfolding beatEffects_def
  by (auto split: if_splits sum.splits simp: kept_def dest!: beatEffectsLoop_kept)

subsection \<open>What a beat adds to the current voice\<close>

abbreviation beatsOf :: "Importer \<Rightarrow> Beat list" where
  "beatsOf st \<equiv> voice_beats (curVoice st)"

definition keptOuter :: "Importer \<Rightarrow> Importer \<Rightarrow> bool" where
  "keptOuter st st' \<longleftrightarrow> outer st' = outer st \<and> (tempoAt0 st \<longrightarrow> tempoAt0 st')"

lemma keptOuter_refl [simp]: "keptOuter st st"
  by (simp add: keptOuter_def)

lemma keptOuter_trans: "keptOuter a b \<Longrightarrow> keptOuter b c \<Longrightarrow> keptOuter a c"
  by (simp add: keptOuter_def)

lemma kept_keptOuter: "kept st st' \<Longrightarrow> keptOuter st st'"
  by (simp add: kept_def keptOuter_def view_def)

lemma place_keptOuter: "place st' = place st \<Longrightarrow> keptOuter st st'"
  using place_keptD [of st' st] by (simp add: keptOuter_def view_def)

lemma keptOuter_upd_curVoice [simp]: "keptOuter st (upd_curVoice g st)"
  by (simp add: keptOuter_def)

lemma kept_beats:
  assumes "kept st st'" "beatsOf st \<noteq> []"
  shows "beatsOf st' = butlast (beatsOf st) @ [curBeat st']"
    "beat_isEmpty (curBeat st') = beat_isEmpty (curBeat st)"
proof -
  from assms(1) have v: "prevBeats st' = prevBeats st" "beatCount st' = beatCount st"
    "beat_isEmpty (curBeat st') = beat_isEmpty (curBeat st)"
    by (simp_all add: kept_def view_def)
  from v(2) assms(2) have "beatsOf st' \<noteq> []" by (auto simp: beatCount_def)
  then have "beatsOf st' = butlast (beatsOf st') @ [last (beatsOf st')]" by simp
  with v(1) show "beatsOf st' = butlast (beatsOf st) @ [curBeat st']"
    by (simp add: prevBeats_def curBeat_def)
  from v(3) show "beat_isEmpty (curBeat st') = beat_isEmpty (curBeat st)" .
qed

lemma beatNotes_frame:
  "beatNotes env st = Inr (produced, st') \<Longrightarrow>
     (if produced then kept st st' else st' = upd_curVoice (voice_beats_update butlast) st)"
  unfolding beatNotes_def
  by (auto split: if_splits sum.splits prod.splits simp: kept_def
      dest!: note_kept noteList_kept)

lemma added_beat:
  assumes "validVoice st" "place s1 = place st"
  shows "beatsOf (upd_curVoice (voice_beats_update (\<lambda>beats. beats @ [b])) s1) = beatsOf st @ [b]"
    "curBeat (upd_curVoice (voice_beats_update (\<lambda>beats. beats @ [b])) s1) = b"
    "validVoice (upd_curVoice (voice_beats_update (\<lambda>beats. beats @ [b])) s1)"
  using assms place_cong [OF assms(2)]
  by (simp_all add: curVoice_upd_curVoice curBeat_def)

text \<open>
  The head of a beat that is produced leaves the beats of the voice as they were and adds one
  beat whose empty flag is the one of a new beat; a head that is not produced leaves the
  voice with the beats it had.
\<close>

lemma beatHead_frame:
  assumes "validVoice st" "beatHead env st = Inr (produced, st')"
  shows "keptOuter st st'"
    "produced \<Longrightarrow> beatsOf st' = beatsOf st @ [curBeat st']"
    "produced \<Longrightarrow> beat_isEmpty (curBeat st') = beat_isEmpty new_Beat"
    "\<not> produced \<Longrightarrow> beatsOf st' = beatsOf st"
proof -
  let ?add = "upd_curVoice (voice_beats_update (\<lambda>beats. beats @ [new_Beat]))"
  from assms(2) obtain s1 s2 where d: "beatDuration st = Inr s1"
    and n: "beatNotes env (?add s1) = Inr (produced, s2)"
    and r: "if produced then \<exists>s3. beatNewDuration s2 = Inr s3 \<and> st' = beatValues s3
            else st' = s2"
    by (auto simp: beatHead_def split: sum.splits prod.splits if_splits)
  from beatDuration_place [OF d] have p1: "place s1 = place st" .
  note a = added_beat [OF assms(1) p1, of new_Beat]
  have o1: "keptOuter st (?add s1)"
    using place_keptOuter [OF p1] by (simp add: keptOuter_def)
  show "keptOuter st st'"
  proof (cases produced)
    case True
    with r obtain s3 where s3: "beatNewDuration s2 = Inr s3" "st' = beatValues s3" by auto
    from True beatNotes_frame [OF n] have "keptOuter (?add s1) s2"
      by (simp add: kept_keptOuter)
    moreover from beatNewDuration_place [OF s3(1)] have "keptOuter s2 s3"
      by (rule place_keptOuter)
    moreover have "keptOuter s3 st'"
      using beatValues_kept [of s3] s3(2) by (simp add: keptOuter_def view_def)
    ultimately show ?thesis using o1 by (blast intro: keptOuter_trans)
  next
    case False
    with r beatNotes_frame [OF n] have "st' = upd_curVoice (voice_beats_update butlast) (?add s1)"
      by simp
    with o1 show ?thesis by (simp add: keptOuter_def)
  qed
  {
    assume produced
    with r obtain s3 where s3: "beatNewDuration s2 = Inr s3" "st' = beatValues s3" by auto
    from \<open>produced\<close> beatNotes_frame [OF n] have k: "kept (?add s1) s2" by simp
    from a(1) have ne: "beatsOf (?add s1) \<noteq> []" by simp
    from kept_beats [OF k ne] a
    have b2: "beatsOf s2 = beatsOf st @ [curBeat s2]"
      "beat_isEmpty (curBeat s2) = beat_isEmpty new_Beat" by simp_all
    from place_cong [OF beatNewDuration_place [OF s3(1)]]
    have c3: "curVoice s3 = curVoice s2" "curBeat s3 = curBeat s2" by simp_all
    have v: "view st' = view s3" using beatValues_kept(1) [of s3] s3(2) by simp
    then have k3: "kept s3 st'"
      using beatValues_kept(2) [of s3] s3(2) by (simp add: kept_def)
    from b2 c3 have ne3: "beatsOf s3 \<noteq> []" by simp
    from kept_beats [OF k3 ne3] b2 c3
    show "beatsOf st' = beatsOf st @ [curBeat st']" by simp
    from kept_beats [OF k3 ne3] b2 c3
    show "beat_isEmpty (curBeat st') = beat_isEmpty new_Beat" by simp
  }
  {
    assume "\<not> produced"
    with r beatNotes_frame [OF n] have "st' = upd_curVoice (voice_beats_update butlast) (?add s1)"
      by simp
    with a show "beatsOf st' = beatsOf st" by (simp add: curVoice_upd_curVoice)
  }
qed

lemma beatMultiplier_Number:
  assumes "sy s = Multiply" "input s = TokNumber n # rest"
  shows "beatMultiplier s = Inr (n, newSy (newSy s))"
  using assms by (simp add: beatMultiplier_def Let_def newSy_def asNumber_def)

text \<open>The beats a whole beat production adds: none carries the empty flag of a placeholder.\<close>

lemma beat_frame:
  assumes "validVoice st" "beat env st = Inr (produced, st')"
  shows "keptOuter st st'"
    "\<exists>b n. beatsOf st' = beatsOf st @ replicate n b \<and> (produced \<longleftrightarrow> 0 < n) \<and>
        beat_isEmpty b = beat_isEmpty new_Beat"
proof -
  from assms(2) obtain s1 where h: "beatHead env st = Inr (produced, s1)"
    and r: "if produced then
              \<exists>k s2 s3. beatMultiplier s1 = Inr (k, s2) \<and> beatEffects env s2 = Inr s3 \<and>
                st' = upd_curVoice (voice_beats_update (\<lambda>beats. beats @
                        replicate (nat (jsMinus k 1)) (BeatCloner_clone (last beats)))) s3
            else st' = s1"
    by (auto simp: beat_def split: sum.splits prod.splits if_splits)
  note f = beatHead_frame [OF assms(1) h]
  show "keptOuter st st'"
  proof (cases produced)
    case True
    with r obtain k s2 s3 where m: "beatMultiplier s1 = Inr (k, s2)"
      and e: "beatEffects env s2 = Inr s3"
      and st': "st' = upd_curVoice (voice_beats_update (\<lambda>beats. beats @
                        replicate (nat (jsMinus k 1)) (BeatCloner_clone (last beats)))) s3"
      by auto
    have "keptOuter s1 s2" using beatMultiplier_place [OF m] by (rule place_keptOuter)
    moreover have "keptOuter s2 s3" using beatEffects_kept [OF e] by (simp add: kept_keptOuter)
    moreover have "keptOuter s3 st'" by (simp add: st')
    ultimately show ?thesis using f(1) by (blast intro: keptOuter_trans)
  next
    case False
    with r f(1) show ?thesis by simp
  qed
  show "\<exists>b n. beatsOf st' = beatsOf st @ replicate n b \<and> (produced \<longleftrightarrow> 0 < n) \<and>
        beat_isEmpty b = beat_isEmpty new_Beat"
  proof (cases produced)
    case True
    with r obtain k s2 s3 where m: "beatMultiplier s1 = Inr (k, s2)"
      and e: "beatEffects env s2 = Inr s3"
      and st': "st' = upd_curVoice (voice_beats_update (\<lambda>beats. beats @
                        replicate (nat (jsMinus k 1)) (BeatCloner_clone (last beats)))) s3"
      by auto
    from place_cong [OF beatMultiplier_place [OF m]]
    have c2: "curVoice s2 = curVoice s1" "curBeat s2 = curBeat s1"
      "validVoice s2 = validVoice s1" by simp_all
    from f(1) assms(1) have v1: "validVoice s1" by (simp add: keptOuter_def outer_def)
    from beatEffects_kept [OF e] have k3: "kept s2 s3" by simp
    then have v3: "validVoice s3" using v1 c2 by (simp add: kept_def view_def outer_def)
    from True f(2) c2 have ne2: "beatsOf s2 \<noteq> []" by simp
    from kept_beats [OF k3 ne2] True f(2,3) c2
    have b3: "beatsOf s3 = beatsOf st @ [curBeat s3]"
      "beat_isEmpty (curBeat s3) = beat_isEmpty new_Beat" by simp_all
    from v3 b3(1) have "beatsOf st' = beatsOf st @ replicate (Suc (nat (jsMinus k 1))) (curBeat s3)"
      by (simp add: st' curVoice_upd_curVoice BeatCloner_clone_def)
    with True b3(2) show ?thesis by blast
  next
    case False
    with r f(4) have "beatsOf st' = beatsOf st @ replicate 0 new_Beat" by simp
    with False show ?thesis by blast
  qed
qed

lemma jsMinus_small:
  "\<bar>a\<bar> < 2 ^ 53 \<Longrightarrow> \<bar>b\<bar> < 2 ^ 53 \<Longrightarrow> \<bar>a - b\<bar> < 2 ^ 53 \<Longrightarrow> jsMinus a b = a - b"
  by (simp add: jsMinus_def roundDouble_def)

lemma beat_produced:
  assumes "validVoice st" "beatHead env st = Inr (True, s1)"
    "beatMultiplier s1 = Inr (k, s2)" "beatEffects env s2 = Inr s3"
    "jsMinus k 1 \<le> 2 ^ 53"
  shows "beat env st =
      Inr (True, upd_curVoice (voice_beats_update (\<lambda>beats. beats @
                   replicate (nat (jsMinus k 1)) (BeatCloner_clone (last beats)))) s3)"
    "validVoice s3" "beatsOf s3 = beatsOf st @ [curBeat s3]"
    "beat_notes (curBeat s3) = beat_notes (curBeat s1)"
proof -
  from assms(2-5) show "beat env st =
      Inr (True, upd_curVoice (voice_beats_update (\<lambda>beats. beats @
                   replicate (nat (jsMinus k 1)) (BeatCloner_clone (last beats)))) s3)"
    by (simp add: beat_def)
  note f = beatHead_frame [OF assms(1,2)]
  from place_cong [OF beatMultiplier_place [OF assms(3)]]
  have c2: "curVoice s2 = curVoice s1" "curBeat s2 = curBeat s1"
    "validVoice s2 = validVoice s1" by simp_all
  from f(1) assms(1) have v1: "validVoice s1" by (simp add: keptOuter_def outer_def)
  from beatEffects_kept [OF assms(4)] have k3: "kept s2 s3"
    and n3: "beat_notes (curBeat s3) = beat_notes (curBeat s2)" by simp_all
  from k3 v1 c2 show "validVoice s3" by (simp add: kept_def view_def outer_def)
  from f(2) c2 have ne2: "beatsOf s2 \<noteq> []" by simp
  from kept_beats [OF k3 ne2] f(2) c2 show "beatsOf s3 = beatsOf st @ [curBeat s3]" by simp
  from n3 c2 show "beat_notes (curBeat s3) = beat_notes (curBeat s1)" by simp
qed

subsection \<open>Meta data and the bars of the staves\<close>

lemma outer_simps [simp]:
  "outer (newSy st) = outer st"
  "outer (upd_curMaster m st) = outer st"
  "outer (upd_curBeat h st) = outer st"
  "outer (upd_curNote k st) = outer st"
  "\<And>a. outer (st\<lparr>currentDuration := a\<rparr>) = outer st"
  "\<And>a. outer (st\<lparr>currentDynamics := a\<rparr>) = outer st"
  "\<And>a. outer (st\<lparr>currentTuplet := a\<rparr>) = outer st"
  "\<And>a. outer (st\<lparr>lyrics := a\<rparr>) = outer st"
  "\<And>a. outer (st\<lparr>staffHasExplicitTuning := a\<rparr>) = outer st"
  "\<And>a. outer (st\<lparr>staffTuningApplied := a\<rparr>) = outer st"
  "\<And>a. outer (st\<lparr>percussionArticulationNames := a\<rparr>) = outer st"
  using view_newSy [of st] view_upd_curMaster [of m st] view_upd_curNote [of k st]
    view_fields_update
  by (simp_all add: view_def) (simp add: outer_def)

lemma outer_upd_curStaff:
  "(\<And>s. staff_bars (f s) = staff_bars s) \<Longrightarrow> outer (upd_curStaff f st) = outer st"
  using view_upd_curStaff [of f st] by (simp add: view_def)

lemma outer_upd_curBar:
  "(\<And>b. bar_voices (f b) = bar_voices b) \<Longrightarrow> outer (upd_curBar f st) = outer st"
  using view_upd_curBar [of f st] by (simp add: view_def)

lemma outer_upd_curTrack:
  assumes "validStaff st"
    and "\<And>t. map staff_bars (track_staves (f t)) = map staff_bars (track_staves t)"
  shows "outer (upd_curTrack f st) = outer st"
  using upd_curTrack_view [of f st, OF assms(2)] assms(1)
  by (auto simp: outer_def validVoice_def curBar_def)

text \<open>A new score value with the tracks and master bars of the old one.\<close>

lemma outer_score:
  assumes "score_tracks sc = score_tracks (score st)"
    and "score_masterBars sc = score_masterBars (score st)"
  shows "outer (st\<lparr>score := sc\<rparr>) = outer st" "tempoAt0 (st\<lparr>score := sc\<rparr>) = tempoAt0 st"
  using assms
  by (simp_all add: outer_def barCounts_def masterCount_def validStaff_def validVoice_def
      curTrack_def curStaff_def curBar_def tempoAt0_def)

lemma setScoreText_keeps [simp]:
  "score_tracks (setScoreText t v sc) = score_tracks sc"
  "score_masterBars (setScoreText t v sc) = score_masterBars sc"
  by (simp_all add: setScoreText_def)

lemma placeD:
  "place st' = place st \<Longrightarrow>
     outer st' = outer st \<and> tempoAt0 st' = tempoAt0 st \<and> curStaff st' = curStaff st \<and>
     curTrack st' = curTrack st \<and> currentTrack st' = currentTrack st \<and>
     currentStaff st' = currentStaff st \<and> score st' = score st"
  using place_keptD [of st' st] place_cong [of st' st]
  by (simp add: view_def place_def)

lemma lexOnly_place: "lexOnly st st' \<Longrightarrow> place st' = place st"
  using lexOnly_fields [of st st'] by (simp add: place_def)

lemma barreFrets_place: "barreFrets chord st = (chord', st') \<Longrightarrow> place st' = place st"
proof (induction chord st rule: barreFrets.induct)
  case (1 chord st)
  show ?case
  proof (cases "sy st = Number")
    case True
    with "1.prems" have
      "barreFrets (chord\<lparr>chord_barreFrets := chord_barreFrets chord @ [asNumber (syData st)]\<rparr>)
         (newSy st) = (chord', st')"
      by (simp add: barreFrets.simps [of chord st])
    from "1.IH" [OF True this] show ?thesis by simp
  next
    case False
    with "1.prems" show ?thesis by (simp add: barreFrets.simps [of chord st])
  qed
qed

lemma chordProperty_place:
  "chordProperty chord st = Inr (chord', st') \<Longrightarrow> place st' = place st"
  unfolding chordProperty_def Let_def
  by (auto split: if_splits prod.splits dest!: barreFrets_place)

lemma chordPropertiesLoop_place:
  "chordPropertiesLoop chord st = Inr (chord', st') \<Longrightarrow> place st' = place st"
proof (induction chord st rule: chordPropertiesLoop.induct)
  case (1 chord st)
  show ?case
  proof (cases "sy st = String")
    case True
    with "1.prems" obtain c1 s1 where step: "chordProperty chord st = Inr (c1, s1)"
      and rest: "chordPropertiesLoop c1 s1 = Inr (chord', st')"
      by (auto simp: chordPropertiesLoop.simps [of chord st] split: sum.splits)
    from chordProperty_place [OF step] "1.IH" [OF True step refl rest] show ?thesis by simp
  next
    case False
    with "1.prems" show ?thesis by (simp add: chordPropertiesLoop.simps [of chord st])
  qed
qed

lemma chordProperties_place:
  "chordProperties chord st = Inr (chord', st') \<Longrightarrow> place st' = place st"
  unfolding chordProperties_def
  by (auto split: if_splits sum.splits prod.splits dest!: chordPropertiesLoop_place)

lemma chordStrings_place: "chordStrings n chord st = (chord', st') \<Longrightarrow> place st' = place st"
proof (induction n arbitrary: chord st)
  case 0
  then show ?case by simp
next
  case (Suc n)
  from Suc.prems Suc.IH [of _ "newSy st"] show ?case by simp
qed

lemma staffProperty_place:
  "staffProperty flags st = Inr (flags', st') \<Longrightarrow> place st' = place st"
  unfolding staffProperty_def Let_def
  by (auto split: if_splits prod.splits)

lemma staffPropertiesLoop_place:
  "staffPropertiesLoop flags st = Inr (flags', st') \<Longrightarrow> place st' = place st"
proof (induction flags st rule: staffPropertiesLoop.induct)
  case (1 flags st)
  show ?case
  proof (cases "sy st = String")
    case True
    with "1.prems" obtain f1 s1 where step: "staffProperty flags st = Inr (f1, s1)"
      and rest: "staffPropertiesLoop f1 s1 = Inr (flags', st')"
      by (auto simp: staffPropertiesLoop.simps [of flags st] split: sum.splits)
    from staffProperty_place [OF step] "1.IH" [OF True step refl rest] show ?thesis by simp
  next
    case False
    with "1.prems" show ?thesis by (simp add: staffPropertiesLoop.simps [of flags st])
  qed
qed

lemma curMaster_upd_curMaster:
  "curMaster (upd_curMaster f st) =
     (if curMasterIndex st < masterCount st then f (curMaster st) else curMaster st)"
  by (simp add: curMaster_def masterBars_upd_curMaster masterCount_def nth_map_nth)

section \<open>Properties of the importer\<close>

text \<open>
  An environment for running the importer on concrete input: the standard six-string tuning,
  and no instrument names or percussion articulations.
\<close>

definition env0 :: Env where
  "env0 =
     \<lparr>env_defaultTuning6 = [64, 59, 55, 50, 45, 40], env_gmValue = (\<lambda>_. 0),
      env_articulationKnown = (\<lambda>_. False), env_articulationNames = [],
      env_stringTuning = (\<lambda>_ _. 0), env_sortInconsistent = (\<lambda>points. points)\<rparr>"

text \<open>
  The importer inside the first bar of the default track, as \<^verbatim>\<open>bar\<close> has set it up before it
  reads the bar meta: the bar and its master bar exist, and the first of the given terminals
  is the current one.
\<close>

definition firstBar :: "Token list \<Rightarrow> Importer" where
  "firstBar tokens =
     (let st = (createDefaultScore env0 (new_Importer tokens))
                 \<lparr>currentDuration := Quarter, currentDynamics := DynamicValue_F,
                  currentTuplet := 1\<rparr>;
          st = upd_curStaff newBar st;
          st = st\<lparr>score := addMasterBar (score st)\<rparr>
      in newSy st)"

text \<open>The beats of a score, through all tracks, staves, bars and voices.\<close>

definition allBeats :: "Score \<Rightarrow> Beat list" where
  "allBeats sc =
     concat (map (\<lambda>t. concat (map (\<lambda>s. concat (map (\<lambda>b. concat (map voice_beats (bar_voices b)))
       (staff_bars s))) (track_staves t))) (score_tracks sc))"

subsection \<open>Tuning after a chord\<close>

lemma handleStaffMeta_tuning:
  assumes "toLowerCase (asString (syData st)) = ''tuning''"
  shows "handleStaffMeta env st =
     (let st = newSy st;
          strings = length (staff_tunings (curStaff st));
          st = st\<lparr>staffHasExplicitTuning := True, staffTuningApplied := False\<rparr>
      in
        case
          (if sy st = String then
             (let text = toLowerCase (asString (syData st)) in
              if text = ''piano'' \<or> text = ''none'' \<or> text = ''voice'' then
                Inr (newSy (upd_curStaff
                  (\<lambda>s. s\<lparr>staff_tunings := [], staff_displayTranspositionPitch := 0\<rparr>) st))
              else Inl (error st ''tuning'' Tuning True))
           else if sy st = Tuning then
             (case readTunings [] st of
                (tuning, st') \<Rightarrow> Inr (upd_curStaff (staff_tunings_update (\<lambda>_. tuning)) st'))
           else Inl (error st ''tuning'' Tuning True))
        of
          Inl e \<Rightarrow> Inl e
        | Inr st \<Rightarrow>
            if strings \<noteq> length (staff_tunings (curStaff st)) \<and>
               length (staff_chords (curStaff st)) > 0
            then Inl (errorMessage ''Tuning must be defined before any chord'')
            else Inr (True, st))"
  using assms by (simp add: handleStaffMeta_def Let_def)

lemma curStaff_flags [simp]:
  "curStaff (st\<lparr>staffHasExplicitTuning := a, staffTuningApplied := b\<rparr>) = curStaff st"
  "validStaff (st\<lparr>staffHasExplicitTuning := a, staffTuningApplied := b\<rparr>) = validStaff st"
  by (simp_all add: curStaff_def curTrack_def validStaff_def)

text \<open>
  C2 as the code has it. On a staff with at least one chord, a \<^verbatim>\<open>\tuning\<close> is accepted only
  when it leaves the number of strings as it was: tuning terminals whose number differs from
  the staff's strings are rejected with the error \<^verbatim>\<open>Tuning must be defined before any chord\<close>,
  while as many tuning terminals as the staff has strings replace the tuning.
\<close>

theorem tuning_after_chord:
  assumes "toLowerCase (asString (syData st)) = ''tuning''"
    and "validStaff st"
    and "staff_chords (curStaff st) \<noteq> []"
  shows
    "(\<forall>handled st'. handleStaffMeta env st = Inr (handled, st') \<longrightarrow>
        length (staff_tunings (curStaff st')) = length (staff_tunings (curStaff st))) \<and>
     (input st = map TokTuning (t # ts) @ rest \<and>
        (rest = [] \<or> tokenSymbol (hd rest) \<noteq> Tuning) \<longrightarrow>
        (length (t # ts) \<noteq> length (staff_tunings (curStaff st)) \<longrightarrow>
           handleStaffMeta env st =
             Inl (errorMessage ''Tuning must be defined before any chord'')) \<and>
        (length (t # ts) = length (staff_tunings (curStaff st)) \<longrightarrow>
           (\<exists>st'. handleStaffMeta env st = Inr (True, st') \<and>
              staff_tunings (curStaff st') = map tuning_realValue (t # ts))))"
proof (intro conjI allI impI)
  fix handled st'
  assume ok: "handleStaffMeta env st = Inr (handled, st')"
  let ?s1 = "(newSy st)\<lparr>staffHasExplicitTuning := True, staffTuningApplied := False\<rparr>"
  have v1: "validStaff ?s1" and c1: "curStaff ?s1 = curStaff st"
    using assms(2) by simp_all
  show "length (staff_tunings (curStaff st')) = length (staff_tunings (curStaff st))"
  proof (cases "sy (newSy st) = Tuning")
    case True
    obtain tuning s2 where r: "readTunings [] ?s1 = (tuning, s2)"
      by (cases "readTunings [] ?s1") auto
    from readTunings_lexOnly [OF r] have l: "curStaff s2 = curStaff ?s1" "validStaff s2"
      using lexOnly_cur [of ?s1 s2] v1 by simp_all
    from ok True r l c1 assms(3) show ?thesis
      by (auto simp: handleStaffMeta_tuning [OF assms(1)] Let_def curStaff_upd_curStaff
          split: if_splits)
  next
    case False
    with ok v1 c1 assms(3) show ?thesis
      by (auto simp: handleStaffMeta_tuning [OF assms(1)] Let_def curStaff_upd_curStaff
          split: if_splits)
  qed
next
  assume toks: "input st = map TokTuning (t # ts) @ rest \<and>
      (rest = [] \<or> tokenSymbol (hd rest) \<noteq> Tuning)"
  let ?s1 = "(newSy st)\<lparr>staffHasExplicitTuning := True, staffTuningApplied := False\<rparr>"
  have v1: "validStaff ?s1" and c1: "curStaff ?s1 = curStaff st"
    using assms(2) by simp_all
  from toks have s1: "sy ?s1 = Tuning" "syData ?s1 = TuningData t"
    "input ?s1 = map TokTuning ts @ rest"
    by (simp_all add: newSy_def)
  obtain tuning s2 where r: "readTunings [] ?s1 = (tuning, s2)"
    by (cases "readTunings [] ?s1") auto
  from readTunings_tokens [OF s1(2) s1(3), of "[]"] toks r
  have tuning: "tuning = map tuning_realValue (t # ts)" by simp
  from readTunings_lexOnly [OF r] have l: "curStaff s2 = curStaff ?s1" "validStaff s2"
    using lexOnly_cur [of ?s1 s2] v1 by simp_all
  {
    assume "length (t # ts) \<noteq> length (staff_tunings (curStaff st))"
    with s1 r l c1 tuning assms(3)
    show "handleStaffMeta env st =
        Inl (errorMessage ''Tuning must be defined before any chord'')"
      by (simp add: handleStaffMeta_tuning [OF assms(1)] Let_def curStaff_upd_curStaff)
  }
  {
    assume "length (t # ts) = length (staff_tunings (curStaff st))"
    with s1 r l c1 tuning assms(3)
    show "\<exists>st'. handleStaffMeta env st = Inr (True, st') \<and>
        staff_tunings (curStaff st') = map tuning_realValue (t # ts)"
      by (simp add: handleStaffMeta_tuning [OF assms(1)] Let_def curStaff_upd_curStaff)
  }
qed

text \<open>
  A staff with one chord and the six default strings, at a \<^verbatim>\<open>\tuning\<close> followed by four tuning
  terminals: rejected. The same through \<^verbatim>\<open>readScore\<close>, for
  \<^verbatim>\<open>\chord "C" 0 1 0 2 3 x \tuning e4 b3 g3 d3 . r\<close>.
\<close>

definition tuningTokens :: "int list \<Rightarrow> Token list" where
  "tuningTokens values =
     map (\<lambda>v. TokTuning \<lparr>tuning_octave = v div 12, tuning_noteValue = v mod 12,
                           tuning_realValue = v\<rparr>) values"

definition chordThenTuning :: "int list \<Rightarrow> Token list" where
  "chordThenTuning values =
     [TokMetaCommand ''chord'', TokString ''C'', TokNumber 0, TokNumber 1, TokNumber 0,
      TokNumber 2, TokNumber 3, TokString ''x'', TokMetaCommand ''tuning''] @
     tuningTokens values @ [TokDot, TokString ''r'']"

definition staffWithChord :: "Token list \<Rightarrow> Importer" where
  "staffWithChord tokens =
     (upd_curStaff (addChord ''c00'' new_Chord) (createDefaultScore env0 (new_Importer tokens)))
       \<lparr>sy := MetaCommand, syData := StrData ''tuning''\<rparr>"

theorem tuning_after_chord_witness:
  "validStaff (staffWithChord (tuningTokens [64, 59, 55, 50] @ [TokDot])) \<and>
   staff_chords (curStaff (staffWithChord (tuningTokens [64, 59, 55, 50] @ [TokDot]))) \<noteq> [] \<and>
   length (staff_tunings (curStaff (staffWithChord (tuningTokens [64, 59, 55, 50] @ [TokDot]))))
     = 6 \<and>
   handleStaffMeta env0 (staffWithChord (tuningTokens [64, 59, 55, 50] @ [TokDot])) =
     Inl (errorMessage ''Tuning must be defined before any chord'') \<and>
   readScore env0 (chordThenTuning [64, 59, 55, 50]) =
     Inl (UnsupportedFormatCause (AlphaTexMessage ''Tuning must be defined before any chord''))"
proof -
  let ?st = "staffWithChord (tuningTokens [64, 59, 55, 50] @ [TokDot])"
  have tag: "toLowerCase (asString (syData ?st)) = ''tuning''" by code_simp
  have valid: "validStaff ?st" by code_simp
  have chords: "staff_chords (curStaff ?st) \<noteq> []" by code_simp
  have strings: "length (staff_tunings (curStaff ?st)) = 6" by code_simp
  have toks: "input ?st =
      map TokTuning
        (\<lparr>tuning_octave = 5, tuning_noteValue = 4, tuning_realValue = 64\<rparr> #
         [\<lparr>tuning_octave = 4, tuning_noteValue = 11, tuning_realValue = 59\<rparr>,
          \<lparr>tuning_octave = 4, tuning_noteValue = 7, tuning_realValue = 55\<rparr>,
          \<lparr>tuning_octave = 4, tuning_noteValue = 2, tuning_realValue = 50\<rparr>]) @ [TokDot]"
    by code_simp
  have run: "readScore env0 (chordThenTuning [64, 59, 55, 50]) =
      Inl (UnsupportedFormatCause (AlphaTexMessage ''Tuning must be defined before any chord''))"
    by code_simp
  from tuning_after_chord [OF tag valid chords, of env0
      "\<lparr>tuning_octave = 5, tuning_noteValue = 4, tuning_realValue = 64\<rparr>"
      "[\<lparr>tuning_octave = 4, tuning_noteValue = 11, tuning_realValue = 59\<rparr>,
        \<lparr>tuning_octave = 4, tuning_noteValue = 7, tuning_realValue = 55\<rparr>,
        \<lparr>tuning_octave = 4, tuning_noteValue = 2, tuning_realValue = 50\<rparr>]" "[TokDot]"]
    toks strings
  have "handleStaffMeta env0 ?st =
      Inl (errorMessage ''Tuning must be defined before any chord'')"
    by simp
  with valid chords strings run show ?thesis by simp
qed

text \<open>
  The claim as stated fails: \<^verbatim>\<open>\chord "C" 0 1 0 2 3 x \tuning e4 b3 g3 d3 a2 d2 . r\<close> declares a
  chord and then redefines the tuning of the staff with six strings again; the input parses,
  and the staff carries the chord and the new tuning.
\<close>

theorem tuning_after_chord_counterexample:
  "map_sum id
     (\<lambda>sc. map (\<lambda>t. map (\<lambda>s. (staff_tunings s, map fst (staff_chords s))) (track_staves t))
        (score_tracks sc))
     (readScore env0 (chordThenTuning [64, 59, 55, 50, 45, 38])) =
   Inr [[([64, 59, 55, 50, 45, 38], [''c00''])]]"
  by code_simp

subsection \<open>Bend and whammy points\<close>

lemma dropExcess_take: "dropExcess points = take 60 points"
proof (induction points rule: dropExcess.induct)
  case (1 points)
  show ?case
  proof (cases "length points > 60")
    case True
    with 1 have "dropExcess points = take 60 (butlast points)"
      by (simp add: dropExcess.simps [of points])
    also from True have "\<dots> = take 60 points"
      by (simp add: take_butlast)
    finally show ?thesis .
  next
    case False
    then show ?thesis by (simp add: dropExcess.simps [of points])
  qed
qed

lemma setPositions_eq:
  "setPositions step i points =
     take i points @
     map (\<lambda>(k, p). p\<lparr>bp_offset := IntNumber (min 60 (int k * step))\<rparr>)
       (zip [i..<length points] (drop i points))"
proof (induction step i points rule: setPositions.induct)
  case (1 step i points)
  show ?case
  proof (cases "i < length points")
    case True
    let ?q = "(points ! i)\<lparr>bp_offset := IntNumber (min 60 (int i * step))\<rparr>"
    from True have "setPositions step i points = setPositions step (Suc i) (points[i := ?q])"
      by (simp add: setPositions.simps [of step i points])
    also have "\<dots> = take (Suc i) (points[i := ?q]) @
        map (\<lambda>(k, p). p\<lparr>bp_offset := IntNumber (min 60 (int k * step))\<rparr>)
          (zip [Suc i..<length points] (drop (Suc i) (points[i := ?q])))"
      using "1.IH" [OF True] by simp
    also from True have "take (Suc i) (points[i := ?q]) = take i points @ [?q]"
      by (simp add: take_Suc_conv_app_nth)
    also have "drop (Suc i) (points[i := ?q]) = drop (Suc i) points" by simp
    finally show ?thesis using True
      by (simp add: upt_conv_Cons Cons_nth_drop_Suc [symmetric])
  next
    case False
    then show ?thesis by (simp add: setPositions.simps [of step i points])
  qed
qed

lemma map_offset_zip:
  "length ks = length ps \<Longrightarrow>
     map bp_offset (map (\<lambda>(k, p). p\<lparr>bp_offset := g k\<rparr>) (zip ks ps)) = map g ks \<and>
     map bp_value (map (\<lambda>(k, p). p\<lparr>bp_offset := g k\<rparr>) (zip ks ps)) = map bp_value ps"
  by (induction ks ps rule: list_induct2) auto

lemma setPositions_offsets:
  "map bp_offset (setPositions step 0 points) =
     map (\<lambda>k. IntNumber (min 60 (int k * step))) [0..<length points]"
  using map_offset_zip [of "[0..<length points]" points
      "\<lambda>k. IntNumber (min 60 (int k * step))"]
  by (simp add: setPositions_eq [of step 0 points])

lemma setPositions_values:
  "map bp_value (setPositions step 0 points) = map bp_value points"
  using map_offset_zip [of "[0..<length points]" points
      "\<lambda>k. IntNumber (min 60 (int k * step))"]
  by (simp add: setPositions_eq [of step 0 points])

lemma length_setPositions [simp]: "length (setPositions step 0 points) = length points"
  using arg_cong [OF setPositions_values [of step points], of length] by simp

lemma truncDiv_pos: "0 < b \<Longrightarrow> truncDiv 60 b = 60 div b"
  by (simp add: truncDiv_def)

lemma step_times_le:
  assumes "0 < m" "int k \<le> m"
  shows "0 \<le> int k * (60 div m) \<and> int k * (60 div m) \<le> 60"
proof -
  from assms(1) have nonneg: "0 \<le> 60 div m" by (simp add: pos_imp_zdiv_nonneg_iff)
  then have "int k * (60 div m) \<le> m * (60 div m)"
    using assms(2) by (intro mult_right_mono) auto
  moreover have "m * (60 div m) \<le> 60"
    using assms(1) pos_mod_sign [of m 60] mult_div_mod_eq [of m 60] by linarith
  ultimately show ?thesis using nonneg by simp
qed

lemma bendStep_bound:
  assumes "k < n" "n \<le> 60"
  shows "0 \<le> int k * bendStep n \<and> int k * bendStep n \<le> 60"
proof (cases "n = 1")
  case True
  with assms show ?thesis by (simp add: bendStep_def truncDiv_def)
next
  case False
  with assms have "0 < int n - 1" "int k \<le> int n - 1" by simp_all
  from step_times_le [OF this] \<open>0 < int n - 1\<close> show ?thesis
    by (simp add: bendStep_def truncDiv_pos)
qed

lemma whammyStep_bound:
  assumes "k < n" "n \<le> 60"
  shows "0 \<le> int k * whammyStep n \<and> int k * whammyStep n \<le> 60"
proof -
  from assms have "0 < int n" "int k \<le> int n" by simp_all
  from step_times_le [OF this] \<open>0 < int n\<close> show ?thesis
    by (simp add: whammyStep_def truncDiv_pos)
qed

lemma bendStep_pos: "2 \<le> n \<Longrightarrow> n \<le> 60 \<Longrightarrow> 0 < bendStep n"
  by (simp add: bendStep_def truncDiv_pos pos_imp_zdiv_pos_iff)

lemma whammyStep_pos: "1 \<le> n \<Longrightarrow> n \<le> 60 \<Longrightarrow> 0 < whammyStep n"
  by (simp add: whammyStep_def truncDiv_pos pos_imp_zdiv_pos_iff)

lemma offsets_clamped:
  assumes "\<And>k. k < n \<Longrightarrow> int k * step \<le> 60"
  shows "map (\<lambda>k. IntNumber (min 60 (int k * step))) [0..<n] =
    map (\<lambda>k. IntNumber (int k * step)) [0..<n]"
proof (rule map_cong [OF refl])
  fix k assume "k \<in> set [0..<n]"
  then have "int k * step \<le> 60" using assms by simp
  then show "IntNumber (min 60 (int k * step)) = IntNumber (int k * step)" by simp
qed

lemma bend_offsets:
  "map bp_offset (bendPositions env False points) =
     map (\<lambda>k. IntNumber (int k * bendStep (min 60 (length points))))
       [0..<min 60 (length points)]"
proof -
  let ?n = "min 60 (length points)"
  have n: "length (take 60 points) = ?n" by (simp add: min.commute)
  have "map bp_offset (bendPositions env False points) =
      map (\<lambda>k. IntNumber (min 60 (int k * bendStep ?n))) [0..<?n]"
    unfolding bendPositions_def Let_def dropExcess_take
    by (simp only: if_False setPositions_offsets n)
  also have "\<dots> = map (\<lambda>k. IntNumber (int k * bendStep ?n)) [0..<?n]"
    by (rule offsets_clamped) (use bendStep_bound [of _ ?n] in simp)
  finally show ?thesis .
qed

lemma whammy_offsets:
  "map bp_offset (whammyPositions env False points) =
     map (\<lambda>k. IntNumber (int k * whammyStep (min 60 (length points))))
       [0..<min 60 (length points)]"
proof -
  let ?n = "min 60 (length points)"
  have n: "length (take 60 points) = ?n" by (simp add: min.commute)
  have "map bp_offset (whammyPositions env False points) =
      map (\<lambda>k. IntNumber (min 60 (int k * whammyStep ?n))) [0..<?n]"
    unfolding whammyPositions_def Let_def dropExcess_take
    by (simp only: not_False_eq_True if_True setPositions_offsets n)
  also have "\<dots> = map (\<lambda>k. IntNumber (int k * whammyStep ?n)) [0..<?n]"
    by (rule offsets_clamped) (use whammyStep_bound [of _ ?n] in simp)
  finally show ?thesis .
qed

lemma positions_values:
  "map bp_value (bendPositions env False points) = map bp_value (take 60 points)"
  "map bp_value (whammyPositions env False points) = map bp_value (take 60 points)"
  "length (bendPositions env False points) = min 60 (length points)"
  "length (whammyPositions env False points) = min 60 (length points)"
  by (simp_all add: bendPositions_def whammyPositions_def Let_def dropExcess_take
      setPositions_values min.commute)

lemma sortByOffset_sorted:
  assumes "list_all (\<lambda>p. bp_offset p \<noteq> NaN) points"
  shows "sorted (map offsetKey (sortByOffset env points))"
    "mset (sortByOffset env points) = mset points"
  using assms by (simp_all add: sortByOffset_def)

lemma exact_positions:
  assumes "list_all (\<lambda>p. bp_offset p \<noteq> NaN) (take 60 points)"
  shows "sorted (map offsetKey (bendPositions env True points))"
    "mset (bendPositions env True points) = mset (take 60 points)"
    "sorted (map offsetKey (whammyPositions env True points))"
    "mset (whammyPositions env True points) = mset (take 60 points)"
  using sortByOffset_sorted [OF assms, of env]
  by (simp_all add: bendPositions_def whammyPositions_def Let_def dropExcess_take)

lemma last_bend_offset:
  assumes "2 \<le> n" "n \<le> 60"
  shows "(int n - 1) * bendStep n = 60 \<longleftrightarrow> (int n - 1) dvd 60"
proof -
  from assms have m: "0 < int n - 1" by simp
  then have s: "bendStep n = 60 div (int n - 1)" by (simp add: bendStep_def truncDiv_pos)
  show ?thesis
  proof
    assume "(int n - 1) * bendStep n = 60"
    then show "(int n - 1) dvd 60" by (metis dvd_triv_left)
  next
    assume "(int n - 1) dvd 60"
    then show "(int n - 1) * bendStep n = 60" by (simp add: s)
  qed
qed

text \<open>What the two effects leave in the note and in the beat.\<close>

lemma curNote_upd_curNote:
  assumes "validVoice st" "beatsOf st \<noteq> []" "beat_notes (curBeat st) \<noteq> []"
  shows "curNote (upd_curNote f st) = f (curNote st)"
  using assms by (simp add: curNote_def upd_curNote_def curBeat_upd_curBeat)

lemma noteEffect_bend:
  assumes "validVoice st" "beatsOf st \<noteq> []" "beat_notes (curBeat st) \<noteq> []"
    and "toLowerCase (asString (syData st)) = (if exact then ''be'' else ''b'')"
    and "noteEffect env st = Inr st'"
  shows "\<exists>points s. pointsLoop ''bend-effect-value'' exact [] (newSy (newSy st)) =
      Inr (points, s) \<and>
    note_bendPoints (curNote st') =
      map_option (bendPositions env exact)
        (foldl (\<lambda>ps p. addPoint p ps) (note_bendPoints (curNote st)) points)"
proof -
  from assms(4,5) obtain points s where
    p: "pointsLoop ''bend-effect-value'' exact [] (newSy (newSy st)) = Inr (points, s)"
    and st': "st' = newSy (upd_curNote
        (note_bendPoints_update
           (\<lambda>old. map_option (bendPositions env exact)
              (foldl (\<lambda>ps p. addPoint p ps) old points))) s)"
    by (auto simp: noteEffect_def Let_def split: if_splits sum.splits prod.splits)
  from pointsLoop_lexOnly [OF p] have "lexOnly st s"
    using lexOnly_trans [of st "newSy (newSy st)" s] by simp
  from lexOnly_cur [OF this] lexOnly_fields [OF this]
  have c: "curVoice s = curVoice st" "curBeat s = curBeat st" "validVoice s = validVoice st"
    "curNote s = curNote st"
    by (simp_all add: validVoice_def curNote_def)
  from assms(1-3) c have "curNote st' =
      note_bendPoints_update
        (\<lambda>old. map_option (bendPositions env exact)
           (foldl (\<lambda>ps p. addPoint p ps) old points)) (curNote st)"
    by (simp add: st' curNote_upd_curNote)
  with p show ?thesis by auto
qed

lemma applyBeatEffect_whammy:
  assumes "validVoice st" "beatsOf st \<noteq> []"
    and "toLowerCase (asString (syData st)) = (if exact then ''tbe'' else ''tb'')"
    and "applyBeatEffect env st = Inr (applied, st')"
  shows "\<exists>points s. pointsLoop ''tremolobar-effect'' exact [] (newSy (newSy st)) =
      Inr (points, s) \<and>
    beat_whammyBarPoints (curBeat st') =
      map_option (whammyPositions env exact)
        (foldl (\<lambda>ps p. addPoint p ps) (beat_whammyBarPoints (curBeat st)) points)"
proof -
  from assms(3,4) obtain points s where
    p: "pointsLoop ''tremolobar-effect'' exact [] (newSy (newSy st)) = Inr (points, s)"
    and st': "st' = newSy (upd_curBeat
        (beat_whammyBarPoints_update
           (\<lambda>old. map_option (whammyPositions env exact)
              (foldl (\<lambda>ps p. addPoint p ps) old points))) s)"
    by (auto simp: applyBeatEffect_def Let_def split: if_splits sum.splits prod.splits)
  from pointsLoop_lexOnly [OF p] have "lexOnly st s"
    using lexOnly_trans [of st "newSy (newSy st)" s] by simp
  from lexOnly_cur [OF this] lexOnly_fields [OF this]
  have c: "curVoice s = curVoice st" "curBeat s = curBeat st" "validVoice s = validVoice st"
    by (simp_all add: validVoice_def)
  from assms(1,2) c have "curBeat st' =
      beat_whammyBarPoints_update
        (\<lambda>old. map_option (whammyPositions env exact)
           (foldl (\<lambda>ps p. addPoint p ps) old points)) (curBeat st)"
    by (simp add: st' curBeat_upd_curBeat)
  with p show ?thesis by auto
qed

lemma foldl_addPoint:
  "foldl (\<lambda>ps p. addPoint p ps) old points =
     (if points = [] then old
      else Some ((case old of None \<Rightarrow> [] | Some ps \<Rightarrow> ps) @ points))"
proof (induction points arbitrary: old)
  case Nil
  show ?case by simp
next
  case (Cons p points)
  have "foldl (\<lambda>ps p. addPoint p ps) old (p # points) =
      (if points = [] then addPoint p old
       else Some ((case addPoint p old of None \<Rightarrow> [] | Some ps \<Rightarrow> ps) @ points))"
    by (simp add: Cons.IH)
  also have "\<dots> = Some ((case old of None \<Rightarrow> [] | Some ps \<Rightarrow> ps) @ p # points)"
    by (cases old) (simp_all add: addPoint_def)
  finally show ?case by simp
qed

text \<open>
  C3. What \<^verbatim>\<open>b\<close>, \<^verbatim>\<open>be\<close> leave in the note and \<^verbatim>\<open>tb\<close>, \<^verbatim>\<open>tbe\<close> in the beat is the list of the points
  the object had together with the points read, cut to its first 60 points and positioned.
  In the non-exact form the points keep their values and get the offsets \<open>0, step, 2 * step,
  \<dots>\<close>: they ascend in equal steps and stay within 0 and 60. For a bend of \<open>n\<close> points, two or
  more, the step is 60 divided by \<open>n - 1\<close> and cut to a whole number, so that the last offset
  is 60 only when \<open>n - 1\<close> divides 60. In the exact form the list holds the same points sorted
  by ascending offset, whatever their order in the input, when no offset is \<^verbatim>\<open>NaN\<close>.
\<close>

theorem parsed_bend_whammy_points:
  assumes "validVoice st" and "beatsOf st \<noteq> []" and "n = min 60 (length ps)"
  shows
    "(beat_notes (curBeat st) \<noteq> [] \<and>
      toLowerCase (asString (syData st)) = (if exact then ''be'' else ''b'') \<and>
      noteEffect env st = Inr st' \<longrightarrow>
        (\<exists>points s.
           pointsLoop ''bend-effect-value'' exact [] (newSy (newSy st)) = Inr (points, s) \<and>
           note_bendPoints (curNote st') =
             map_option (bendPositions env exact)
               (if points = [] then note_bendPoints (curNote st)
                else Some ((case note_bendPoints (curNote st) of
                              None \<Rightarrow> [] | Some old \<Rightarrow> old) @ points)))) \<and>
     (toLowerCase (asString (syData st)) = (if exact then ''tbe'' else ''tb'') \<and>
      applyBeatEffect env st = Inr (applied, st') \<longrightarrow>
        (\<exists>points s.
           pointsLoop ''tremolobar-effect'' exact [] (newSy (newSy st)) = Inr (points, s) \<and>
           beat_whammyBarPoints (curBeat st') =
             map_option (whammyPositions env exact)
               (if points = [] then beat_whammyBarPoints (curBeat st)
                else Some ((case beat_whammyBarPoints (curBeat st) of
                              None \<Rightarrow> [] | Some old \<Rightarrow> old) @ points)))) \<and>
     length (bendPositions env False ps) = n \<and>
     length (whammyPositions env False ps) = n \<and>
     map bp_value (bendPositions env False ps) = map bp_value (take 60 ps) \<and>
     map bp_value (whammyPositions env False ps) = map bp_value (take 60 ps) \<and>
     map bp_offset (bendPositions env False ps) =
       map (\<lambda>k. IntNumber (int k * bendStep n)) [0..<n] \<and>
     (\<forall>k<n. 0 \<le> int k * bendStep n \<and> int k * bendStep n \<le> 60) \<and>
     (2 \<le> n \<longrightarrow>
        bendStep n = 60 div (int n - 1) \<and> 0 < bendStep n \<and>
        ((int n - 1) * bendStep n = 60 \<longleftrightarrow> (int n - 1) dvd 60)) \<and>
     (\<exists>step. (1 \<le> n \<longrightarrow> 0 < step) \<and>
        map bp_offset (whammyPositions env False ps) =
          map (\<lambda>k. IntNumber (int k * step)) [0..<n] \<and>
        (\<forall>k<n. 0 \<le> int k * step \<and> int k * step \<le> 60)) \<and>
     (list_all (\<lambda>p. bp_offset p \<noteq> NaN) (take 60 ps) \<longrightarrow>
        sorted (map offsetKey (bendPositions env True ps)) \<and>
        mset (bendPositions env True ps) = mset (take 60 ps) \<and>
        sorted (map offsetKey (whammyPositions env True ps)) \<and>
        mset (whammyPositions env True ps) = mset (take 60 ps))"
proof -
  have n60: "n \<le> 60" by (simp add: assms(3))
  have bend: "beat_notes (curBeat st) \<noteq> [] \<and>
      toLowerCase (asString (syData st)) = (if exact then ''be'' else ''b'') \<and>
      noteEffect env st = Inr st' \<longrightarrow>
        (\<exists>points s.
           pointsLoop ''bend-effect-value'' exact [] (newSy (newSy st)) = Inr (points, s) \<and>
           note_bendPoints (curNote st') =
             map_option (bendPositions env exact)
               (if points = [] then note_bendPoints (curNote st)
                else Some ((case note_bendPoints (curNote st) of
                              None \<Rightarrow> [] | Some old \<Rightarrow> old) @ points)))"
    using noteEffect_bend [OF assms(1,2), of exact env st']
    by (auto simp only: foldl_addPoint)
  have whammy: "toLowerCase (asString (syData st)) = (if exact then ''tbe'' else ''tb'') \<and>
      applyBeatEffect env st = Inr (applied, st') \<longrightarrow>
        (\<exists>points s.
           pointsLoop ''tremolobar-effect'' exact [] (newSy (newSy st)) = Inr (points, s) \<and>
           beat_whammyBarPoints (curBeat st') =
             map_option (whammyPositions env exact)
               (if points = [] then beat_whammyBarPoints (curBeat st)
                else Some ((case beat_whammyBarPoints (curBeat st) of
                              None \<Rightarrow> [] | Some old \<Rightarrow> old) @ points)))"
    using applyBeatEffect_whammy [OF assms(1,2), of exact env applied st']
    by (auto simp only: foldl_addPoint)
  have len: "length (bendPositions env False ps) = n"
    "length (whammyPositions env False ps) = n"
    "map bp_value (bendPositions env False ps) = map bp_value (take 60 ps)"
    "map bp_value (whammyPositions env False ps) = map bp_value (take 60 ps)"
    by (simp_all add: positions_values assms(3))
  have boff: "map bp_offset (bendPositions env False ps) =
      map (\<lambda>k. IntNumber (int k * bendStep n)) [0..<n]"
    by (simp only: bend_offsets assms(3))
  have bbound: "\<forall>k<n. 0 \<le> int k * bendStep n \<and> int k * bendStep n \<le> 60"
    using bendStep_bound [OF _ n60] by blast
  have bstep: "2 \<le> n \<longrightarrow>
      bendStep n = 60 div (int n - 1) \<and> 0 < bendStep n \<and>
      ((int n - 1) * bendStep n = 60 \<longleftrightarrow> (int n - 1) dvd 60)"
    using bendStep_pos [OF _ n60] last_bend_offset [OF _ n60]
    by (auto simp: bendStep_def truncDiv_pos)
  have woff: "\<exists>step. (1 \<le> n \<longrightarrow> 0 < step) \<and>
      map bp_offset (whammyPositions env False ps) =
        map (\<lambda>k. IntNumber (int k * step)) [0..<n] \<and>
      (\<forall>k<n. 0 \<le> int k * step \<and> int k * step \<le> 60)"
  proof (intro exI [of _ "whammyStep n"] conjI)
    show "1 \<le> n \<longrightarrow> 0 < whammyStep n" using whammyStep_pos [OF _ n60] by blast
    show "map bp_offset (whammyPositions env False ps) =
        map (\<lambda>k. IntNumber (int k * whammyStep n)) [0..<n]"
      by (simp only: whammy_offsets assms(3))
    show "\<forall>k<n. 0 \<le> int k * whammyStep n \<and> int k * whammyStep n \<le> 60"
      using whammyStep_bound [OF _ n60] by blast
  qed
  have exact: "list_all (\<lambda>p. bp_offset p \<noteq> NaN) (take 60 ps) \<longrightarrow>
      sorted (map offsetKey (bendPositions env True ps)) \<and>
      mset (bendPositions env True ps) = mset (take 60 ps) \<and>
      sorted (map offsetKey (whammyPositions env True ps)) \<and>
      mset (whammyPositions env True ps) = mset (take 60 ps)"
    using exact_positions [of ps env] by blast
  from bend whammy len boff bbound bstep woff exact show ?thesis by (intro conjI)
qed

text \<open>
  A note in the first bar at \<^verbatim>\<open>b (0 4 0)}\<close>: the three points get the offsets 0, 30 and 60.
  A beat at \<^verbatim>\<open>tbe (30 1 0 2 15 -1)}\<close>: the three points are kept in the order of their offsets
  0, 15 and 30.
\<close>

definition noteInFirstBar :: "Token list \<Rightarrow> Importer" where
  "noteInFirstBar tokens =
     upd_curVoice (voice_beats_update (\<lambda>_. [new_Beat\<lparr>beat_notes := [new_Note]\<rparr>]))
       (firstBar tokens)"

definition bendOfThree :: Importer where
  "bendOfThree =
     noteInFirstBar [TokString ''b'', TokLParensis, TokNumber 0, TokNumber 4, TokNumber 0,
       TokRParensis, TokRBrace]"

definition whammyOfThree :: Importer where
  "whammyOfThree =
     noteInFirstBar [TokString ''tbe'', TokLParensis, TokNumber 30, TokNumber 1, TokNumber 0,
       TokNumber 2, TokNumber 15, TokNumber (- 1), TokRParensis, TokRBrace]"

theorem parsed_bend_whammy_points_witness:
  "validVoice bendOfThree \<and> beatsOf bendOfThree \<noteq> [] \<and>
   beat_notes (curBeat bendOfThree) \<noteq> [] \<and>
   noteEffect env0 bendOfThree = Inr (projr (noteEffect env0 bendOfThree)) \<and>
   map_option (map bp_offset)
     (note_bendPoints (curNote (projr (noteEffect env0 bendOfThree)))) =
     Some [IntNumber 0, IntNumber 30, IntNumber 60] \<and>
   validVoice whammyOfThree \<and> beatsOf whammyOfThree \<noteq> [] \<and>
   applyBeatEffect env0 whammyOfThree = Inr (projr (applyBeatEffect env0 whammyOfThree)) \<and>
   map_option (map offsetKey)
     (beat_whammyBarPoints (curBeat (snd (projr (applyBeatEffect env0 whammyOfThree))))) =
     Some [0, 15, 30]"
proof -
  let ?b = bendOfThree
  let ?b' = "projr (noteEffect env0 ?b)"
  let ?w = whammyOfThree
  let ?w' = "snd (projr (applyBeatEffect env0 ?w))"
  let ?bp = "[\<lparr>bp_offset = IntNumber 0, bp_value = IntNumber 0\<rparr>,
              \<lparr>bp_offset = IntNumber 0, bp_value = IntNumber 4\<rparr>,
              \<lparr>bp_offset = IntNumber 0, bp_value = IntNumber 0\<rparr>]"
  let ?wp = "[\<lparr>bp_offset = IntNumber 30, bp_value = IntNumber 1\<rparr>,
              \<lparr>bp_offset = IntNumber 0, bp_value = IntNumber 2\<rparr>,
              \<lparr>bp_offset = IntNumber 15, bp_value = IntNumber (- 1)\<rparr>]"
  have vb: "validVoice ?b" "beatsOf ?b \<noteq> []" "beat_notes (curBeat ?b) \<noteq> []"
    and tb: "toLowerCase (asString (syData ?b)) = (if False then ''be'' else ''b'')"
    and ob: "note_bendPoints (curNote ?b) = None"
    by code_simp+
  have eb: "noteEffect env0 ?b = Inr ?b'" by code_simp
  have pb: "map_sum id fst (pointsLoop ''bend-effect-value'' False [] (newSy (newSy ?b))) =
      Inr ?bp"
    by code_simp
  have vw: "validVoice ?w" "beatsOf ?w \<noteq> []"
    and tw: "toLowerCase (asString (syData ?w)) = (if True then ''tbe'' else ''tb'')"
    and ow: "beat_whammyBarPoints (curBeat ?w) = None"
    by code_simp+
  have ew: "applyBeatEffect env0 ?w = Inr (projr (applyBeatEffect env0 ?w))" by code_simp
  then have ew': "applyBeatEffect env0 ?w = Inr (fst (projr (applyBeatEffect env0 ?w)), ?w')"
    by simp
  have pw: "map_sum id fst (pointsLoop ''tremolobar-effect'' True [] (newSy (newSy ?w))) =
      Inr ?wp"
    by code_simp
  note b = parsed_bend_whammy_points [OF vb(1,2), of 3 ?bp False env0 ?b']
  from b vb(3) tb eb pb ob have "note_bendPoints (curNote ?b') =
      Some (bendPositions env0 False ?bp)"
    by auto
  moreover from b have "map bp_offset (bendPositions env0 False ?bp) =
      map (\<lambda>k. IntNumber (int k * bendStep 3)) [0..<3]"
    by simp
  moreover have "map (\<lambda>k. IntNumber (int k * bendStep 3)) [0..<3] =
      [IntNumber 0, IntNumber 30, IntNumber 60]"
    by (simp add: bendStep_def truncDiv_def upt_rec)
  ultimately have rb: "map_option (map bp_offset) (note_bendPoints (curNote ?b')) =
      Some [IntNumber 0, IntNumber 30, IntNumber 60]"
    by simp
  note w = parsed_bend_whammy_points [OF vw(1,2), of 3 ?wp True env0 ?w'
      "fst (projr (applyBeatEffect env0 ?w))"]
  from w tw ew' pw ow have w1: "beat_whammyBarPoints (curBeat ?w') =
      Some (whammyPositions env0 True ?wp)"
    by auto
  from w have "sorted (map offsetKey (whammyPositions env0 True ?wp))"
    "mset (whammyPositions env0 True ?wp) = mset ?wp"
    by simp_all
  then have "sorted (map offsetKey (whammyPositions env0 True ?wp))"
    "mset (map offsetKey (whammyPositions env0 True ?wp)) = mset [0, 15, 30]"
    using arg_cong [of "mset (whammyPositions env0 True ?wp)" "mset ?wp" "image_mset offsetKey"]
    by (simp_all add: offsetKey_def roundDouble_def add.commute)
  then have "map offsetKey (whammyPositions env0 True ?wp) = [0, 15, 30]"
    using sorted_sort_id [of "map offsetKey (whammyPositions env0 True ?wp)"]
      properties_for_sort [of "[0, 15, 30 :: int]" "map offsetKey (whammyPositions env0 True ?wp)"]
    by simp
  with w1 have rw: "map_option (map offsetKey) (beat_whammyBarPoints (curBeat ?w')) =
      Some [0, 15, 30]"
    by simp
  from vb eb rb vw ew rw show ?thesis by (intro conjI)
qed

text \<open>
  The claim as stated fails: the eight points of \<^verbatim>\<open>3.3{b (0 4 0 4 0 4 0 4)}\<close> get the offsets
  0, 8, \<dots>, 56 and do not reach 60; the two points of \<^verbatim>\<open>3.3{tb (0 4)}\<close> get 0 and 30.
\<close>

definition bendOffsets :: "Score \<Rightarrow> JsNumber list option list" where
  "bendOffsets sc =
     map (\<lambda>n. map_option (map bp_offset) (note_bendPoints n))
       (concat (map beat_notes (allBeats sc)))"

definition whammyOffsets :: "Score \<Rightarrow> JsNumber list option list" where
  "whammyOffsets sc = map (\<lambda>b. map_option (map bp_offset) (beat_whammyBarPoints b)) (allBeats sc)"

theorem bend_offsets_counterexample:
  "map_sum id bendOffsets
     (readScore env0
        ([TokNumber 3, TokDot, TokNumber 3, TokLBrace, TokString ''b'', TokLParensis] @
         map TokNumber [0, 4, 0, 4, 0, 4, 0, 4] @ [TokRParensis, TokRBrace])) =
     Inr [Some (map IntNumber [0, 8, 16, 24, 32, 40, 48, 56])] \<and>
   last (map IntNumber [0, 8, 16, 24, 32, 40, 48, 56]) \<noteq> IntNumber 60 \<and>
   map_sum id whammyOffsets
     (readScore env0
        ([TokNumber 3, TokDot, TokNumber 3, TokLBrace, TokString ''tb'', TokLParensis] @
         map TokNumber [0, 4] @ [TokRParensis, TokRBrace])) =
     Inr [Some (map IntNumber [0, 30])]"
proof -
  have "map_sum id bendOffsets
     (readScore env0
        ([TokNumber 3, TokDot, TokNumber 3, TokLBrace, TokString ''b'', TokLParensis] @
         map TokNumber [0, 4, 0, 4, 0, 4, 0, 4] @ [TokRParensis, TokRBrace])) =
     Inr [Some (map IntNumber [0, 8, 16, 24, 32, 40, 48, 56])]"
    by code_simp
  moreover have "map_sum id whammyOffsets
     (readScore env0
        ([TokNumber 3, TokDot, TokNumber 3, TokLBrace, TokString ''tb'', TokLParensis] @
         map TokNumber [0, 4] @ [TokRParensis, TokRBrace])) =
     Inr [Some (map IntNumber [0, 30])]"
    by code_simp
  ultimately show ?thesis by simp
qed

subsection \<open>Alternate endings\<close>

lemma bit_jsOr:
  "k < 32 \<Longrightarrow> bit (jsOr a b) k \<longleftrightarrow> bit a k \<or> bit b k"
  by (simp add: jsOr_def bit_sint_iff bit_or_iff bit_word_of_int_iff)

lemma bit_jsShiftLeft_1:
  "k < 32 \<Longrightarrow> bit (jsShiftLeft 1 m) k \<longleftrightarrow> k = nat (m mod 32)"
  by (auto simp: jsShiftLeft_def bit_sint_iff bit_push_bit_iff bit_1_iff bit_exp_iff)

lemma applyAlternateEnding_mask:
  assumes "syData st = NumData n" "1 \<le> n" "n < 2 ^ 53" "curMasterIndex st < masterCount st"
  shows "\<exists>st'. applyAlternateEnding st = Inr st' \<and>
    master_alternateEndings (curMaster st') =
      jsOr (master_alternateEndings (curMaster st)) (jsShiftLeft 1 (n - 1))"
proof -
  from assms(2,3) have "jsMinus n 1 = n - 1" by (simp add: jsMinus_small)
  with assms(1,2,4) show ?thesis
    by (simp add: applyAlternateEnding_def asNumber_def curMaster_upd_curMaster)
qed

text \<open>
  C5. An alternate ending below 1 aborts the parse with an error. An ending \<open>n\<close> from 1 to 32
  sets bit \<open>n - 1\<close> of the mask of the master bar and keeps the bits that were set. The shift
  \<^verbatim>\<open>1 << (n - 1)\<close> is a shift of a 32-bit integer, and no value is too large for the importer:
  at \<open>n = 33\<close> the shift count 32 counts as 0, and the bit that is set is bit 0, the bit of the
  first ending.
\<close>

theorem alternate_ending_bits:
  assumes "syData st = NumData n" and "curMasterIndex st < masterCount st"
  shows
    "(n < 1 \<longrightarrow> applyAlternateEnding st = Inl (error st ''alternateending'' Number True)) \<and>
     (1 \<le> n \<and> n \<le> 32 \<longrightarrow>
        (\<exists>st'. applyAlternateEnding st = Inr st' \<and>
           (\<forall>i<32. bit (master_alternateEndings (curMaster st')) i \<longleftrightarrow>
              i = nat (n - 1) \<or> bit (master_alternateEndings (curMaster st)) i))) \<and>
     (n = 33 \<longrightarrow>
        (\<exists>st'. applyAlternateEnding st = Inr st' \<and>
           (\<forall>i<32. bit (master_alternateEndings (curMaster st')) i \<longleftrightarrow>
              i = 0 \<or> bit (master_alternateEndings (curMaster st)) i)))"
proof (intro conjI impI)
  assume "n < 1"
  with assms(1) show "applyAlternateEnding st = Inl (error st ''alternateending'' Number True)"
    by (simp add: applyAlternateEnding_def asNumber_def)
next
  assume n: "1 \<le> n \<and> n \<le> 32"
  then have "n < 2 ^ 53" by simp
  from applyAlternateEnding_mask [OF assms(1) _ this assms(2)] n
  obtain st' where st': "applyAlternateEnding st = Inr st'"
    "master_alternateEndings (curMaster st') =
       jsOr (master_alternateEndings (curMaster st)) (jsShiftLeft 1 (n - 1))"
    by auto
  from n have "(n - 1) mod 32 = n - 1" by simp
  then have "\<forall>i<32. bit (master_alternateEndings (curMaster st')) i \<longleftrightarrow>
      i = nat (n - 1) \<or> bit (master_alternateEndings (curMaster st)) i"
    by (auto simp: st'(2) bit_jsOr bit_jsShiftLeft_1)
  with st'(1) show "\<exists>st'. applyAlternateEnding st = Inr st' \<and>
      (\<forall>i<32. bit (master_alternateEndings (curMaster st')) i \<longleftrightarrow>
         i = nat (n - 1) \<or> bit (master_alternateEndings (curMaster st)) i)"
    by blast
next
  assume n: "n = 33"
  then have "n < 2 ^ 53" by simp
  from applyAlternateEnding_mask [OF assms(1) _ this assms(2)] n
  obtain st' where st': "applyAlternateEnding st = Inr st'"
    "master_alternateEndings (curMaster st') =
       jsOr (master_alternateEndings (curMaster st)) (jsShiftLeft 1 32)"
    by auto
  have "\<forall>i<32. bit (master_alternateEndings (curMaster st')) i \<longleftrightarrow>
      i = 0 \<or> bit (master_alternateEndings (curMaster st)) i"
    by (auto simp: st'(2) bit_jsOr bit_jsShiftLeft_1)
  with st'(1) show "\<exists>st'. applyAlternateEnding st = Inr st' \<and>
      (\<forall>i<32. bit (master_alternateEndings (curMaster st')) i \<longleftrightarrow>
         i = 0 \<or> bit (master_alternateEndings (curMaster st)) i)"
    by blast
qed

text \<open>
  In the first bar, whose mask is 0: \<^verbatim>\<open>\ae 3 r\<close> gives the mask 4, \<^verbatim>\<open>\ae 0 r\<close> is an error, and
  \<^verbatim>\<open>\ae 33 r\<close> gives the mask 1, the one of \<^verbatim>\<open>\ae 1 r\<close>.
\<close>

definition endingInFirstBar :: "int \<Rightarrow> Importer" where
  "endingInFirstBar n = firstBar [TokNumber n, TokString ''r'']"

theorem alternate_ending_bits_witness:
  "(\<exists>st'. applyAlternateEnding (endingInFirstBar 3) = Inr st' \<and>
      (\<forall>i<32. bit (master_alternateEndings (curMaster st')) i \<longleftrightarrow> i = 2)) \<and>
   (\<exists>st'. applyAlternateEnding (endingInFirstBar 33) = Inr st' \<and>
      (\<forall>i<32. bit (master_alternateEndings (curMaster st')) i \<longleftrightarrow> i = 0)) \<and>
   applyAlternateEnding (endingInFirstBar 0) =
     Inl (AlphaTexSymbolError ''alternateending'' Number Number) \<and>
   map_sum id (\<lambda>sc. map master_alternateEndings (score_masterBars sc))
     (readScore env0 [TokMetaCommand ''ae'', TokNumber 3, TokString ''r'']) = Inr [4] \<and>
   map_sum id (\<lambda>sc. map master_alternateEndings (score_masterBars sc))
     (readScore env0 [TokMetaCommand ''ae'', TokNumber 33, TokString ''r'']) = Inr [1] \<and>
   map_sum id (\<lambda>sc. map master_alternateEndings (score_masterBars sc))
     (readScore env0 [TokMetaCommand ''ae'', TokNumber 1, TokString ''r'']) = Inr [1] \<and>
   readScore env0 [TokMetaCommand ''ae'', TokNumber 0, TokString ''r''] =
     Inl (UnsupportedFormatCause (AlphaTexSymbolError ''alternateending'' Number Number))"
proof -
  have st: "syData (endingInFirstBar n) = NumData n"
    "curMasterIndex (endingInFirstBar n) < masterCount (endingInFirstBar n)"
    "sy (endingInFirstBar n) = Number"
    "master_alternateEndings (curMaster (endingInFirstBar n)) = 0" for n
    by (simp_all add: endingInFirstBar_def firstBar_def Let_def newSy_def
        createDefaultScore_def newTrack_def new_Importer_def curTrack_def curStaff_def
        curMasterIndex_def curMaster_def masterCount_def upd_curStaff_def upd_curTrack_def
        ensureStaveCount_def new_Track_def new_Staff_def newBar_def addMasterBar_def
        new_Score_def new_MasterBar_def)
  note t = alternate_ending_bits [OF st(1,2)]
  from t [of 3] have a: "\<exists>st'. applyAlternateEnding (endingInFirstBar 3) = Inr st' \<and>
      (\<forall>i<32. bit (master_alternateEndings (curMaster st')) i \<longleftrightarrow> i = 2)"
    by (simp add: st(4))
  from t [of 33] have b: "\<exists>st'. applyAlternateEnding (endingInFirstBar 33) = Inr st' \<and>
      (\<forall>i<32. bit (master_alternateEndings (curMaster st')) i \<longleftrightarrow> i = 0)"
    by (simp add: st(4))
  from t [of 0] have c: "applyAlternateEnding (endingInFirstBar 0) =
      Inl (AlphaTexSymbolError ''alternateending'' Number Number)"
    by (simp add: error_def st(3))
  have d: "map_sum id (\<lambda>sc. map master_alternateEndings (score_masterBars sc))
     (readScore env0 [TokMetaCommand ''ae'', TokNumber 3, TokString ''r'']) = Inr [4]"
    by code_simp
  have e: "map_sum id (\<lambda>sc. map master_alternateEndings (score_masterBars sc))
     (readScore env0 [TokMetaCommand ''ae'', TokNumber 33, TokString ''r'']) = Inr [1]"
    by code_simp
  have f: "map_sum id (\<lambda>sc. map master_alternateEndings (score_masterBars sc))
     (readScore env0 [TokMetaCommand ''ae'', TokNumber 1, TokString ''r'']) = Inr [1]"
    by code_simp
  have g: "readScore env0 [TokMetaCommand ''ae'', TokNumber 0, TokString ''r''] =
     Inl (UnsupportedFormatCause (AlphaTexSymbolError ''alternateending'' Number Number))"
    by code_simp
  from a b c d e f g show ?thesis by (intro conjI)
qed

subsection \<open>Beat repetition\<close>


text \<open>
  \<^verbatim>\<open>3.3*3\<close> in the first bar of the default staff: three beats, each with the note on fret 3 of
  string 3; setting the duration of the last one to a half note leaves the other two quarter
  notes.
\<close>

definition fretThreeTimesThree :: Importer where
  "fretThreeTimesThree =
     firstBar [TokNumber 3, TokDot, TokNumber 3, TokMultiply, TokNumber 3]"


subsection \<open>Spellings of clef, triplet feel and key signature\<close>

text \<open>
  The key a name stands for in music notation, by the circle of fifths. The tonics F, C, G, D,
  A, E, B are the positions -1 to 5; a sharp adds 7 and a flat takes 7 away. A major key has
  as many sharps as the position of its tonic (flats when negative), a minor key those of the
  major key three positions below its tonic. The key signatures of the model are named after
  the major key.
\<close>

definition fifthsOfLetter :: "char \<Rightarrow> int option" where
  "fifthsOfLetter c =
     map_of [(CHR ''f'', - 1), (CHR ''c'', 0), (CHR ''g'', 1), (CHR ''d'', 2), (CHR ''a'', 3),
             (CHR ''e'', 4), (CHR ''b'', 5)] c"

definition accidentalsOfName :: "string \<Rightarrow> int option" where
  "accidentalsOfName name =
     (case name of
        [] \<Rightarrow> None
      | letter # rest \<Rightarrow>
          (case fifthsOfLetter letter of
             None \<Rightarrow> None
           | Some position \<Rightarrow>
               (let (position, rest) =
                      (if rest \<noteq> [] \<and> hd rest = CHR ''#'' then (position + 7, tl rest)
                       else if rest \<noteq> [] \<and> hd rest = CHR ''b'' then (position - 7, tl rest)
                       else (position, rest))
                in if rest = [] \<or> rest = ''major'' then Some position
                   else if rest = ''minor'' then Some (position - 3)
                   else None)))"

definition keyWithAccidentals :: "int \<Rightarrow> KeySignature option" where
  "keyWithAccidentals n =
     map_of [(- 7, KeySignature_Cb), (- 6, KeySignature_Gb), (- 5, KeySignature_Db),
             (- 4, KeySignature_Ab), (- 3, KeySignature_Eb), (- 2, KeySignature_Bb),
             (- 1, KeySignature_F), (0, KeySignature_C), (1, KeySignature_G),
             (2, KeySignature_D), (3, KeySignature_A), (4, KeySignature_E),
             (5, KeySignature_B), (6, KeySignature_FSharp), (7, KeySignature_CSharp)] n"

definition keyOfName :: "string \<Rightarrow> KeySignature option" where
  "keyOfName name = Option.bind (accidentalsOfName name) keyWithAccidentals"

lemma key_spellings_by_fifths:
  "list_all (\<lambda>(name, k). name = ''d#minor'' \<or> name = ''ebminor'' \<or> keyOfName name = Some k)
     keySignatureSpellings"
  by code_simp

lemma parse_by_table:
  "parseClefFromString s =
     (case map_of clefSpellings (toLowerCase s) of Some c \<Rightarrow> c | None \<Rightarrow> G2)"
  "parseTripletFeelFromString s =
     (case map_of tripletFeelSpellings (toLowerCase s) of
        Some t \<Rightarrow> t | None \<Rightarrow> NoTripletFeel)"
  "parseKeySignature s =
     (case map_of keySignatureSpellings (toLowerCase s) of
        Some k \<Rightarrow> k | None \<Rightarrow> KeySignature_C)"
  by (simp_all add: parseClefFromString_def clefSpellings_def parseTripletFeelFromString_def
      tripletFeelSpellings_def parseKeySignature_def keySignatureSpellings_def Let_def)

lemma spellings_distinct:
  "distinct (map fst clefSpellings)" "distinct (map fst tripletFeelSpellings)"
  "distinct (map fst keySignatureSpellings)"
  by (simp_all add: clefSpellings_def tripletFeelSpellings_def keySignatureSpellings_def)

lemma bar_meta_string_value:
  assumes "input st = TokString s # rest"
  shows
    "toLowerCase (asString (syData st)) = ''clef'' \<Longrightarrow>
       barMetaCommand env st =
         Inr (newSy (upd_curBar (bar_clef_update (\<lambda>_. parseClefFromString s)) (newSy st)))"
    "toLowerCase (asString (syData st)) = ''tf'' \<Longrightarrow>
       barMetaCommand env st =
         Inr (newSy (upd_curMaster
           (master_tripletFeel_update (\<lambda>_. parseTripletFeelFromString s)) (newSy st)))"
    "toLowerCase (asString (syData st)) = ''ks'' \<Longrightarrow>
       barMetaCommand env st =
         Inr (newSy (upd_curMaster
           (master_keySignature_update (\<lambda>_. parseKeySignature s)) (newSy st)))"
  using assms
  by (simp_all add: barMetaCommand_def Let_def newSy_def asString_def)

text \<open>
  C8. After \<^verbatim>\<open>\clef\<close>, \<^verbatim>\<open>\tf\<close> and \<^verbatim>\<open>\ks\<close> a string terminal is never an error: the bar meta
  writes the value of the string to the clef of the bar, and to the triplet feel and the key
  signature of its master bar. A string that is none of the recognised spellings (compared
  in lower case) gives the default: clef G2, no triplet feel, key signature C. A recognised
  spelling gives the value of its \<^verbatim>\<open>case\<close> label; for the names of keys that is the key the
  name stands for, except for \<^verbatim>\<open>d#minor\<close> and \<^verbatim>\<open>ebminor\<close>, whose labels are crossed: D sharp
  minor, the relative of F sharp major, is read as G flat, and E flat minor, the relative of
  G flat major, as F sharp.
\<close>

theorem bar_meta_spellings:
  assumes "input st = TokString s # rest"
    and "validStaff st" and "staff_bars (curStaff st) \<noteq> []"
    and "curMasterIndex st < masterCount st"
  shows
    "(toLowerCase (asString (syData st)) = ''clef'' \<longrightarrow>
        (\<exists>st'. barMetaCommand env st = Inr st' \<and>
           bar_clef (curBar st') = parseClefFromString s)) \<and>
     (toLowerCase (asString (syData st)) = ''tf'' \<longrightarrow>
        (\<exists>st'. barMetaCommand env st = Inr st' \<and>
           master_tripletFeel (curMaster st') = parseTripletFeelFromString s)) \<and>
     (toLowerCase (asString (syData st)) = ''ks'' \<longrightarrow>
        (\<exists>st'. barMetaCommand env st = Inr st' \<and>
           master_keySignature (curMaster st') = parseKeySignature s)) \<and>
     (toLowerCase s \<notin> fst ` set clefSpellings \<longrightarrow> parseClefFromString s = G2) \<and>
     (toLowerCase s \<notin> fst ` set tripletFeelSpellings \<longrightarrow>
        parseTripletFeelFromString s = NoTripletFeel) \<and>
     (toLowerCase s \<notin> fst ` set keySignatureSpellings \<longrightarrow>
        parseKeySignature s = KeySignature_C) \<and>
     (\<forall>c. (toLowerCase s, c) \<in> set clefSpellings \<longrightarrow> parseClefFromString s = c) \<and>
     (\<forall>t. (toLowerCase s, t) \<in> set tripletFeelSpellings \<longrightarrow>
        parseTripletFeelFromString s = t) \<and>
     (\<forall>k. (toLowerCase s, k) \<in> set keySignatureSpellings \<longrightarrow>
        parseKeySignature s = k \<and>
        (toLowerCase s \<noteq> ''d#minor'' \<and> toLowerCase s \<noteq> ''ebminor'' \<longrightarrow>
           keyOfName (toLowerCase s) = Some k)) \<and>
     (toLowerCase s = ''d#minor'' \<longrightarrow>
        parseKeySignature s = KeySignature_Gb \<and>
        keyOfName (toLowerCase s) = Some KeySignature_FSharp) \<and>
     (toLowerCase s = ''ebminor'' \<longrightarrow>
        parseKeySignature s = KeySignature_FSharp \<and>
        keyOfName (toLowerCase s) = Some KeySignature_Gb)"
proof -
  note v = bar_meta_string_value [OF assms(1), of env]
  from assms(2,3) have clef: "toLowerCase (asString (syData st)) = ''clef'' \<longrightarrow>
      (\<exists>st'. barMetaCommand env st = Inr st' \<and> bar_clef (curBar st') = parseClefFromString s)"
    by (simp add: v(1) curBar_upd_curBar)
  from assms(4) have feel: "toLowerCase (asString (syData st)) = ''tf'' \<longrightarrow>
      (\<exists>st'. barMetaCommand env st = Inr st' \<and>
         master_tripletFeel (curMaster st') = parseTripletFeelFromString s)"
    by (simp add: v(2) curMaster_upd_curMaster)
  from assms(4) have key: "toLowerCase (asString (syData st)) = ''ks'' \<longrightarrow>
      (\<exists>st'. barMetaCommand env st = Inr st' \<and>
         master_keySignature (curMaster st') = parseKeySignature s)"
    by (simp add: v(3) curMaster_upd_curMaster)
  have d1: "toLowerCase s \<notin> fst ` set clefSpellings \<longrightarrow> parseClefFromString s = G2"
    by (simp add: parse_by_table map_of_eq_None_iff [THEN iffD2])
  have d2: "toLowerCase s \<notin> fst ` set tripletFeelSpellings \<longrightarrow>
      parseTripletFeelFromString s = NoTripletFeel"
    by (simp add: parse_by_table map_of_eq_None_iff [THEN iffD2])
  have d3: "toLowerCase s \<notin> fst ` set keySignatureSpellings \<longrightarrow>
      parseKeySignature s = KeySignature_C"
    by (simp add: parse_by_table map_of_eq_None_iff [THEN iffD2])
  have r1: "\<forall>c. (toLowerCase s, c) \<in> set clefSpellings \<longrightarrow> parseClefFromString s = c"
    by (simp add: parse_by_table map_of_eq_Some_iff [OF spellings_distinct(1), THEN iffD2])
  have r2: "\<forall>t. (toLowerCase s, t) \<in> set tripletFeelSpellings \<longrightarrow>
      parseTripletFeelFromString s = t"
    by (simp add: parse_by_table map_of_eq_Some_iff [OF spellings_distinct(2), THEN iffD2])
  have r3: "\<forall>k. (toLowerCase s, k) \<in> set keySignatureSpellings \<longrightarrow>
      parseKeySignature s = k \<and>
      (toLowerCase s \<noteq> ''d#minor'' \<and> toLowerCase s \<noteq> ''ebminor'' \<longrightarrow>
         keyOfName (toLowerCase s) = Some k)"
  proof (intro allI impI)
    fix k
    assume m: "(toLowerCase s, k) \<in> set keySignatureSpellings"
    then have "parseKeySignature s = k"
      by (simp add: parse_by_table map_of_eq_Some_iff [OF spellings_distinct(3), THEN iffD2])
    moreover from m key_spellings_by_fifths
    have "toLowerCase s = ''d#minor'' \<or> toLowerCase s = ''ebminor'' \<or>
        keyOfName (toLowerCase s) = Some k"
      by (auto simp: list_all_iff)
    ultimately show "parseKeySignature s = k \<and>
      (toLowerCase s \<noteq> ''d#minor'' \<and> toLowerCase s \<noteq> ''ebminor'' \<longrightarrow>
         keyOfName (toLowerCase s) = Some k)"
      by blast
  qed
  have x1: "toLowerCase s = ''d#minor'' \<longrightarrow>
      parseKeySignature s = KeySignature_Gb \<and>
      keyOfName (toLowerCase s) = Some KeySignature_FSharp"
  proof
    assume l: "toLowerCase s = ''d#minor''"
    have "keyOfName ''d#minor'' = Some KeySignature_FSharp" by code_simp
    with l show "parseKeySignature s = KeySignature_Gb \<and>
        keyOfName (toLowerCase s) = Some KeySignature_FSharp"
      by (simp add: parseKeySignature_def)
  qed
  have x2: "toLowerCase s = ''ebminor'' \<longrightarrow>
      parseKeySignature s = KeySignature_FSharp \<and>
      keyOfName (toLowerCase s) = Some KeySignature_Gb"
  proof
    assume l: "toLowerCase s = ''ebminor''"
    have "keyOfName ''ebminor'' = Some KeySignature_Gb" by code_simp
    with l show "parseKeySignature s = KeySignature_FSharp \<and>
        keyOfName (toLowerCase s) = Some KeySignature_Gb"
      by (simp add: parseKeySignature_def)
  qed
  from clef feel key d1 d2 d3 r1 r2 r3 x1 x2 show ?thesis by (intro conjI)
qed

text \<open>
  \<^verbatim>\<open>\ks soprano\<close>, \<^verbatim>\<open>\clef soprano\<close> and \<^verbatim>\<open>\tf soprano\<close> in the first bar give the defaults,
  \<^verbatim>\<open>\clef Bass\<close> the F4 clef, and \<^verbatim>\<open>\ks D#minor\<close> the key of G flat; the same through
  \<^verbatim>\<open>readScore\<close>.
\<close>

definition metaInFirstBar :: "string \<Rightarrow> string \<Rightarrow> Importer" where
  "metaInFirstBar command value =
     firstBar [TokMetaCommand command, TokString value, TokString ''r'']"

theorem bar_meta_spellings_witness:
  "(\<exists>st'. barMetaCommand env0 (metaInFirstBar ''clef'' ''soprano'') = Inr st' \<and>
      bar_clef (curBar st') = G2) \<and>
   (\<exists>st'. barMetaCommand env0 (metaInFirstBar ''tf'' ''soprano'') = Inr st' \<and>
      master_tripletFeel (curMaster st') = NoTripletFeel) \<and>
   (\<exists>st'. barMetaCommand env0 (metaInFirstBar ''ks'' ''soprano'') = Inr st' \<and>
      master_keySignature (curMaster st') = KeySignature_C) \<and>
   (\<exists>st'. barMetaCommand env0 (metaInFirstBar ''clef'' ''Bass'') = Inr st' \<and>
      bar_clef (curBar st') = F4) \<and>
   (\<exists>st'. barMetaCommand env0 (metaInFirstBar ''ks'' ''D#minor'') = Inr st' \<and>
      master_keySignature (curMaster st') = KeySignature_Gb) \<and>
   keyOfName ''d#minor'' = Some KeySignature_FSharp \<and>
   map_sum id (\<lambda>sc. map master_keySignature (score_masterBars sc))
     (readScore env0 [TokMetaCommand ''ks'', TokString ''D#minor'', TokString ''r'']) =
     Inr [KeySignature_Gb] \<and>
   map_sum id (\<lambda>sc. map master_keySignature (score_masterBars sc))
     (readScore env0 [TokMetaCommand ''ks'', TokString ''soprano'', TokString ''r'']) =
     Inr [KeySignature_C]"
proof -
  have st: "input (metaInFirstBar c v) = TokString v # [TokString ''r'']"
    "validStaff (metaInFirstBar c v)" "staff_bars (curStaff (metaInFirstBar c v)) \<noteq> []"
    "curMasterIndex (metaInFirstBar c v) < masterCount (metaInFirstBar c v)"
    "asString (syData (metaInFirstBar c v)) = c" for c v
    by (simp_all add: metaInFirstBar_def firstBar_def Let_def newSy_def createDefaultScore_def
        newTrack_def new_Importer_def validStaff_def curTrack_def curStaff_def curMasterIndex_def
        masterCount_def upd_curStaff_def upd_curTrack_def ensureStaveCount_def new_Track_def
        new_Staff_def newBar_def addMasterBar_def new_Score_def asString_def)
  have low: "toLowerCase ''clef'' = ''clef''" "toLowerCase ''tf'' = ''tf''"
    "toLowerCase ''ks'' = ''ks''" "toLowerCase ''soprano'' = ''soprano''"
    "toLowerCase ''Bass'' = ''bass''" "toLowerCase ''D#minor'' = ''d#minor''"
    by (simp_all add: toLowerCase_def lowerChar_def)
  have out: "''soprano'' \<notin> fst ` set clefSpellings"
    "''soprano'' \<notin> fst ` set tripletFeelSpellings"
    "''soprano'' \<notin> fst ` set keySignatureSpellings"
    by (simp_all add: clefSpellings_def tripletFeelSpellings_def keySignatureSpellings_def)
  have bass: "(''bass'', F4) \<in> set clefSpellings" by (simp add: clefSpellings_def)
  note t = bar_meta_spellings [OF st(1-4), of _ _ env0]
  from t [of "''clef''" "''soprano''"] low out
  have a: "\<exists>st'. barMetaCommand env0 (metaInFirstBar ''clef'' ''soprano'') = Inr st' \<and>
      bar_clef (curBar st') = G2"
    by (auto simp: st(5))
  from t [of "''tf''" "''soprano''"] low out
  have b: "\<exists>st'. barMetaCommand env0 (metaInFirstBar ''tf'' ''soprano'') = Inr st' \<and>
      master_tripletFeel (curMaster st') = NoTripletFeel"
    by (auto simp: st(5))
  from t [of "''ks''" "''soprano''"] low out
  have c: "\<exists>st'. barMetaCommand env0 (metaInFirstBar ''ks'' ''soprano'') = Inr st' \<and>
      master_keySignature (curMaster st') = KeySignature_C"
    by (auto simp: st(5))
  from t [of "''clef''" "''Bass''"] low bass
  have d: "\<exists>st'. barMetaCommand env0 (metaInFirstBar ''clef'' ''Bass'') = Inr st' \<and>
      bar_clef (curBar st') = F4"
    by (auto simp: st(5))
  from t [of "''ks''" "''D#minor''"] low
  have e: "\<exists>st'. barMetaCommand env0 (metaInFirstBar ''ks'' ''D#minor'') = Inr st' \<and>
      master_keySignature (curMaster st') = KeySignature_Gb"
    and f: "keyOfName ''d#minor'' = Some KeySignature_FSharp"
    by (auto simp: st(5))
  have g: "map_sum id (\<lambda>sc. map master_keySignature (score_masterBars sc))
     (readScore env0 [TokMetaCommand ''ks'', TokString ''D#minor'', TokString ''r'']) =
     Inr [KeySignature_Gb]"
    by code_simp
  have h: "map_sum id (\<lambda>sc. map master_keySignature (score_masterBars sc))
     (readScore env0 [TokMetaCommand ''ks'', TokString ''soprano'', TokString ''r'']) =
     Inr [KeySignature_C]"
    by code_simp
  from a b c d e f g h show ?thesis by (intro conjI)
qed

subsection \<open>Chord properties\<close>

text \<open>
  C10. In a chord properties block, \<^verbatim>\<open>showfingering\<close> followed by a string writes the chord's
  \<^verbatim>\<open>showDiagram\<close> flag (true unless the string is \<^verbatim>\<open>false\<close> in lower case) and leaves
  \<^verbatim>\<open>showFingering\<close> as it was; followed by a number it writes \<^verbatim>\<open>showFingering\<close> (true unless
  the number is 0); anything else after it is an error, so that \<^verbatim>\<open>showFingering\<close> changes for
  a number only.
\<close>

theorem showfingering_string_writes_showDiagram:
  assumes "toLowerCase (asString (syData st)) = ''showfingering''"
  shows
    "(input st = TokString v # rest \<longrightarrow>
        chordProperty chord st =
          Inr (chord\<lparr>chord_showDiagram := (toLowerCase v \<noteq> ''false'')\<rparr>, newSy (newSy st)) \<and>
        chord_showFingering (chord\<lparr>chord_showDiagram := (toLowerCase v \<noteq> ''false'')\<rparr>) =
          chord_showFingering chord) \<and>
     (input st = TokNumber n # rest \<longrightarrow>
        chordProperty chord st =
          Inr (chord\<lparr>chord_showFingering := (n \<noteq> 0)\<rparr>, newSy (newSy st))) \<and>
     (\<forall>chord' st'. chordProperty chord st = Inr (chord', st') \<and> sy (newSy st) \<noteq> Number \<longrightarrow>
        chord_showFingering chord' = chord_showFingering chord)"
  using assms
  by (auto simp: chordProperty_def Let_def newSy_Cons asString_def asNumber_def
      split: if_splits)

text \<open>
  \<^verbatim>\<open>\chord {showfingering "false"} "C" 0 1 0 2 3 x . r\<close>: the chord is stored with
  \<^verbatim>\<open>showDiagram\<close> unset and \<^verbatim>\<open>showFingering\<close> still set.
\<close>

theorem showfingering_string_writes_showDiagram_witness:
  "chordProperty new_Chord
     ((new_Importer [TokString ''false'', TokRBrace])
        \<lparr>sy := String, syData := StrData ''showFingering''\<rparr>) =
     Inr (new_Chord\<lparr>chord_showDiagram := False\<rparr>,
       newSy (newSy ((new_Importer [TokString ''false'', TokRBrace])
         \<lparr>sy := String, syData := StrData ''showFingering''\<rparr>))) \<and>
   map_sum id
     (\<lambda>sc. map (\<lambda>(k, c). (k, chord_showDiagram c, chord_showFingering c))
        (staff_chords (hd (track_staves (hd (score_tracks sc))))))
     (readScore env0
        [TokMetaCommand ''chord'', TokLBrace, TokString ''showfingering'', TokString ''false'',
         TokRBrace, TokString ''C'', TokNumber 0, TokNumber 1, TokNumber 0, TokNumber 2,
         TokNumber 3, TokString ''x'', TokDot, TokString ''r'']) =
     Inr [(''c00'', False, True)]"
proof -
  let ?st = "(new_Importer [TokString ''false'', TokRBrace])
        \<lparr>sy := String, syData := StrData ''showFingering''\<rparr>"
  have tag: "toLowerCase (asString (syData ?st)) = ''showfingering''"
    by (simp add: asString_def toLowerCase_def lowerChar_def)
  have inp: "input ?st = TokString ''false'' # [TokRBrace]"
    by (simp add: new_Importer_def)
  have low: "toLowerCase ''false'' = ''false''"
    by (simp add: toLowerCase_def lowerChar_def)
  from showfingering_string_writes_showDiagram [OF tag, of "''false''" "[TokRBrace]" new_Chord]
    inp low
  have "chordProperty new_Chord ?st =
      Inr (new_Chord\<lparr>chord_showDiagram := False\<rparr>, newSy (newSy ?st))"
    by simp
  moreover have "map_sum id
     (\<lambda>sc. map (\<lambda>(k, c). (k, chord_showDiagram c, chord_showFingering c))
        (staff_chords (hd (track_staves (hd (score_tracks sc))))))
     (readScore env0
        [TokMetaCommand ''chord'', TokLBrace, TokString ''showfingering'', TokString ''false'',
         TokRBrace, TokString ''C'', TokNumber 0, TokNumber 1, TokNumber 0, TokNumber 2,
         TokNumber 3, TokString ''x'', TokDot, TokString ''r'']) =
     Inr [(''c00'', False, True)]"
    by code_simp
  ultimately show ?thesis by simp
qed

end
